theory Spec2Isabelle
  imports Complex_Main "HOL-Library.Signed_Division"
begin

section \<open>Data model\<close>

text \<open>
  The C++ type \<open>Real\<close> (a double) is modelled by the HOL type \<open>real\<close>: rounding,
  overflow and the non-finite values of IEEE arithmetic are outside the model, except in
  the two characteristic-speed functions, where the source tests \<open>isfinite\<close> and the
  model carries "not finite" as \<open>None\<close>, and in the section on the conversions in
  floating-point arithmetic, where the values are finite, an infinity or NaN. In the model
  of \<open>ConsToPrim\<close> on the reals \<open>sqrt\<close> and \<open>/\<close> are those of HOL: it is the code where
  the determinant of the metric is positive, and what the conversions do where it is not
  is stated on the floating-point model. The C++ \<open>int\<close> is modelled by \<open>int\<close> (grid
  extents are far from the 32-bit limit); counts of variables are \<open>nat\<close>.

  A cell is addressed by \<open>(m, k, j, i)\<close>: mesh block and the three cell indices. An array
  access \<open>a(m, n, k, j, i)\<close> of the source is written \<open>a (m, k, j, i) n\<close>.
\<close>

type_synonym cell = "int \<times> int \<times> int \<times> int"
type_synonym array5 = "cell \<Rightarrow> nat \<Rightarrow> real"
type_synonym array4 = "cell \<Rightarrow> real"
type_synonym vec3 = "real \<times> real \<times> real"

text \<open>
  Modelled from the spec: the enumerations of \<open>athena.hpp\<close> are not part of the
  sources at hand. The spec's data model lists the primitive state as density, three
  velocities, pressure, then the passive scalars, and the conserved state as mass density,
  three momenta, total energy, then the scalar densities; the magnetic field has three
  components.
\<close>

definition IDN :: nat where "IDN = 0"
definition IM1 :: nat where "IM1 = 1"
definition IVX :: nat where "IVX = 1"
definition IM2 :: nat where "IM2 = 2"
definition IVY :: nat where "IVY = 2"
definition IM3 :: nat where "IM3 = 3"
definition IVZ :: nat where "IVZ = 3"
definition IEN :: nat where "IEN = 4"
definition IPR :: nat where "IPR = 4"
definition IBX :: nat where "IBX = 0"
definition IBY :: nat where "IBY = 1"
definition IBZ :: nat where "IBZ = 2"

text \<open>
  The point arrays \<open>prim_pt[NPRIM]\<close>, \<open>cons_pt[NCONS]\<close> and the metric arrays
  \<open>g3d[NSPMETRIC]\<close>, \<open>g3u[NSPMETRIC]\<close> are indexed by enumerators only; they are records
  with one field for each enumerator, the species block \<open>PYF + n\<close>, \<open>CYD + n\<close> being a
  function of \<open>n\<close>.
\<close>

record prim_pt =
  PRH :: real
  PVX :: real
  PVY :: real
  PVZ :: real
  PPR :: real
  PTM :: real
  PYF :: "nat \<Rightarrow> real"

record cons_pt =
  CDN :: real
  CSX :: real
  CSY :: real
  CSZ :: real
  CTA :: real
  CYD :: "nat \<Rightarrow> real"

record g3 =
  S11 :: real
  S12 :: real
  S13 :: real
  S22 :: real
  S23 :: real
  S33 :: real

text \<open>The error codes named by \<open>ErrorToString\<close>; \<open>OTHER\<close> stands for every enumerator
  that its \<open>switch\<close> sends to the \<open>default\<close> branch.\<close>

datatype Error = SUCCESS | RHO_TOO_BIG | RHO_TOO_SMALL | NANS_IN_CONS | MAG_TOO_BIG
  | BRACKETING_FAILED | NO_SOLUTION | OTHER

fun ErrorToString :: "Error \<Rightarrow> string" where
  "ErrorToString SUCCESS = ''SUCCESS''"
| "ErrorToString RHO_TOO_BIG = ''RHO_TOO_BIG''"
| "ErrorToString RHO_TOO_SMALL = ''RHO_TOO_SMALL''"
| "ErrorToString NANS_IN_CONS = ''NANS_IN_CONS''"
| "ErrorToString MAG_TOO_BIG = ''MAG_TOO_BIG''"
| "ErrorToString BRACKETING_FAILED = ''BRACKETING_FAILED''"
| "ErrorToString NO_SOLUTION = ''NO_SOLUTION''"
| "ErrorToString OTHER = ''OTHER''"

record SolverResult =
  error :: Error
  iterations :: int
  cons_floor :: bool
  prim_floor :: bool
  cons_adjusted :: bool

text \<open>
  The state of the equation-of-state and error policy object that the code at hand reads
  or writes: the baryon mass and the two flags that tell the solver to report a floored
  primitive or conserved state as a failure.
\<close>

record eos_policy =
  GetBaryonMass :: real
  IsPrimitiveFlooringFailure :: bool
  IsConservedFlooringFailure :: bool

text \<open>
  The member functions of \<open>Primitive::PrimitiveSolver\<close> and of its equation of state are
  defined in headers that are not part of the sources at hand: they are parameters of the
  model. Each takes the policy object it is called on. \<open>ConToPrim\<close> returns its result
  together with the two point arrays it writes, \<open>ApplyPrimitiveFloor\<close> the flag and the
  primitive state it may have changed.
\<close>

record PrimitiveSolver =
  GetTemperatureFromP :: "eos_policy \<Rightarrow> real \<Rightarrow> real \<Rightarrow> (nat \<Rightarrow> real) \<Rightarrow> real"
  ApplyPrimitiveFloor :: "eos_policy \<Rightarrow> prim_pt \<Rightarrow> bool \<times> prim_pt"
  PrimToCon :: "eos_policy \<Rightarrow> prim_pt \<Rightarrow> vec3 \<Rightarrow> g3 \<Rightarrow> cons_pt"
  ConToPrim :: "eos_policy \<Rightarrow> cons_pt \<Rightarrow> vec3 \<Rightarrow> g3 \<Rightarrow> g3 \<Rightarrow> SolverResult \<times> prim_pt \<times> cons_pt"
  GetSoundSpeed :: "eos_policy \<Rightarrow> real \<Rightarrow> real \<Rightarrow> (nat \<Rightarrow> real) \<Rightarrow> real"
  GetEnthalpy :: "eos_policy \<Rightarrow> real \<Rightarrow> real \<Rightarrow> (nat \<Rightarrow> real) \<Rightarrow> real"
  SquareVector :: "vec3 \<Rightarrow> g3 \<Rightarrow> real"

text \<open>
  What the mesh block pack supplies and the conversions only read: the variable counts,
  the excision data of the coordinates, the ADM fields, and \<open>junk\<close>, the contents of the
  slots of the local arrays that the source leaves uninitialised.
\<close>

record env =
  nmhd :: nat
  nscalars :: nat
  nmb_thispack :: int
  bh_excise :: bool
  excision_floor :: "cell \<Rightarrow> bool"
  dexcise :: real
  pexcise :: real
  g_dd :: "cell \<Rightarrow> nat \<Rightarrow> nat \<Rightarrow> real"
  alpha :: "cell \<Rightarrow> real"
  beta_u :: "cell \<Rightarrow> nat \<Rightarrow> real"
  psi4 :: "cell \<Rightarrow> real"
  K_dd :: "cell \<Rightarrow> nat \<Rightarrow> nat \<Rightarrow> real"
  junk :: "nat \<Rightarrow> real"

record face_fld =
  x1f :: array4
  x2f :: array4
  x3f :: array4

text \<open>A \<open>printf\<close> of the source: the format's first line, the integers and the reals
  printed.\<close>

datatype printed = Printf string "string list" "int list" "real list"

text \<open>
  What the conversions write: the conserved, cell-centred magnetic and primitive arrays,
  the per-cell flags \<open>fofc\<close> of the first-order flux correction, the counter
  \<open>ecounter.nfofc\<close>, the policy object, and the standard output.
\<close>

record pack =
  cons :: array5
  bcc0 :: array5
  prim :: array5
  fofc :: "cell \<Rightarrow> bool"
  nfofc :: int
  eos :: eos_policy
  out :: "printed list"

definition upd :: "(cell \<Rightarrow> nat \<Rightarrow> 'v) \<Rightarrow> cell \<Rightarrow> nat \<Rightarrow> 'v \<Rightarrow> cell \<Rightarrow> nat \<Rightarrow> 'v" where
  "upd a c n v = a(c := (a c)(n := v))"

text \<open>\<open>for (int n = 0; n < nscal; n++) a(m, nhyd + n, k, j, i) = f n\<close>\<close>

definition store_scalars :: "(cell \<Rightarrow> nat \<Rightarrow> 'v) \<Rightarrow> cell \<Rightarrow> nat \<Rightarrow> nat \<Rightarrow> (nat \<Rightarrow> 'v)
    \<Rightarrow> cell \<Rightarrow> nat \<Rightarrow> 'v" where
  "store_scalars a c nhyd nscal f = foldl (\<lambda>a n. upd a c (nhyd + n) (f n)) a [0..<nscal]"

text \<open>\<open>for (int n = 0; n < nscal; n++) prim(m, nhyd + n, k, j, i);\<close>: the loop of
  \<open>ConsToPrim\<close> after the copy of the pressure. Its body is an expression statement: it
  reads the element and stores nothing.\<close>

definition read_scalars :: "(cell \<Rightarrow> nat \<Rightarrow> 'v) \<Rightarrow> cell \<Rightarrow> nat \<Rightarrow> nat \<Rightarrow> cell \<Rightarrow> nat \<Rightarrow> 'v" where
  "read_scalars a c nhyd nscal = foldl (\<lambda>a n. let r = a c (nhyd + n) in a) a [0..<nscal]"

section \<open>The metric at a point\<close>

text \<open>Modelled from the spec: \<open>Primitive::GetDeterminant\<close> is not part of the sources
  at hand; it is the determinant of the symmetric spatial metric.\<close>

definition GetDeterminant :: "g3 \<Rightarrow> real" where
  "GetDeterminant g = S11 g * S22 g * S33 g + 2 * S12 g * S13 g * S23 g
     - (S11 g * S23 g * S23 g + S12 g * S12 g * S33 g + S13 g * S13 g * S22 g)"

text \<open>Modelled from the spec: \<open>SpatialInv\<close> is not part of the sources at hand; it is
  the inverse of the symmetric spatial metric, from the cofactors and the inverse of the
  determinant.\<close>

definition SpatialInv :: "real \<Rightarrow> g3 \<Rightarrow> g3" where
  "SpatialInv detginv g =
     \<lparr>S11 = (- (S23 g * S23 g) + S22 g * S33 g) * detginv,
      S12 = (S13 g * S23 g - S12 g * S33 g) * detginv,
      S13 = (- (S13 g * S22 g) + S12 g * S23 g) * detginv,
      S22 = (- (S13 g * S13 g) + S11 g * S33 g) * detginv,
      S23 = (S12 g * S13 g - S11 g * S23 g) * detginv,
      S33 = (- (S12 g * S12 g) + S11 g * S22 g) * detginv\<rparr>"

definition metric_at :: "env \<Rightarrow> cell \<Rightarrow> g3" where
  "metric_at E c =
     \<lparr>S11 = g_dd E c 0 0, S12 = g_dd E c 0 1, S13 = g_dd E c 0 2,
      S22 = g_dd E c 1 1, S23 = g_dd E c 1 2, S33 = g_dd E c 2 2\<rparr>"

section \<open>Copies between the point arrays and the grid\<close>

text \<open>
  The blocks of assignments that move a point array into the grid at the cell \<open>c\<close>.
  \<open>store_cons\<close> is the block "save the densitized conserved variables", \<open>copy_prim\<close>
  the block of \<open>ConsToPrim\<close> after the solve, whose last loop stores nothing.
\<close>

definition store_cons :: "array5 \<Rightarrow> cell \<Rightarrow> nat \<Rightarrow> nat \<Rightarrow> real \<Rightarrow> cons_pt \<Rightarrow> array5" where
  "store_cons a c nhyd nscal sdetg cons_pt =
     store_scalars
       (upd (upd (upd (upd (upd a c IDN (CDN cons_pt * sdetg))
          c IM1 (CSX cons_pt * sdetg))
          c IM2 (CSY cons_pt * sdetg))
          c IM3 (CSZ cons_pt * sdetg))
          c IEN (CTA cons_pt * sdetg))
       c nhyd nscal (\<lambda>n. CYD cons_pt n * sdetg)"

definition copy_prim :: "array5 \<Rightarrow> cell \<Rightarrow> nat \<Rightarrow> nat \<Rightarrow> real \<Rightarrow> prim_pt \<Rightarrow> array5" where
  "copy_prim a c nhyd nscal mb prim_pt =
     read_scalars
       (upd (upd (upd (upd (upd a c IDN (PRH prim_pt * mb))
          c IVX (PVX prim_pt))
          c IVY (PVY prim_pt))
          c IVZ (PVZ prim_pt))
          c IPR (PPR prim_pt))
       c nhyd nscal"

section \<open>ConsToPrim\<close>

text \<open>The cell of the flat index \<open>idx\<close> of the reduction; \<open>/\<close> on C++ integers
  truncates.\<close>

definition c2p_cell :: "int \<Rightarrow> int \<Rightarrow> int \<Rightarrow> int \<Rightarrow> int \<Rightarrow> int \<Rightarrow> int \<Rightarrow> cell" where
  "c2p_cell il jl kl ni nji nkji idx =
    (let m = idx sdiv nkji;
         k = (idx - m * nkji) sdiv nji;
         j = (idx - m * nkji - k * nji) sdiv ni;
         i = (idx - m * nkji - k * nji - j * ni) + il
     in (m, k + kl, j + jl, i))"

text \<open>Extract the conserved variables, undensitized.\<close>

definition extract_cons :: "env \<Rightarrow> cell \<Rightarrow> array5 \<Rightarrow> real \<Rightarrow> cons_pt" where
  "extract_cons E c u isdetg =
     \<lparr>CDN = u c IDN * isdetg, CSX = u c IM1 * isdetg, CSY = u c IM2 * isdetg,
      CSZ = u c IM3 * isdetg, CTA = u c IEN * isdetg,
      CYD = (\<lambda>n. if n < nscalars E then u c (nmhd E + n) * isdetg else junk E n)\<rparr>"

text \<open>The cell-centred field the solve uses: with \<open>floors_only\<close> the array as it is,
  otherwise the array after the face-centred fields are averaged into it.\<close>

definition cc_fields :: "face_fld \<Rightarrow> bool \<Rightarrow> cell \<Rightarrow> array5 \<Rightarrow> array5" where
  "cc_fields bfc floors_only c b =
    (case c of (m, k, j, i) \<Rightarrow>
       if floors_only then b
       else upd (upd (upd b
              c IBX (0.5 * (x1f bfc (m, k, j, i) + x1f bfc (m, k, j, i + 1))))
              c IBY (0.5 * (x2f bfc (m, k, j, i) + x2f bfc (m, k, j + 1, i))))
              c IBZ (0.5 * (x3f bfc (m, k, j, i) + x3f bfc (m, k + 1, j, i))))"

text \<open>The excised branch: default primitives, no solve.\<close>

definition c2p_excised :: "env \<Rightarrow> PrimitiveSolver \<Rightarrow> eos_policy \<Rightarrow> cons_pt \<Rightarrow> vec3 \<Rightarrow> g3
    \<Rightarrow> SolverResult \<times> prim_pt \<times> cons_pt" where
  "c2p_excised E ps eosc cons_pt b3u g3d =
    (let mb = GetBaryonMass eosc;
         prim_pt0 = \<lparr>PRH = dexcise E / mb, PVX = 0, PVY = 0, PVZ = 0, PPR = pexcise E,
                     PTM = junk E 0,
                     PYF = (\<lambda>n. if n < nscalars E then CYD cons_pt 0 / CDN cons_pt
                                 else junk E (Suc n))\<rparr>;
         prim_pt = prim_pt0\<lparr>PTM := GetTemperatureFromP ps eosc (PRH prim_pt0) (PPR prim_pt0)
                                      (PYF prim_pt0)\<rparr>;
         result = \<lparr>error = SUCCESS, iterations = 0, cons_floor = False, prim_floor = False,
                   cons_adjusted = True\<rparr>
     in (result, prim_pt, PrimToCon ps eosc prim_pt b3u g3d))"

text \<open>"If we're in an excised region, set the primitives to some default value",
  otherwise solve.\<close>

definition c2p_solve :: "env \<Rightarrow> PrimitiveSolver \<Rightarrow> eos_policy \<Rightarrow> cell \<Rightarrow> cons_pt \<Rightarrow> vec3
    \<Rightarrow> g3 \<Rightarrow> g3 \<Rightarrow> SolverResult \<times> prim_pt \<times> cons_pt" where
  "c2p_solve E ps eosc c cons_pt b3u g3d g3u =
    (if bh_excise E
     then (if excision_floor E c then c2p_excised E ps eosc cons_pt b3u g3d
           else ConToPrim ps eosc cons_pt b3u g3d g3u)
     else ConToPrim ps eosc cons_pt b3u g3d g3u)"

text \<open>The diagnostic of a failed solve outside a floors-only pass.\<close>

definition c2p_report :: "env \<Rightarrow> cell \<Rightarrow> Error \<Rightarrow> cons_pt \<Rightarrow> real \<Rightarrow> g3 \<Rightarrow> printed" where
  "c2p_report E c e cons_pt_old detg g3d =
    (case c of (m, k, j, i) \<Rightarrow>
       Printf ''An error occurred during the primitive solve'' [ErrorToString e] [m, k, j, i]
         [CDN cons_pt_old, CSX cons_pt_old, CSY cons_pt_old, CSZ cons_pt_old, CTA cons_pt_old,
          detg, S11 g3d, S12 g3d, S13 g3d, S22 g3d, S23 g3d, S33 g3d,
          alpha E c, beta_u E c 0, beta_u E c 1, beta_u E c 2, psi4 E c,
          K_dd E c 0 0, K_dd E c 0 1, K_dd E c 0 2, K_dd E c 1 1, K_dd E c 1 2, K_dd E c 2 2])"

text \<open>
  The body of the kernel at the cell \<open>c = (m, k, j, i)\<close>, with the running sum \<open>sumd\<close>
  of the reduction. \<open>eosc\<close> is the policy object the lambda has captured, \<open>r\<close> the
  three outputs of the solve: its result and the point arrays it has written.
\<close>

definition c2p_body :: "env \<Rightarrow> PrimitiveSolver \<Rightarrow> eos_policy \<Rightarrow> face_fld \<Rightarrow> bool \<Rightarrow> cell
    \<Rightarrow> pack \<times> int \<Rightarrow> pack \<times> int" where
  "c2p_body E ps eosc bfc floors_only c = (\<lambda>(s, sumd).
    (let nhyd = nmhd E; nscal = nscalars E; mb = GetBaryonMass eosc;
         g3d = metric_at E c;
         detg = GetDeterminant g3d;
         sdetg = sqrt detg;
         isdetg = 1 / sdetg;
         g3u = SpatialInv (1 / detg) g3d;
         cons_pt = extract_cons E c (cons s) isdetg;
         cons_pt_old = cons_pt;
         s1 = s\<lparr>bcc0 := cc_fields bfc floors_only c (bcc0 s)\<rparr>;
         b3u = (bcc0 s1 c IBX * isdetg, bcc0 s1 c IBY * isdetg, bcc0 s1 c IBZ * isdetg);
         r = c2p_solve E ps eosc c cons_pt b3u g3d g3u;
         result = fst r; prim_pt = fst (snd r); cons_pt1 = snd (snd r)
     in if error result \<noteq> SUCCESS \<and> floors_only
        then (s1\<lparr>fofc := (fofc s1)(c := True)\<rparr>, sumd + 1)
        else
          (let s2 = (if error result \<noteq> SUCCESS
                     then s1\<lparr>out := out s1 @
                            [c2p_report E c (error result) cons_pt_old detg g3d]\<rparr>
                     else s1);
               s3 = s2\<lparr>prim := copy_prim (prim s2) c nhyd nscal mb prim_pt\<rparr>
           in if cons_floor result \<or> cons_adjusted result
              then (s3\<lparr>cons := store_cons (cons s3) c nhyd nscal sdetg cons_pt1\<rparr>, sumd)
              else (s3, sumd))))"

text \<open>\<open>Kokkos::parallel_reduce\<close> over \<open>0 \<le> idx < nmkji\<close> with the sum as reducer. Each
  index works on its own cell, so the pass is the fold over the indices in order.\<close>

definition c2p_pass :: "env \<Rightarrow> PrimitiveSolver \<Rightarrow> eos_policy \<Rightarrow> face_fld \<Rightarrow> bool
    \<Rightarrow> int \<Rightarrow> int \<Rightarrow> int \<Rightarrow> int \<Rightarrow> int \<Rightarrow> int \<Rightarrow> int \<Rightarrow> pack \<Rightarrow> pack \<times> int" where
  "c2p_pass E ps eosc bfc floors_only il jl kl ni nji nkji nmkji s =
     fold (\<lambda>idx. c2p_body E ps eosc bfc floors_only (c2p_cell il jl kl ni nji nkji idx))
       [0..nmkji - 1] (s, 0)"

text \<open>
  The sequential driver: with \<open>floors_only\<close> it saves the two failure flags of the policy,
  sets both, runs the pass, restores them and adds the sum of the reduction to the
  counter. The lambda captures the policy object as it is after the flags are set.
\<close>

definition ConsToPrim :: "env \<Rightarrow> PrimitiveSolver \<Rightarrow> face_fld \<Rightarrow> int \<Rightarrow> int \<Rightarrow> int \<Rightarrow> int
    \<Rightarrow> int \<Rightarrow> int \<Rightarrow> bool \<Rightarrow> pack \<Rightarrow> pack" where
  "ConsToPrim E ps bfc il iu jl ju kl ku floors_only s =
    (let ni = iu - il + 1;
         nji = (ju - jl + 1) * ni;
         nkji = (ku - kl + 1) * nji;
         nmkji = nmb_thispack E * nkji;
         prim_failure = IsPrimitiveFlooringFailure (eos s);
         cons_failure = IsConservedFlooringFailure (eos s);
         s1 = (if floors_only
               then s\<lparr>eos := (eos s)\<lparr>IsPrimitiveFlooringFailure := True,
                                       IsConservedFlooringFailure := True\<rparr>\<rparr>
               else s);
         p = c2p_pass E ps (eos s1) bfc floors_only il jl kl ni nji nkji nmkji s1;
         s2 = fst p; nfloord = snd p
     in if floors_only
        then s2\<lparr>eos := (eos s2)\<lparr>IsPrimitiveFlooringFailure := prim_failure,
                                  IsConservedFlooringFailure := cons_failure\<rparr>,
                nfofc := nfofc s2 + nfloord\<rparr>
        else s2)"

section \<open>Characteristic speeds\<close>

text \<open>
  The two functions test \<open>isfinite\<close> on the square root of the discriminant. In the model
  the velocities, the metric and what the equation of state returns are finite reals; a
  value that the source computes from them is not finite exactly when a square root is
  taken of a negative number or a division is by zero, and from then on every value the
  two functions compute from it up to the test is not finite either (they only add,
  subtract, multiply and take square roots). Such a value is \<open>None\<close>.
\<close>

type_synonym Real = "real option"

definition fin :: "real \<Rightarrow> Real" where
  "fin x = Some x"

definition lift2 :: "(real \<Rightarrow> real \<Rightarrow> real) \<Rightarrow> Real \<Rightarrow> Real \<Rightarrow> Real" where
  "lift2 f a b = (case a of None \<Rightarrow> None | Some x \<Rightarrow> (case b of None \<Rightarrow> None | Some y \<Rightarrow> Some (f x y)))"

definition r_add :: "Real \<Rightarrow> Real \<Rightarrow> Real" where
  "r_add = lift2 (+)"

definition r_sub :: "Real \<Rightarrow> Real \<Rightarrow> Real" where
  "r_sub = lift2 (-)"

definition r_mul :: "Real \<Rightarrow> Real \<Rightarrow> Real" where
  "r_mul = lift2 (*)"

text \<open>A finite numerator over a finite denominator.\<close>

definition r_div :: "real \<Rightarrow> real \<Rightarrow> Real" where
  "r_div x y = (if y = 0 then None else Some (x / y))"

definition r_sqrt :: "Real \<Rightarrow> Real" where
  "r_sqrt a = (case a of None \<Rightarrow> None | Some x \<Rightarrow> if x < 0 then None else Some (sqrt x))"

definition isfinite :: "Real \<Rightarrow> bool" where
  "isfinite a \<longleftrightarrow> a \<noteq> None"

text \<open>What a call returns to the kernel that made it, or that it has ended the process
  with \<open>exit(EXIT_FAILURE)\<close>; both with what it has printed.\<close>

datatype 'a outcome = Returns 'a "printed list" | Exits "printed list"

definition vel_component :: "vec3 \<Rightarrow> int \<Rightarrow> real" where
  "vel_component u index = (case u of (u0, u1, u2) \<Rightarrow>
     if index = 0 then u0 else if index = 1 then u1 else u2)"

text \<open>\<open>GetGRSoundSpeeds\<close>: \<open>index = pvx - PVX\<close> is the direction, 0, 1 or 2. The
  function returns nothing; it assigns \<open>lambda_p\<close> and \<open>lambda_m\<close>, which are not
  modelled beyond that the call returns. Of the values it prints, the record of the
  \<open>printf\<close> keeps those that are finite in the model.\<close>

definition GetGRSoundSpeeds :: "PrimitiveSolver \<Rightarrow> eos_policy \<Rightarrow> prim_pt \<Rightarrow> g3 \<Rightarrow> real \<Rightarrow> int
    \<Rightarrow> unit outcome" where
  "GetGRSoundSpeeds ps eosc prm g3d gii index =
    (let uu = (PVX prm, PVY prm, PVZ prm);
         usq = SquareVector ps uu g3d;
         iWsq = r_div 1 (1 + usq);
         iW = r_sqrt iWsq;
         vsq = r_mul (fin usq) iWsq;
         vu = r_mul (fin (vel_component uu index)) iW;
         cs = GetSoundSpeed ps eosc (PRH prm) (PTM prm) (PYF prm);
         csq = cs * cs;
         iWsq_ad = r_sub (fin 1) (r_mul vsq (fin csq));
         dis = r_mul (r_mul (fin csq) iWsq)
                 (r_sub (r_mul (fin gii) iWsq_ad) (r_mul (r_mul vu vu) (fin (1 - csq))));
         sdis = r_sqrt dis
     in if \<not> isfinite sdis
        then Exits [Printf ''There's a problem with the sound speed!'' [] []
                      [gii, csq, usq, PRH prm, PTM prm]]
        else Returns () [])"

text \<open>\<open>GetGRFastMagnetosonicSpeeds\<close>: the same test, with the \<open>exit\<close> commented out.\<close>

definition GetGRFastMagnetosonicSpeeds :: "PrimitiveSolver \<Rightarrow> eos_policy \<Rightarrow> prim_pt \<Rightarrow> real
    \<Rightarrow> g3 \<Rightarrow> real \<Rightarrow> int \<Rightarrow> unit outcome" where
  "GetGRFastMagnetosonicSpeeds ps eosc prm bsq g3d gii index =
    (let uu = (PVX prm, PVY prm, PVZ prm);
         usq = SquareVector ps uu g3d;
         iWsq = r_div 1 (1 + usq);
         iW = r_sqrt iWsq;
         vsq = r_mul (fin usq) iWsq;
         vu = r_mul (fin (vel_component uu index)) iW;
         cs = GetSoundSpeed ps eosc (PRH prm) (PTM prm) (PYF prm);
         csq = cs * cs;
         H = GetBaryonMass eosc * PRH prm * GetEnthalpy ps eosc (PRH prm) (PTM prm) (PYF prm);
         vasq = r_div bsq (bsq + H);
         cmsq = r_sub (r_add (fin csq) vasq) (r_mul (fin csq) vasq);
         iWsq_ad = r_sub (fin 1) (r_mul vsq cmsq);
         dis = r_mul (r_mul cmsq iWsq)
                 (r_sub (r_mul (fin gii) iWsq_ad) (r_mul (r_mul vu vu) (r_sub (fin 1) cmsq)));
         sdis = r_sqrt dis
     in if \<not> isfinite sdis
        then Returns () [Printf ''There's a problem with the magnetosonic speed!'' [] []
                          [gii, csq, usq, PRH prm, PTM prm, bsq]]
        else Returns () [])"

section \<open>CalcFluxes\<close>

text \<open>A scratch array \<open>ScrArray2D\<close>: \<open>w(n, i)\<close> is \<open>w n i\<close>.\<close>

type_synonym scratch = "nat \<Rightarrow> int \<Rightarrow> real"

datatype ReconstructionMethod = dc | plm | ppm4 | ppmx | wenoz

datatype DynGR_RSolver = llf_dyngr | hlle_dyngr

datatype TaskStatus = fail | complete | incomplete

text \<open>What \<open>CalcFluxes\<close> reads of the mesh and of the MHD object besides \<open>env\<close>: the
  cell index bounds \<open>is, ie, js, je, ks, ke\<close> (\<open>is\<close> is written \<open>is'\<close>), the
  dimensionality flags, the reconstruction method and the flag \<open>use_fofc\<close>.\<close>

record mesh =
  is' :: int
  ie :: int
  js :: int
  je :: int
  ks :: int
  ke :: int
  one_d :: bool
  two_d :: bool
  multi_d :: bool
  three_d :: bool
  recon_method :: ReconstructionMethod
  use_fofc :: bool

text \<open>The face fluxes \<open>uflx\<close> and the edge electric fields.\<close>

record flux_data =
  uflx_x1f :: array5
  uflx_x2f :: array5
  uflx_x3f :: array5
  e3x1 :: array4
  e2x1 :: array4
  e1x2 :: array4
  e3x2 :: array4
  e2x3 :: array4
  e1x3 :: array4

text \<open>
  The calls \<open>CalcFluxes\<close> makes to code that is not part of the sources at hand, in the
  order it makes them: a reconstruction in direction \<open>d\<close> at \<open>(m, k, j)\<close>, a Riemann
  solve in direction \<open>d\<close> at \<open>(m, k, j)\<close> with the contents of the four interface
  arrays it is handed, and the first-order flux correction.
\<close>

datatype event = Recon nat int int int
  | Solve nat int int int scratch scratch scratch scratch
  | Fofc int

text \<open>
  The collaborators, parameters of the model. \<open>Reconstruct method extrema d q m k j\<close> are
  the left and right interface values that the reconstruction of the array \<open>q\<close> in
  direction \<open>d\<close> computes for the row \<open>(m, k, j)\<close>; the reconstruction stores them into the
  two scratch arrays it is given, for every variable and every \<open>i\<close> of its index range,
  and stores nothing else. \<open>RSolve\<close> is \<open>LLF_DYNGR\<close> or \<open>HLLE_DYNGR\<close>: it is handed the
  interface arrays and the face field and writes the fluxes and electric fields; it returns
  the two primitive interface arrays as well, since \<open>PrimToConsPt\<close> stores floored
  primitives into the array it reads.
\<close>

record flux_ops =
  Reconstruct :: "ReconstructionMethod \<Rightarrow> bool \<Rightarrow> nat \<Rightarrow> array5 \<Rightarrow> int \<Rightarrow> int \<Rightarrow> int
    \<Rightarrow> scratch \<times> scratch"
  RSolve :: "DynGR_RSolver \<Rightarrow> nat \<Rightarrow> int \<Rightarrow> int \<Rightarrow> int \<Rightarrow> int \<Rightarrow> int
    \<Rightarrow> scratch \<Rightarrow> scratch \<Rightarrow> scratch \<Rightarrow> scratch \<Rightarrow> array4 \<Rightarrow> flux_data
    \<Rightarrow> (scratch \<times> scratch) \<times> flux_data"
  FOFC :: "int \<Rightarrow> flux_data \<times> pack \<Rightarrow> flux_data \<times> pack"

definition write_range :: "nat \<Rightarrow> int \<Rightarrow> int \<Rightarrow> scratch \<Rightarrow> scratch \<Rightarrow> scratch" where
  "write_range nv il iu q buf = (\<lambda>n i. if n < nv \<and> il \<le> i \<and> i \<le> iu then q n i else buf n i)"

text \<open>"Calculate fluxes of scalars (if any)": the body of the inner loop at \<open>(n, i)\<close>,
  and the two loops. The three sweeps have the same text, each on its own flux array.\<close>

definition scalar_flux :: "scratch \<Rightarrow> scratch \<Rightarrow> int \<Rightarrow> int \<Rightarrow> int \<Rightarrow> nat \<Rightarrow> int \<Rightarrow> array5
    \<Rightarrow> array5" where
  "scalar_flux wl wr m k j n i flx =
    (if flx (m, k, j, i) IDN \<ge> 0
     then upd flx (m, k, j, i) n (flx (m, k, j, i) IDN * wl n i)
     else upd flx (m, k, j, i) n (flx (m, k, j, i) IDN * wr n i))"

definition scalar_fluxes :: "nat \<Rightarrow> nat \<Rightarrow> int \<Rightarrow> int \<Rightarrow> scratch \<Rightarrow> scratch \<Rightarrow> int \<Rightarrow> int \<Rightarrow> int
    \<Rightarrow> array5 \<Rightarrow> array5" where
  "scalar_fluxes nhyd nvars il iu wl wr m k j flx =
    (if nvars > nhyd
     then fold (\<lambda>n. fold (scalar_flux wl wr m k j n) [il..iu]) [nhyd..<nvars] flx
     else flx)"

text \<open>
  The team of the first direction at \<open>(m, k, j)\<close>. \<open>scr0\<close> is what the scratch memory
  holds when the team starts. The reconstruction over \<open>is - 1 \<le> i \<le> ie + 1\<close> gives
  \<open>qR[i]\<close> and \<open>qL[i+1]\<close>.
\<close>

definition x1_team :: "flux_ops \<Rightarrow> env \<Rightarrow> mesh \<Rightarrow> DynGR_RSolver \<Rightarrow> array5 \<Rightarrow> array5 \<Rightarrow> face_fld
    \<Rightarrow> scratch \<Rightarrow> int \<times> int \<times> int \<Rightarrow> flux_data \<Rightarrow> flux_data \<times> event list" where
  "x1_team ops E M rsolver w0 b0cc b0 scr0 t fd =
    (case t of (m, k, j) \<Rightarrow>
      let nhyd = nmhd E; nvars = nmhd E + nscalars E;
          extrema = (recon_method M = ppmx);
          qw = Reconstruct ops (recon_method M) extrema 1 w0 m k j;
          qb = Reconstruct ops (recon_method M) extrema 1 b0cc m k j;
          wl = write_range nvars (is' M) (ie M + 2) (fst qw) scr0;
          wr = write_range nvars (is' M - 1) (ie M + 1) (snd qw) scr0;
          bl = write_range 3 (is' M) (ie M + 2) (fst qb) scr0;
          br = write_range 3 (is' M - 1) (ie M + 1) (snd qb) scr0;
          r = RSolve ops rsolver IVX m k j (is' M) (ie M + 1) wl wr bl br (x1f b0) fd;
          wl1 = fst (fst r); wr1 = snd (fst r); fd1 = snd r
      in (fd1\<lparr>uflx_x1f := scalar_fluxes nhyd nvars (is' M) (ie M + 1) wl1 wr1 m k j (uflx_x1f fd1)\<rparr>,
          [Recon 1 m k j, Solve 1 m k j wl wr bl br]))"

text \<open>
  The second and third directions. The six scratch arrays \<open>scr1\<close> to \<open>scr6\<close> of a team
  are the store \<open>scr\<close>, addressed by 1 to 6; \<open>wl\<close>, \<open>wl_jp1\<close>, \<open>bl\<close>, \<open>bl_jp1\<close> are
  views of them, chosen by the parity of the sweep index \<open>v\<close> (\<open>j\<close> in the second
  direction, \<open>k\<close> in the third); \<open>wr\<close> is \<open>scr3\<close> and \<open>br\<close> is \<open>scr6\<close>. \<open>%\<close> on C++
  integers is the remainder of the truncating division.
\<close>

definition wl_of :: "int \<Rightarrow> nat" where
  "wl_of v = (if v smod 2 = 0 then 2 else 1)"

definition wl_next_of :: "int \<Rightarrow> nat" where
  "wl_next_of v = (if v smod 2 = 0 then 1 else 2)"

definition bl_of :: "int \<Rightarrow> nat" where
  "bl_of v = (if v smod 2 = 0 then 5 else 4)"

definition bl_next_of :: "int \<Rightarrow> nat" where
  "bl_next_of v = (if v smod 2 = 0 then 4 else 5)"

definition uflx_of :: "nat \<Rightarrow> flux_data \<Rightarrow> array5" where
  "uflx_of d fd = (if d = 2 then uflx_x2f fd else uflx_x3f fd)"

definition uflx_set :: "nat \<Rightarrow> array5 \<Rightarrow> flux_data \<Rightarrow> flux_data" where
  "uflx_set d a fd = (if d = 2 then fd\<lparr>uflx_x2f := a\<rparr> else fd\<lparr>uflx_x3f := a\<rparr>)"

record team_state =
  scr :: "nat \<Rightarrow> scratch"
  fluxes :: flux_data
  events :: "event list"

text \<open>One iteration of the loop over \<open>j\<close> (\<open>d = 2\<close>, \<open>v = j\<close>, \<open>lo = js\<close>) or over \<open>k\<close>
  (\<open>d = 3\<close>, \<open>v = k\<close>, \<open>lo = ks\<close>) at \<open>(m, k, j)\<close>.\<close>

definition sweep_step :: "flux_ops \<Rightarrow> env \<Rightarrow> mesh \<Rightarrow> DynGR_RSolver \<Rightarrow> array5 \<Rightarrow> array5 \<Rightarrow> face_fld
    \<Rightarrow> nat \<Rightarrow> int \<Rightarrow> int \<Rightarrow> int \<Rightarrow> team_state \<Rightarrow> team_state" where
  "sweep_step ops E M rsolver w0 b0cc b0 d m k j ts =
    (let nhyd = nmhd E; nvars = nmhd E + nscalars E;
         extrema = (recon_method M = ppmx);
         v = (if d = 2 then j else k);
         lo = (if d = 2 then js M else ks M);
         wl = wl_of v; wl_jp1 = wl_next_of v; wr = 3;
         bl = bl_of v; bl_jp1 = bl_next_of v; br = 6;
         qw = Reconstruct ops (recon_method M) extrema d w0 m k j;
         qb = Reconstruct ops (recon_method M) extrema d b0cc m k j;
         s1 = (scr ts)(wl_jp1 := write_range nvars (is' M - 1) (ie M + 1) (fst qw) (scr ts wl_jp1));
         s2 = s1(wr := write_range nvars (is' M - 1) (ie M + 1) (snd qw) (s1 wr));
         s3 = s2(bl_jp1 := write_range 3 (is' M - 1) (ie M + 1) (fst qb) (s2 bl_jp1));
         s4 = s3(br := write_range 3 (is' M - 1) (ie M + 1) (snd qb) (s3 br));
         ts1 = ts\<lparr>scr := s4, events := events ts @ [Recon d m k j]\<rparr>;
         ts2 = (if v > lo - 1
                then (let r = RSolve ops rsolver (if d = 2 then IVY else IVZ) m k j
                                (is' M - 1) (ie M + 1) (s4 wl) (s4 wr) (s4 bl) (s4 br)
                                (if d = 2 then x2f b0 else x3f b0) (fluxes ts1)
                      in ts1\<lparr>scr := s4(wl := fst (fst r), wr := snd (fst r)),
                             fluxes := snd r,
                             events := events ts1 @ [Solve d m k j (s4 wl) (s4 wr) (s4 bl) (s4 br)]\<rparr>)
                else ts1)
     in ts2\<lparr>fluxes := uflx_set d
          (scalar_fluxes nhyd nvars (is' M) (ie M) (scr ts2 wl) (scr ts2 wr) m k j
             (uflx_of d (fluxes ts2)))
          (fluxes ts2)\<rparr>)"

text \<open>The team of the second direction at \<open>(m, k)\<close>: \<open>for (int j=js-1; j<=je+1; ++j)\<close>.\<close>

definition x2_team :: "flux_ops \<Rightarrow> env \<Rightarrow> mesh \<Rightarrow> DynGR_RSolver \<Rightarrow> array5 \<Rightarrow> array5 \<Rightarrow> face_fld
    \<Rightarrow> (nat \<Rightarrow> scratch) \<Rightarrow> int \<times> int \<Rightarrow> flux_data \<Rightarrow> flux_data \<times> event list" where
  "x2_team ops E M rsolver w0 b0cc b0 scr0 t fd =
    (case t of (m, k) \<Rightarrow>
      let ts = fold (\<lambda>j. sweep_step ops E M rsolver w0 b0cc b0 2 m k j) [js M - 1..je M + 1]
                 \<lparr>scr = scr0, fluxes = fd, events = []\<rparr>
      in (fluxes ts, events ts))"

text \<open>The team of the third direction at \<open>(m, j)\<close>: \<open>for (int k=ks-1; k<=ke+1; ++k)\<close>.\<close>

definition x3_team :: "flux_ops \<Rightarrow> env \<Rightarrow> mesh \<Rightarrow> DynGR_RSolver \<Rightarrow> array5 \<Rightarrow> array5 \<Rightarrow> face_fld
    \<Rightarrow> (nat \<Rightarrow> scratch) \<Rightarrow> int \<times> int \<Rightarrow> flux_data \<Rightarrow> flux_data \<times> event list" where
  "x3_team ops E M rsolver w0 b0cc b0 scr0 t fd =
    (case t of (m, j) \<Rightarrow>
      let ts = fold (\<lambda>k. sweep_step ops E M rsolver w0 b0cc b0 3 m k j) [ks M - 1..ke M + 1]
                 \<lparr>scr = scr0, fluxes = fd, events = []\<rparr>
      in (fluxes ts, events ts))"

text \<open>\<open>par_for_outer\<close>: the teams one after the other, each on the fluxes the teams
  before it have left; the calls of a team are appended to the calls so far.\<close>

definition run_teams :: "('t \<Rightarrow> flux_data \<Rightarrow> flux_data \<times> event list) \<Rightarrow> 't list
    \<Rightarrow> flux_data \<times> event list \<Rightarrow> flux_data \<times> event list" where
  "run_teams team ts = fold (\<lambda>t (fd, tr). let r = team t fd in (fst r, tr @ snd r)) ts"

text \<open>
  \<open>CalcFluxes\<close>: the sweeps of the active directions, then the first-order flux
  correction if \<open>use_fofc\<close> or \<open>bh_excise\<close> is set. It returns \<open>TaskStatus::complete\<close>,
  the fluxes, the pack and the calls it has made. \<open>w0\<close> and \<open>bcc0\<close> of the MHD object are
  the arrays \<open>prim\<close> and \<open>bcc0\<close> of the pack.
\<close>

definition CalcFluxes :: "flux_ops \<Rightarrow> env \<Rightarrow> mesh \<Rightarrow> DynGR_RSolver \<Rightarrow> face_fld \<Rightarrow> scratch
    \<Rightarrow> (nat \<Rightarrow> scratch) \<Rightarrow> int \<Rightarrow> flux_data \<times> pack \<Rightarrow> TaskStatus \<times> (flux_data \<times> pack) \<times> event list" where
  "CalcFluxes ops E M rsolver b0 scr0 scrs0 stage = (\<lambda>(fd, pk).
    (let nmb1 = nmb_thispack E - 1;
         w0 = prim pk; b0cc = bcc0 pk;
         jl = (if one_d M then js M else js M - 1);
         ju = (if one_d M then je M else je M + 1);
         kl = (if one_d M then ks M else if two_d M then ks M else ks M - 1);
         ku = (if one_d M then ke M else if two_d M then ke M else ke M + 1);
         r1 = run_teams (x1_team ops E M rsolver w0 b0cc b0 scr0)
                (List.product [0..nmb1] (List.product [kl..ku] [jl..ju])) (fd, []);
         r2 = (if multi_d M
               then (let kl = (if two_d M then ks M else ks M - 1);
                         ku = (if two_d M then ke M else ke M + 1)
                     in run_teams (x2_team ops E M rsolver w0 b0cc b0 scrs0)
                          (List.product [0..nmb1] [kl..ku]) r1)
               else r1);
         r3 = (if three_d M
               then run_teams (x3_team ops E M rsolver w0 b0cc b0 scrs0)
                      (List.product [0..nmb1] [js M - 1..je M + 1]) r2
               else r2)
     in if use_fofc M \<or> bh_excise E
        then (complete, FOFC ops stage (fst r3, pk), snd r3 @ [Fofc stage])
        else (complete, (fst r3, pk), snd r3)))"

section \<open>The conversions in floating-point arithmetic\<close>

text \<open>
  Where the determinant of the spatial metric is not positive, the square root that the
  two conversions take is NaN or zero, and what they divide by it is NaN or an infinity.
  The reals do not have these values, so the model of \<open>ConsToPrim\<close> above is the code
  only as long as every value is finite. In this section the two kernels are modelled with
  the values of floating-point arithmetic: a finite number (a real: rounding and overflow
  stay outside the model), an infinity, or NaN. The sign of an infinity and of a zero is
  not modelled: on values that may be not finite the kernels only multiply and divide, and
  they compare none. The metric, the face-centred field, the baryon mass and the excision
  values are inputs and finite. Where the determinant is positive and the values of a cell
  are finite, the floating-point model of \<open>ConsToPrim\<close> leaves at the cell what the
  model on the reals leaves (lemma \<open>ConsToPrim_fp_agrees\<close>).
\<close>

datatype fp = Fin real | Infinity | NaN

text \<open>Product and quotient of IEEE arithmetic: NaN gives NaN, zero times an infinity and
  the quotients of two zeros and of two infinities are NaN, a division of anything else by
  zero is an infinity, a finite number divided by an infinity is zero.\<close>

fun fp_mul :: "fp \<Rightarrow> fp \<Rightarrow> fp" where
  "fp_mul (Fin a) (Fin b) = Fin (a * b)"
| "fp_mul (Fin a) Infinity = (if a = 0 then NaN else Infinity)"
| "fp_mul Infinity (Fin b) = (if b = 0 then NaN else Infinity)"
| "fp_mul Infinity Infinity = Infinity"
| "fp_mul NaN y = NaN"
| "fp_mul x NaN = NaN"

fun fp_div :: "fp \<Rightarrow> fp \<Rightarrow> fp" where
  "fp_div (Fin a) (Fin b) = (if b = 0 then (if a = 0 then NaN else Infinity) else Fin (a / b))"
| "fp_div (Fin a) Infinity = Fin 0"
| "fp_div Infinity (Fin b) = Infinity"
| "fp_div Infinity Infinity = NaN"
| "fp_div NaN y = NaN"
| "fp_div x NaN = NaN"

text \<open>The square root of a finite number: NaN if the number is negative.\<close>

definition fp_sqrt :: "real \<Rightarrow> fp" where
  "fp_sqrt a = (if a < 0 then NaN else Fin (sqrt a))"

text \<open>\<open>isfinite\<close>\<close>

fun fp_finite :: "fp \<Rightarrow> bool" where
  "fp_finite (Fin a) = True"
| "fp_finite Infinity = False"
| "fp_finite NaN = False"

type_synonym fp_array5 = "cell \<Rightarrow> nat \<Rightarrow> fp"
type_synonym fp_vec3 = "fp \<times> fp \<times> fp"

text \<open>The point arrays \<open>prim_pt\<close>, \<open>cons_pt\<close> and \<open>g3u\<close> with these values.\<close>

record fp_prim_pt =
  PRH_fp :: fp
  PVX_fp :: fp
  PVY_fp :: fp
  PVZ_fp :: fp
  PPR_fp :: fp
  PTM_fp :: fp
  PYF_fp :: "nat \<Rightarrow> fp"

record fp_cons_pt =
  CDN_fp :: fp
  CSX_fp :: fp
  CSY_fp :: fp
  CSZ_fp :: fp
  CTA_fp :: fp
  CYD_fp :: "nat \<Rightarrow> fp"

record fp_g3 =
  S11_fp :: fp
  S12_fp :: fp
  S13_fp :: fp
  S22_fp :: fp
  S23_fp :: fp
  S33_fp :: fp

text \<open>
  The member functions of the primitive solver that the two conversions call, on these
  point arrays: parameters of the model, as above. \<open>junk_fp\<close> is the contents of the slots
  of the local arrays that the source leaves uninitialised.
\<close>

record fp_solver =
  GetTemperatureFromP_fp :: "eos_policy \<Rightarrow> fp \<Rightarrow> fp \<Rightarrow> (nat \<Rightarrow> fp) \<Rightarrow> fp"
  ApplyPrimitiveFloor_fp :: "eos_policy \<Rightarrow> fp_prim_pt \<Rightarrow> bool \<times> fp_prim_pt"
  PrimToCon_fp :: "eos_policy \<Rightarrow> fp_prim_pt \<Rightarrow> fp_vec3 \<Rightarrow> g3 \<Rightarrow> fp_cons_pt"
  ConToPrim_fp :: "eos_policy \<Rightarrow> fp_cons_pt \<Rightarrow> fp_vec3 \<Rightarrow> g3 \<Rightarrow> fp_g3
    \<Rightarrow> SolverResult \<times> fp_prim_pt \<times> fp_cons_pt"
  junk_fp :: "nat \<Rightarrow> fp"

text \<open>A \<open>printf\<close> of the source, and the state that the conversions write.\<close>

datatype fp_printed = Printf_fp string "string list" "int list" "fp list"

record fp_pack =
  cons_fp :: fp_array5
  bcc0_fp :: fp_array5
  prim_fp :: fp_array5
  fofc_fp :: "cell \<Rightarrow> bool"
  nfofc_fp :: int
  eos_fp :: eos_policy
  out_fp :: "fp_printed list"

text \<open>Modelled from the spec, as \<open>SpatialInv\<close> above: the cofactors times the inverse of
  the determinant.\<close>

definition SpatialInv_fp :: "fp \<Rightarrow> g3 \<Rightarrow> fp_g3" where
  "SpatialInv_fp detginv g =
     \<lparr>S11_fp = fp_mul (Fin (- (S23 g * S23 g) + S22 g * S33 g)) detginv,
      S12_fp = fp_mul (Fin (S13 g * S23 g - S12 g * S33 g)) detginv,
      S13_fp = fp_mul (Fin (- (S13 g * S22 g) + S12 g * S23 g)) detginv,
      S22_fp = fp_mul (Fin (- (S13 g * S13 g) + S11 g * S33 g)) detginv,
      S23_fp = fp_mul (Fin (S12 g * S13 g - S11 g * S23 g)) detginv,
      S33_fp = fp_mul (Fin (- (S12 g * S12 g) + S11 g * S22 g)) detginv\<rparr>"

text \<open>The blocks of assignments between the point arrays and the grid.\<close>

definition store_cons_fp :: "fp_array5 \<Rightarrow> cell \<Rightarrow> nat \<Rightarrow> nat \<Rightarrow> fp \<Rightarrow> fp_cons_pt \<Rightarrow> fp_array5" where
  "store_cons_fp a c nhyd nscal sdetg cons_pt =
     store_scalars
       (upd (upd (upd (upd (upd a c IDN (fp_mul (CDN_fp cons_pt) sdetg))
          c IM1 (fp_mul (CSX_fp cons_pt) sdetg))
          c IM2 (fp_mul (CSY_fp cons_pt) sdetg))
          c IM3 (fp_mul (CSZ_fp cons_pt) sdetg))
          c IEN (fp_mul (CTA_fp cons_pt) sdetg))
       c nhyd nscal (\<lambda>n. fp_mul (CYD_fp cons_pt n) sdetg)"

definition store_prim_fp :: "fp_array5 \<Rightarrow> cell \<Rightarrow> nat \<Rightarrow> nat \<Rightarrow> real \<Rightarrow> fp_prim_pt \<Rightarrow> fp_array5" where
  "store_prim_fp a c nhyd nscal mb prim_pt =
     store_scalars
       (upd (upd (upd (upd (upd a c IDN (fp_mul (PRH_fp prim_pt) (Fin mb)))
          c IVX (PVX_fp prim_pt))
          c IVY (PVY_fp prim_pt))
          c IVZ (PVZ_fp prim_pt))
          c IPR (PPR_fp prim_pt))
       c nhyd nscal (PYF_fp prim_pt)"

definition copy_prim_fp :: "fp_array5 \<Rightarrow> cell \<Rightarrow> nat \<Rightarrow> nat \<Rightarrow> real \<Rightarrow> fp_prim_pt \<Rightarrow> fp_array5" where
  "copy_prim_fp a c nhyd nscal mb prim_pt =
     read_scalars
       (upd (upd (upd (upd (upd a c IDN (fp_mul (PRH_fp prim_pt) (Fin mb)))
          c IVX (PVX_fp prim_pt))
          c IVY (PVY_fp prim_pt))
          c IVZ (PVZ_fp prim_pt))
          c IPR (PPR_fp prim_pt))
       c nhyd nscal"

subsection \<open>PrimToCons\<close>

text \<open>Extract the primitive variables at a single point; the temperature slot is
  assigned right after.\<close>

definition extract_prim :: "fp_solver \<Rightarrow> env \<Rightarrow> real \<Rightarrow> cell \<Rightarrow> fp_array5 \<Rightarrow> fp_prim_pt" where
  "extract_prim ps E mb c w =
     \<lparr>PRH_fp = fp_div (w c IDN) (Fin mb), PVX_fp = w c IVX, PVY_fp = w c IVY, PVZ_fp = w c IVZ,
      PPR_fp = w c IPR, PTM_fp = junk_fp ps 0,
      PYF_fp = (\<lambda>n. if n < nscalars E then w c (nmhd E + n) else junk_fp ps (Suc n))\<rparr>"

text \<open>"A function for checking for NaNs in the conserved variables": what it prints and
  what it returns.\<close>

definition CheckForConservedNaNs :: "fp_cons_pt \<Rightarrow> fp_printed list \<times> bool" where
  "CheckForConservedNaNs cons_pt =
    ((if \<not> fp_finite (CDN_fp cons_pt) then [Printf_fp ''D is NaN!'' [] [] []] else [])
     @ (if \<not> fp_finite (CSX_fp cons_pt) then [Printf_fp ''Sx is NaN!'' [] [] []] else [])
     @ (if \<not> fp_finite (CSY_fp cons_pt) then [Printf_fp ''Sy is NaN!'' [] [] []] else [])
     @ (if \<not> fp_finite (CSZ_fp cons_pt) then [Printf_fp ''Sz is NaN!'' [] [] []] else [])
     @ (if \<not> fp_finite (CTA_fp cons_pt) then [Printf_fp ''Tau is NaN!'' [] [] []] else []),
     \<not> fp_finite (CDN_fp cons_pt) \<or> \<not> fp_finite (CSX_fp cons_pt) \<or> \<not> fp_finite (CSY_fp cons_pt)
       \<or> \<not> fp_finite (CSZ_fp cons_pt) \<or> \<not> fp_finite (CTA_fp cons_pt))"

definition DumpPrimitiveVars :: "fp_prim_pt \<Rightarrow> fp_printed" where
  "DumpPrimitiveVars prim_pt =
     Printf_fp ''Primitive vars: '' [] []
       [PRH_fp prim_pt, PVX_fp prim_pt, PVY_fp prim_pt, PVZ_fp prim_pt, PPR_fp prim_pt,
        PTM_fp prim_pt]"

text \<open>
  The body of the kernel of \<open>PrimToCons\<close> at the cell \<open>c = (m, k, j, i)\<close>: it takes the
  square root of the determinant, divides the field by it, converts, reports a conserved
  state that is not finite, and stores the conserved state times the square root.
\<close>

definition p2c_body :: "env \<Rightarrow> fp_solver \<Rightarrow> eos_policy \<Rightarrow> cell \<Rightarrow> fp_pack \<Rightarrow> fp_pack" where
  "p2c_body E ps eosc c s =
    (let nhyd = nmhd E; nscal = nscalars E; mb = GetBaryonMass eosc;
         g3d = metric_at E c;
         sdetg = fp_sqrt (GetDeterminant g3d);
         b = (fp_div (bcc0_fp s c IBX) sdetg, fp_div (bcc0_fp s c IBY) sdetg,
              fp_div (bcc0_fp s c IBZ) sdetg);
         prim_pt0 = extract_prim ps E mb c (prim_fp s);
         prim_pt1 = prim_pt0\<lparr>PTM_fp := GetTemperatureFromP_fp ps eosc (PRH_fp prim_pt0)
                                          (PPR_fp prim_pt0) (PYF_fp prim_pt0)\<rparr>;
         fl = ApplyPrimitiveFloor_fp ps eosc prim_pt1;
         floor = fst fl; prim_pt = snd fl;
         cons_pt = PrimToCon_fp ps eosc prim_pt b g3d;
         chk = CheckForConservedNaNs cons_pt;
         s0 = s\<lparr>out_fp := out_fp s @ fst chk @
                 (if snd chk
                  then [Printf_fp ''Error occurred in PrimToCons at'' []
                          (case c of (m, k, j, i) \<Rightarrow> [m, k, j, i]) [],
                        DumpPrimitiveVars prim_pt]
                  else [])\<rparr>;
         s1 = s0\<lparr>cons_fp := store_cons_fp (cons_fp s0) c nhyd nscal sdetg cons_pt\<rparr>
     in if floor then s1\<lparr>prim_fp := store_prim_fp (prim_fp s1) c nhyd nscal mb prim_pt\<rparr>
        else s1)"

text \<open>\<open>par_for\<close> over \<open>0 \<le> m \<le> nmb - 1\<close>, \<open>kl \<le> k \<le> ku\<close>, \<open>jl \<le> j \<le> ju\<close>,
  \<open>il \<le> i \<le> iu\<close>; the body touches the arrays at its own cell only.\<close>

definition cells :: "int \<Rightarrow> int \<Rightarrow> int \<Rightarrow> int \<Rightarrow> int \<Rightarrow> int \<Rightarrow> int \<Rightarrow> cell list" where
  "cells nmb il iu jl ju kl ku =
     List.product [0..nmb - 1] (List.product [kl..ku] (List.product [jl..ju] [il..iu]))"

definition PrimToCons :: "env \<Rightarrow> fp_solver \<Rightarrow> int \<Rightarrow> int \<Rightarrow> int \<Rightarrow> int \<Rightarrow> int \<Rightarrow> int
    \<Rightarrow> fp_pack \<Rightarrow> fp_pack" where
  "PrimToCons E ps il iu jl ju kl ku s =
     fold (p2c_body E ps (eos_fp s)) (cells (nmb_thispack E) il iu jl ju kl ku) s"

subsection \<open>ConsToPrim\<close>

text \<open>The blocks of the kernel of \<open>ConsToPrim\<close>, as in the model above.\<close>

definition extract_cons_fp :: "fp_solver \<Rightarrow> env \<Rightarrow> cell \<Rightarrow> fp_array5 \<Rightarrow> fp \<Rightarrow> fp_cons_pt" where
  "extract_cons_fp ps E c u isdetg =
     \<lparr>CDN_fp = fp_mul (u c IDN) isdetg, CSX_fp = fp_mul (u c IM1) isdetg,
      CSY_fp = fp_mul (u c IM2) isdetg, CSZ_fp = fp_mul (u c IM3) isdetg,
      CTA_fp = fp_mul (u c IEN) isdetg,
      CYD_fp = (\<lambda>n. if n < nscalars E then fp_mul (u c (nmhd E + n)) isdetg else junk_fp ps n)\<rparr>"

definition cc_fields_fp :: "face_fld \<Rightarrow> bool \<Rightarrow> cell \<Rightarrow> fp_array5 \<Rightarrow> fp_array5" where
  "cc_fields_fp bfc floors_only c b =
    (case c of (m, k, j, i) \<Rightarrow>
       if floors_only then b
       else upd (upd (upd b
              c IBX (Fin (0.5 * (x1f bfc (m, k, j, i) + x1f bfc (m, k, j, i + 1)))))
              c IBY (Fin (0.5 * (x2f bfc (m, k, j, i) + x2f bfc (m, k, j + 1, i)))))
              c IBZ (Fin (0.5 * (x3f bfc (m, k, j, i) + x3f bfc (m, k + 1, j, i)))))"

definition c2p_excised_fp :: "env \<Rightarrow> fp_solver \<Rightarrow> eos_policy \<Rightarrow> fp_cons_pt \<Rightarrow> fp_vec3 \<Rightarrow> g3
    \<Rightarrow> SolverResult \<times> fp_prim_pt \<times> fp_cons_pt" where
  "c2p_excised_fp E ps eosc cons_pt b3u g3d =
    (let mb = GetBaryonMass eosc;
         prim_pt0 = \<lparr>PRH_fp = fp_div (Fin (dexcise E)) (Fin mb), PVX_fp = Fin 0, PVY_fp = Fin 0,
                     PVZ_fp = Fin 0, PPR_fp = Fin (pexcise E), PTM_fp = junk_fp ps 0,
                     PYF_fp = (\<lambda>n. if n < nscalars E
                                    then fp_div (CYD_fp cons_pt 0) (CDN_fp cons_pt)
                                    else junk_fp ps (Suc n))\<rparr>;
         prim_pt = prim_pt0\<lparr>PTM_fp := GetTemperatureFromP_fp ps eosc (PRH_fp prim_pt0)
                                         (PPR_fp prim_pt0) (PYF_fp prim_pt0)\<rparr>;
         result = \<lparr>error = SUCCESS, iterations = 0, cons_floor = False, prim_floor = False,
                   cons_adjusted = True\<rparr>
     in (result, prim_pt, PrimToCon_fp ps eosc prim_pt b3u g3d))"

definition c2p_solve_fp :: "env \<Rightarrow> fp_solver \<Rightarrow> eos_policy \<Rightarrow> cell \<Rightarrow> fp_cons_pt \<Rightarrow> fp_vec3
    \<Rightarrow> g3 \<Rightarrow> fp_g3 \<Rightarrow> SolverResult \<times> fp_prim_pt \<times> fp_cons_pt" where
  "c2p_solve_fp E ps eosc c cons_pt b3u g3d g3u =
    (if bh_excise E
     then (if excision_floor E c then c2p_excised_fp E ps eosc cons_pt b3u g3d
           else ConToPrim_fp ps eosc cons_pt b3u g3d g3u)
     else ConToPrim_fp ps eosc cons_pt b3u g3d g3u)"

definition c2p_report_fp :: "env \<Rightarrow> cell \<Rightarrow> Error \<Rightarrow> fp_cons_pt \<Rightarrow> real \<Rightarrow> g3 \<Rightarrow> fp_printed" where
  "c2p_report_fp E c e cons_pt_old detg g3d =
    (case c of (m, k, j, i) \<Rightarrow>
       Printf_fp ''An error occurred during the primitive solve'' [ErrorToString e] [m, k, j, i]
         ([CDN_fp cons_pt_old, CSX_fp cons_pt_old, CSY_fp cons_pt_old, CSZ_fp cons_pt_old,
           CTA_fp cons_pt_old] @
          map Fin [detg, S11 g3d, S12 g3d, S13 g3d, S22 g3d, S23 g3d, S33 g3d,
            alpha E c, beta_u E c 0, beta_u E c 1, beta_u E c 2, psi4 E c,
            K_dd E c 0 0, K_dd E c 0 1, K_dd E c 0 2, K_dd E c 1 1, K_dd E c 1 2, K_dd E c 2 2]))"

text \<open>
  The body of the kernel at the cell \<open>c = (m, k, j, i)\<close>: the text of \<open>c2p_body\<close>, with
  the square root, the inverses and the products of floating-point arithmetic.
\<close>

definition c2p_body_fp :: "env \<Rightarrow> fp_solver \<Rightarrow> eos_policy \<Rightarrow> face_fld \<Rightarrow> bool \<Rightarrow> cell
    \<Rightarrow> fp_pack \<times> int \<Rightarrow> fp_pack \<times> int" where
  "c2p_body_fp E ps eosc bfc floors_only c = (\<lambda>(s, sumd).
    (let nhyd = nmhd E; nscal = nscalars E; mb = GetBaryonMass eosc;
         g3d = metric_at E c;
         detg = GetDeterminant g3d;
         sdetg = fp_sqrt detg;
         isdetg = fp_div (Fin 1) sdetg;
         g3u = SpatialInv_fp (fp_div (Fin 1) (Fin detg)) g3d;
         cons_pt = extract_cons_fp ps E c (cons_fp s) isdetg;
         cons_pt_old = cons_pt;
         s1 = s\<lparr>bcc0_fp := cc_fields_fp bfc floors_only c (bcc0_fp s)\<rparr>;
         b3u = (fp_mul (bcc0_fp s1 c IBX) isdetg, fp_mul (bcc0_fp s1 c IBY) isdetg,
                fp_mul (bcc0_fp s1 c IBZ) isdetg);
         r = c2p_solve_fp E ps eosc c cons_pt b3u g3d g3u;
         result = fst r; prim_pt = fst (snd r); cons_pt1 = snd (snd r)
     in if error result \<noteq> SUCCESS \<and> floors_only
        then (s1\<lparr>fofc_fp := (fofc_fp s1)(c := True)\<rparr>, sumd + 1)
        else
          (let s2 = (if error result \<noteq> SUCCESS
                     then s1\<lparr>out_fp := out_fp s1 @
                            [c2p_report_fp E c (error result) cons_pt_old detg g3d]\<rparr>
                     else s1);
               s3 = s2\<lparr>prim_fp := copy_prim_fp (prim_fp s2) c nhyd nscal mb prim_pt\<rparr>
           in if cons_floor result \<or> cons_adjusted result
              then (s3\<lparr>cons_fp := store_cons_fp (cons_fp s3) c nhyd nscal sdetg cons_pt1\<rparr>, sumd)
              else (s3, sumd))))"

definition c2p_pass_fp :: "env \<Rightarrow> fp_solver \<Rightarrow> eos_policy \<Rightarrow> face_fld \<Rightarrow> bool
    \<Rightarrow> int \<Rightarrow> int \<Rightarrow> int \<Rightarrow> int \<Rightarrow> int \<Rightarrow> int \<Rightarrow> int \<Rightarrow> fp_pack \<Rightarrow> fp_pack \<times> int" where
  "c2p_pass_fp E ps eosc bfc floors_only il jl kl ni nji nkji nmkji s =
     fold (\<lambda>idx. c2p_body_fp E ps eosc bfc floors_only (c2p_cell il jl kl ni nji nkji idx))
       [0..nmkji - 1] (s, 0)"

definition ConsToPrim_fp :: "env \<Rightarrow> fp_solver \<Rightarrow> face_fld \<Rightarrow> int \<Rightarrow> int \<Rightarrow> int \<Rightarrow> int
    \<Rightarrow> int \<Rightarrow> int \<Rightarrow> bool \<Rightarrow> fp_pack \<Rightarrow> fp_pack" where
  "ConsToPrim_fp E ps bfc il iu jl ju kl ku floors_only s =
    (let ni = iu - il + 1;
         nji = (ju - jl + 1) * ni;
         nkji = (ku - kl + 1) * nji;
         nmkji = nmb_thispack E * nkji;
         prim_failure = IsPrimitiveFlooringFailure (eos_fp s);
         cons_failure = IsConservedFlooringFailure (eos_fp s);
         s1 = (if floors_only
               then s\<lparr>eos_fp := (eos_fp s)\<lparr>IsPrimitiveFlooringFailure := True,
                                             IsConservedFlooringFailure := True\<rparr>\<rparr>
               else s);
         p = c2p_pass_fp E ps (eos_fp s1) bfc floors_only il jl kl ni nji nkji nmkji s1;
         s2 = fst p; nfloord = snd p
     in if floors_only
        then s2\<lparr>eos_fp := (eos_fp s2)\<lparr>IsPrimitiveFlooringFailure := prim_failure,
                                        IsConservedFlooringFailure := cons_failure\<rparr>,
                nfofc_fp := nfofc_fp s2 + nfloord\<rparr>
        else s2)"

section \<open>Vocabulary of the statements\<close>

text \<open>The cells of the index range of a conversion.\<close>

definition in_box :: "int \<Rightarrow> int \<Rightarrow> int \<Rightarrow> int \<Rightarrow> int \<Rightarrow> int \<Rightarrow> int \<Rightarrow> cell \<Rightarrow> bool" where
  "in_box nmb il iu jl ju kl ku c =
     (case c of (m, k, j, i) \<Rightarrow>
        0 \<le> m \<and> m < nmb \<and> kl \<le> k \<and> k \<le> ku \<and> jl \<le> j \<and> j \<le> ju \<and> il \<le> i \<and> i \<le> iu)"

text \<open>The policy object the kernel of \<open>ConsToPrim\<close> works with.\<close>

definition pass_policy :: "bool \<Rightarrow> eos_policy \<Rightarrow> eos_policy" where
  "pass_policy floors_only e =
     (if floors_only
      then e\<lparr>IsPrimitiveFlooringFailure := True, IsConservedFlooringFailure := True\<rparr>
      else e)"

text \<open>What the solve at the cell \<open>c\<close> returns in the state \<open>s\<close>: the value of \<open>r\<close> in
  \<open>c2p_body\<close>.\<close>

definition c2p_outcome :: "env \<Rightarrow> PrimitiveSolver \<Rightarrow> eos_policy \<Rightarrow> face_fld \<Rightarrow> bool \<Rightarrow> cell
    \<Rightarrow> pack \<Rightarrow> SolverResult \<times> prim_pt \<times> cons_pt" where
  "c2p_outcome E ps eosc bfc floors_only c s =
    (let g3d = metric_at E c;
         detg = GetDeterminant g3d;
         isdetg = 1 / sqrt detg;
         b = cc_fields bfc floors_only c (bcc0 s)
     in c2p_solve E ps eosc c (extract_cons E c (cons s) isdetg)
          (b c IBX * isdetg, b c IBY * isdetg, b c IBZ * isdetg) g3d (SpatialInv (1 / detg) g3d))"

text \<open>The solve at the cell \<open>c\<close> returns an error.\<close>

definition c2p_fails :: "env \<Rightarrow> PrimitiveSolver \<Rightarrow> eos_policy \<Rightarrow> face_fld \<Rightarrow> bool \<Rightarrow> pack
    \<Rightarrow> cell \<Rightarrow> bool" where
  "c2p_fails E ps eosc bfc floors_only s c \<longleftrightarrow>
     error (fst (c2p_outcome E ps eosc bfc floors_only c s)) \<noteq> SUCCESS"

text \<open>Two states that agree at a cell.\<close>

definition same_at :: "cell \<Rightarrow> pack \<Rightarrow> pack \<Rightarrow> bool" where
  "same_at c s t \<longleftrightarrow> cons s c = cons t c \<and> prim s c = prim t c \<and> bcc0 s c = bcc0 t c
     \<and> fofc s c = fofc t c"

text \<open>The flat index of a cell of the index box.\<close>

definition c2p_index :: "int \<Rightarrow> int \<Rightarrow> int \<Rightarrow> int \<Rightarrow> int \<Rightarrow> int \<Rightarrow> cell \<Rightarrow> int" where
  "c2p_index il jl kl ni nji nkji c =
     (case c of (m, k, j, i) \<Rightarrow> m * nkji + (k - kl) * nji + (j - jl) * ni + (i - il))"

text \<open>The cells the reduction of \<open>ConsToPrim\<close> visits, in the order of the flat index.\<close>

definition pass_cells :: "int \<Rightarrow> int \<Rightarrow> int \<Rightarrow> int \<Rightarrow> int \<Rightarrow> int \<Rightarrow> int \<Rightarrow> cell list" where
  "pass_cells nmb il iu jl ju kl ku =
    (let ni = iu - il + 1; nji = (ju - jl + 1) * ni; nkji = (ku - kl + 1) * nji
     in map (c2p_cell il jl kl ni nji nkji) [0..nmb * nkji - 1])"


definition exits :: "'a outcome \<Rightarrow> bool" where
  "exits r = (case r of Exits p \<Rightarrow> True | Returns x p \<Rightarrow> False)"

text \<open>The loop of a team of the second or third direction over the sweep indices \<open>vs\<close>.\<close>

definition sweep :: "flux_ops \<Rightarrow> env \<Rightarrow> mesh \<Rightarrow> DynGR_RSolver \<Rightarrow> array5 \<Rightarrow> array5 \<Rightarrow> face_fld
    \<Rightarrow> nat \<Rightarrow> int \<Rightarrow> int \<Rightarrow> int \<Rightarrow> int list \<Rightarrow> team_state \<Rightarrow> team_state" where
  "sweep ops E M rsolver w0 b0cc b0 d m k j vs =
     fold (\<lambda>v. sweep_step ops E M rsolver w0 b0cc b0 d m (if d = 2 then k else v)
                 (if d = 2 then v else j)) vs"

text \<open>What a Riemann solve reads of an interface array: the variables \<open>n < nv\<close> over
  \<open>il \<le> i \<le> iu\<close>.\<close>

definition view :: "nat \<Rightarrow> int \<Rightarrow> int \<Rightarrow> scratch \<Rightarrow> scratch" where
  "view nv il iu buf = (\<lambda>n i. if n < nv \<and> il \<le> i \<and> i \<le> iu then buf n i else 0)"

text \<open>The interface states handed to the Riemann solver, call by call, and the
  reconstructions made, call by call.\<close>

fun solver_inputs :: "nat \<Rightarrow> int \<Rightarrow> int \<Rightarrow> event list
    \<Rightarrow> (nat \<times> int \<times> int \<times> int \<times> scratch \<times> scratch \<times> scratch \<times> scratch) list" where
  "solver_inputs nv il iu [] = []"
| "solver_inputs nv il iu (Solve d m k j wl wr bl br # es) =
     (d, m, k, j, view nv il iu wl, view nv il iu wr, view 3 il iu bl, view 3 il iu br)
       # solver_inputs nv il iu es"
| "solver_inputs nv il iu (e # es) = solver_inputs nv il iu es"

fun recon_calls :: "event list \<Rightarrow> (nat \<times> int \<times> int \<times> int) list" where
  "recon_calls [] = []"
| "recon_calls (Recon d m k j # es) = (d, m, k, j) # recon_calls es"
| "recon_calls (e # es) = recon_calls es"

text \<open>The stages for which the first-order flux correction has been called, call by
  call.\<close>

fun fofc_calls :: "event list \<Rightarrow> int list" where
  "fofc_calls [] = []"
| "fofc_calls (Fofc stage # es) = stage # fofc_calls es"
| "fofc_calls (e # es) = fofc_calls es"

text \<open>Some cell is flagged for the first-order flux correction.\<close>

definition flagged :: "pack \<Rightarrow> bool" where
  "flagged pk \<longleftrightarrow> (\<exists>c. fofc pk c)"

text \<open>Two states of the floating-point model that agree at a cell.\<close>

definition same_at_fp :: "cell \<Rightarrow> fp_pack \<Rightarrow> fp_pack \<Rightarrow> bool" where
  "same_at_fp c s t \<longleftrightarrow> cons_fp s c = cons_fp t c \<and> prim_fp s c = prim_fp t c
     \<and> bcc0_fp s c = bcc0_fp t c \<and> fofc_fp s c = fofc_fp t c"

text \<open>What the kernel of \<open>PrimToCons\<close> computes at the cell \<open>c\<close> in the state \<open>s\<close>:
  whether the primitives were floored, the primitive point and the conserved point.\<close>

definition p2c_outcome :: "env \<Rightarrow> fp_solver \<Rightarrow> eos_policy \<Rightarrow> cell \<Rightarrow> fp_pack
    \<Rightarrow> bool \<times> fp_prim_pt \<times> fp_cons_pt" where
  "p2c_outcome E ps eosc c s =
    (let g3d = metric_at E c;
         sdetg = fp_sqrt (GetDeterminant g3d);
         b = (fp_div (bcc0_fp s c IBX) sdetg, fp_div (bcc0_fp s c IBY) sdetg,
              fp_div (bcc0_fp s c IBZ) sdetg);
         prim_pt0 = extract_prim ps E (GetBaryonMass eosc) c (prim_fp s);
         fl = ApplyPrimitiveFloor_fp ps eosc
                (prim_pt0\<lparr>PTM_fp := GetTemperatureFromP_fp ps eosc (PRH_fp prim_pt0)
                                      (PPR_fp prim_pt0) (PYF_fp prim_pt0)\<rparr>)
     in (fst fl, snd fl, PrimToCon_fp ps eosc (snd fl) b g3d))"

text \<open>What the solve at the cell \<open>c\<close> returns in the state \<open>s\<close>: the value of \<open>r\<close> in
  \<open>c2p_body_fp\<close>.\<close>

definition c2p_outcome_fp :: "env \<Rightarrow> fp_solver \<Rightarrow> eos_policy \<Rightarrow> face_fld \<Rightarrow> bool \<Rightarrow> cell
    \<Rightarrow> fp_pack \<Rightarrow> SolverResult \<times> fp_prim_pt \<times> fp_cons_pt" where
  "c2p_outcome_fp E ps eosc bfc floors_only c s =
    (let g3d = metric_at E c;
         detg = GetDeterminant g3d;
         isdetg = fp_div (Fin 1) (fp_sqrt detg);
         b = cc_fields_fp bfc floors_only c (bcc0_fp s)
     in c2p_solve_fp E ps eosc c (extract_cons_fp ps E c (cons_fp s) isdetg)
          (fp_mul (b c IBX) isdetg, fp_mul (b c IBY) isdetg, fp_mul (b c IBZ) isdetg) g3d
          (SpatialInv_fp (fp_div (Fin 1) (Fin detg)) g3d))"

text \<open>The floating-point images of point arrays with finite values.\<close>

definition fin_prim :: "prim_pt \<Rightarrow> fp_prim_pt" where
  "fin_prim p = \<lparr>PRH_fp = Fin (PRH p), PVX_fp = Fin (PVX p), PVY_fp = Fin (PVY p),
     PVZ_fp = Fin (PVZ p), PPR_fp = Fin (PPR p), PTM_fp = Fin (PTM p),
     PYF_fp = (\<lambda>n. Fin (PYF p n))\<rparr>"

definition fin_cons :: "cons_pt \<Rightarrow> fp_cons_pt" where
  "fin_cons u = \<lparr>CDN_fp = Fin (CDN u), CSX_fp = Fin (CSX u), CSY_fp = Fin (CSY u),
     CSZ_fp = Fin (CSZ u), CTA_fp = Fin (CTA u), CYD_fp = (\<lambda>n. Fin (CYD u n))\<rparr>"

definition fin_g3 :: "g3 \<Rightarrow> fp_g3" where
  "fin_g3 g = \<lparr>S11_fp = Fin (S11 g), S12_fp = Fin (S12 g), S13_fp = Fin (S13 g),
     S22_fp = Fin (S22 g), S23_fp = Fin (S23 g), S33_fp = Fin (S33 g)\<rparr>"

text \<open>The root-finder of the floating-point model returns, on finite values, what the one of
  the model on the reals returns.\<close>

definition solvers_agree :: "PrimitiveSolver \<Rightarrow> fp_solver \<Rightarrow> bool" where
  "solvers_agree ps psf \<longleftrightarrow>
     (\<forall>e u b1 b2 b3 g gu.
        ConToPrim_fp psf e (fin_cons u) (Fin b1, Fin b2, Fin b3) g (fin_g3 gu) =
          (fst (ConToPrim ps e u (b1, b2, b3) g gu),
           fin_prim (fst (snd (ConToPrim ps e u (b1, b2, b3) g gu))),
           fin_cons (snd (snd (ConToPrim ps e u (b1, b2, b3) g gu)))))"

section \<open>The naive scheme\<close>

text \<open>
  The naive scheme of claim C9, from the words of the spec: at every interface \<open>v\<close> of
  the sweep (\<open>js \<le> v \<le> je + 1\<close> in the second direction, \<open>ks \<le> v \<le> ke + 1\<close> in the
  third) it reconstructs both sides, the left state from the cell \<open>v - 1\<close> and the right
  state from the cell \<open>v\<close>, into arrays of its own, and hands them to the solver.
\<close>

definition naive_interface :: "flux_ops \<Rightarrow> env \<Rightarrow> mesh \<Rightarrow> array5 \<Rightarrow> array5 \<Rightarrow> scratch \<Rightarrow> nat
    \<Rightarrow> int \<Rightarrow> int \<Rightarrow> int \<Rightarrow> int \<Rightarrow> event list" where
  "naive_interface ops E M w0 b0cc sc d m k j v =
    (let nvars = nmhd E + nscalars E;
         extrema = (recon_method M = ppmx);
         kl = (if d = 2 then k else v - 1); jl = (if d = 2 then v - 1 else j);
         kr = (if d = 2 then k else v); jr = (if d = 2 then v else j);
         wl = write_range nvars (is' M - 1) (ie M + 1)
                (fst (Reconstruct ops (recon_method M) extrema d w0 m kl jl)) sc;
         wr = write_range nvars (is' M - 1) (ie M + 1)
                (snd (Reconstruct ops (recon_method M) extrema d w0 m kr jr)) sc;
         bl = write_range 3 (is' M - 1) (ie M + 1)
                (fst (Reconstruct ops (recon_method M) extrema d b0cc m kl jl)) sc;
         br = write_range 3 (is' M - 1) (ie M + 1)
                (snd (Reconstruct ops (recon_method M) extrema d b0cc m kr jr)) sc
     in [Recon d m kl jl, Recon d m kr jr, Solve d m kr jr wl wr bl br])"

definition naive_sweep :: "flux_ops \<Rightarrow> env \<Rightarrow> mesh \<Rightarrow> array5 \<Rightarrow> array5 \<Rightarrow> scratch \<Rightarrow> nat
    \<Rightarrow> int \<Rightarrow> int \<Rightarrow> int \<Rightarrow> event list" where
  "naive_sweep ops E M w0 b0cc sc d m k j =
     concat (map (naive_interface ops E M w0 b0cc sc d m k j)
       (if d = 2 then [js M..je M + 1] else [ks M..ke M + 1]))"

section \<open>Concrete configurations\<close>

text \<open>A pack with one mesh block and two cells in the first direction, flat space; the cell
  \<open>(0, 0, 0, 0)\<close> is excised.\<close>

definition ex_env :: env where
  "ex_env = \<lparr>nmhd = 5, nscalars = 1, nmb_thispack = 1, bh_excise = True,
     excision_floor = (\<lambda>c. c = (0, 0, 0, 0)), dexcise = 2, pexcise = 3,
     g_dd = (\<lambda>c a b. if a = b then 1 else 0), alpha = (\<lambda>c. 1), beta_u = (\<lambda>c a. 0),
     psi4 = (\<lambda>c. 1), K_dd = (\<lambda>c a b. 0), junk = (\<lambda>n. 0)\<rparr>"

text \<open>A solver whose root-finder fails on a negative conserved density and returns the scalar
  concentration 1/2, and an equation of state with the sound speed 2.\<close>

definition ex_ps :: PrimitiveSolver where
  "ex_ps = \<lparr>GetTemperatureFromP = (\<lambda>e n p Y. p),
     ApplyPrimitiveFloor = (\<lambda>e p. (False, p)),
     PrimToCon = (\<lambda>e p b g. \<lparr>CDN = PRH p, CSX = 0, CSY = 0, CSZ = 0, CTA = PPR p, CYD = PYF p\<rparr>),
     ConToPrim = (\<lambda>e u b g gu.
       (\<lparr>error = (if CDN u < 0 then RHO_TOO_SMALL else SUCCESS), iterations = 1,
         cons_floor = False, prim_floor = False, cons_adjusted = False\<rparr>,
        \<lparr>PRH = CDN u, PVX = 0, PVY = 0, PVZ = 0, PPR = CTA u, PTM = CTA u, PYF = (\<lambda>n. 1 / 2)\<rparr>,
        u)),
     GetSoundSpeed = (\<lambda>e n T Y. 2),
     GetEnthalpy = (\<lambda>e n T Y. 1),
     SquareVector = (\<lambda>u g. case u of (u0, u1, u2) \<Rightarrow>
        S11 g * u0 * u0 + S22 g * u1 * u1 + S33 g * u2 * u2
        + 2 * (S12 g * u0 * u1 + S13 g * u0 * u2 + S23 g * u1 * u2))\<rparr>"

text \<open>Face-centred fields.\<close>

definition ex_bfc :: face_fld where
  "ex_bfc = \<lparr>x1f = (\<lambda>c. case c of (m, k, j, i) \<Rightarrow> real_of_int i), x2f = (\<lambda>c. 1), x3f = (\<lambda>c. 2)\<rparr>"

text \<open>A state of the pack with the conserved density \<open>d\<close> in every cell.\<close>

definition ex_pack :: "real \<Rightarrow> pack" where
  "ex_pack d = \<lparr>cons = (\<lambda>c n. if n = 0 then d else 0), bcc0 = (\<lambda>c n. 7), prim = (\<lambda>c n. 1 / 4),
     fofc = (\<lambda>c. False), nfofc = 0,
     eos = \<lparr>GetBaryonMass = 1, IsPrimitiveFlooringFailure = False,
             IsConservedFlooringFailure = False\<rparr>,
     out = []\<rparr>"

text \<open>The pack without excision.\<close>

definition ex_env_plain :: env where
  "ex_env_plain = ex_env\<lparr>bh_excise := False\<rparr>"

text \<open>The state with every cell flagged.\<close>

definition ex_pack_flagged :: pack where
  "ex_pack_flagged = (ex_pack 1)\<lparr>fofc := (\<lambda>c. True)\<rparr>"

text \<open>The pack with the zero metric.\<close>

definition ex_env_zero :: env where
  "ex_env_zero = ex_env\<lparr>g_dd := (\<lambda>c a b. 0)\<rparr>"

text \<open>The pack with a metric of determinant \<open>- 4\<close>.\<close>

definition ex_env_neg :: env where
  "ex_env_neg = ex_env\<lparr>g_dd := (\<lambda>c a b. if a = b then (if a = 0 then - 4 else 1) else 0)\<rparr>"

text \<open>A solver on floating-point values: the conserved momentum of \<open>PrimToCon\<close> and the
  recovered velocity of the root-finder are the field they are handed, and the root-finder
  reports a conserved density that is not finite.\<close>

definition ex_solver_fp :: fp_solver where
  "ex_solver_fp = \<lparr>GetTemperatureFromP_fp = (\<lambda>e n p Y. p),
     ApplyPrimitiveFloor_fp = (\<lambda>e p. (False, p)),
     PrimToCon_fp = (\<lambda>e p b g. \<lparr>CDN_fp = PRH_fp p, CSX_fp = fst b, CSY_fp = fst (snd b),
        CSZ_fp = snd (snd b), CTA_fp = PPR_fp p, CYD_fp = PYF_fp p\<rparr>),
     ConToPrim_fp = (\<lambda>e u b g gu.
       (\<lparr>error = (if fp_finite (CDN_fp u) then SUCCESS else NANS_IN_CONS), iterations = 1,
         cons_floor = False, prim_floor = False, cons_adjusted = False\<rparr>,
        \<lparr>PRH_fp = CDN_fp u, PVX_fp = fst b, PVY_fp = fst (snd b), PVZ_fp = snd (snd b),
         PPR_fp = CTA_fp u, PTM_fp = CTA_fp u, PYF_fp = (\<lambda>n. Fin (1 / 2))\<rparr>,
        u)),
     junk_fp = (\<lambda>n. Fin 0)\<rparr>"

text \<open>A state of the pack with finite values.\<close>

definition ex_pack_fp :: fp_pack where
  "ex_pack_fp = \<lparr>cons_fp = (\<lambda>c n. Fin 1), bcc0_fp = (\<lambda>c n. Fin 7), prim_fp = (\<lambda>c n. Fin (1 / 4)),
     fofc_fp = (\<lambda>c. False), nfofc_fp = 0,
     eos_fp = \<lparr>GetBaryonMass = 1, IsPrimitiveFlooringFailure = False,
                IsConservedFlooringFailure = False\<rparr>,
     out_fp = []\<rparr>"

text \<open>A solver whose recovered velocity is the field it is handed.\<close>

definition ex_ps_field :: PrimitiveSolver where
  "ex_ps_field = ex_ps\<lparr>ConToPrim := (\<lambda>e u b g gu.
       (\<lparr>error = SUCCESS, iterations = 1, cons_floor = False, prim_floor = False,
         cons_adjusted = False\<rparr>,
        \<lparr>PRH = CDN u, PVX = fst b, PVY = fst (snd b), PVZ = snd (snd b), PPR = CTA u,
         PTM = CTA u, PYF = (\<lambda>n. 1 / 2)\<rparr>,
        u))\<rparr>"

text \<open>A one-dimensional mesh, with the flag \<open>use_fofc\<close> as given.\<close>

definition ex_mesh :: "bool \<Rightarrow> mesh" where
  "ex_mesh fofc_on = \<lparr>is' = 0, ie = 1, js = 0, je = 0, ks = 0, ke = 0, one_d = True, two_d = False,
     multi_d = False, three_d = False, recon_method = dc, use_fofc = fofc_on\<rparr>"

text \<open>Donor-cell reconstruction, a solver that leaves everything as it is, and a flux
  correction that does the same.\<close>

definition ex_ops :: flux_ops where
  "ex_ops = \<lparr>Reconstruct = (\<lambda>method extrema d q m k j. (\<lambda>n i. q (m, k, j, i) n, \<lambda>n i. q (m, k, j, i) n)),
     RSolve = (\<lambda>rsolver ivx m k j il iu wl wr bl br bx fd. ((wl, wr), fd)),
     FOFC = (\<lambda>stage x. x)\<rparr>"

text \<open>Scratch memory and fluxes, all zero.\<close>

definition ex_scr :: scratch where
  "ex_scr = (\<lambda>n i. 0)"

definition ex_scrs :: "nat \<Rightarrow> scratch" where
  "ex_scrs = (\<lambda>a n i. 0)"

definition ex_fd :: flux_data where
  "ex_fd = \<lparr>uflx_x1f = (\<lambda>c n. 0), uflx_x2f = (\<lambda>c n. 0), uflx_x3f = (\<lambda>c n. 0),
     e3x1 = (\<lambda>c. 0), e2x1 = (\<lambda>c. 0), e1x2 = (\<lambda>c. 0), e3x2 = (\<lambda>c. 0), e2x3 = (\<lambda>c. 0),
     e1x3 = (\<lambda>c. 0)\<rparr>"




text \<open>The flat metric, and a fluid that moves across the first direction.\<close>

definition ex_flat :: g3 where
  "ex_flat = \<lparr>S11 = 1, S12 = 0, S13 = 0, S22 = 1, S23 = 0, S33 = 1\<rparr>"

definition ex_prim :: prim_pt where
  "ex_prim = \<lparr>PRH = 1, PVX = 0, PVY = 2, PVZ = 2, PPR = 1, PTM = 1, PYF = (\<lambda>n. 0)\<rparr>"

section \<open>The kernel of ConsToPrim, cell by cell\<close>

lemmas index_defs = IDN_def IM1_def IVX_def IM2_def IVY_def IM3_def IVZ_def IEN_def IPR_def
  IBX_def IBY_def IBZ_def

lemma upd_apply: "upd a c n v c' n' = (if c' = c \<and> n' = n then v else a c' n')"
  by (simp add: upd_def)

lemma store_scalars_apply:
  "store_scalars a c nhyd nscal f c' n =
     (if c' = c \<and> nhyd \<le> n \<and> n < nhyd + nscal then f (n - nhyd) else a c' n)"
proof -
  have "foldl (\<lambda>a n. upd a c (nhyd + n) (f n)) a [0..<k] c' n =
     (if c' = c \<and> nhyd \<le> n \<and> n < nhyd + k then f (n - nhyd) else a c' n)" for k
  proof (induction k)
    case 0
    then show ?case by auto
  next
    case (Suc k)
    then show ?case by (auto simp: upd_apply)
  qed
  then show ?thesis by (simp add: store_scalars_def)
qed

lemma read_scalars_id: "read_scalars a c nhyd nscal = a"
proof -
  have "foldl (\<lambda>a n. let r = a c (nhyd + n) in a) a xs = a" for xs
    by (induction xs) (simp_all add: Let_def)
  then show ?thesis by (simp add: read_scalars_def)
qed

lemma store_cons_other: "c' \<noteq> c \<Longrightarrow> store_cons a c nhyd nscal sd cp c' = a c'"
  by (simp add: store_cons_def fun_eq_iff store_scalars_apply upd_apply)

lemma copy_prim_other: "c' \<noteq> c \<Longrightarrow> copy_prim a c nhyd nscal sd cp c' = a c'"
  by (simp add: copy_prim_def fun_eq_iff read_scalars_id upd_apply)

lemma cc_fields_other: "c' \<noteq> c \<Longrightarrow> cc_fields bfc fl c b c' = b c'"
  by (cases c) (simp add: cc_fields_def fun_eq_iff upd_apply)

text \<open>Each block reads the array at its own cell only.\<close>

lemma store_cons_local: "a c = a' c \<Longrightarrow> store_cons a c nhyd nscal sd cp c = store_cons a' c nhyd nscal sd cp c"
  by (simp add: store_cons_def fun_eq_iff store_scalars_apply upd_apply)

lemma copy_prim_local: "a c = a' c \<Longrightarrow> copy_prim a c nhyd nscal sd cp c = copy_prim a' c nhyd nscal sd cp c"
  by (simp add: copy_prim_def fun_eq_iff read_scalars_id upd_apply)

lemma cc_fields_local: "b c = b' c \<Longrightarrow> cc_fields bfc fl c b c = cc_fields bfc fl c b' c"
  by (cases c) (simp add: cc_fields_def fun_eq_iff upd_apply)

lemma extract_cons_local:
  assumes "u c = u' c"
  shows "extract_cons E c u x = extract_cons E c u' x"
proof -
  have "u c n = u' c n" for n using assms by simp
  then show ?thesis by (simp add: extract_cons_def cong: if_cong)
qed

lemma c2p_outcome_local:
  "cons s c = cons t c \<Longrightarrow> bcc0 s c = bcc0 t c \<Longrightarrow>
   c2p_outcome E ps eosc bfc fl c s = c2p_outcome E ps eosc bfc fl c t"
  using cc_fields_local [of "bcc0 s" c "bcc0 t" bfc fl] extract_cons_local [of "cons s" c "cons t" E]
  by (simp add: c2p_outcome_def Let_def)

lemma c2p_body_unfold:
  "c2p_body E ps eosc bfc fl c (s, sumd) =
    (let r = c2p_outcome E ps eosc bfc fl c s;
         g3d = metric_at E c; detg = GetDeterminant g3d;
         s1 = s\<lparr>bcc0 := cc_fields bfc fl c (bcc0 s)\<rparr>
     in if error (fst r) \<noteq> SUCCESS \<and> fl then (s1\<lparr>fofc := (fofc s)(c := True)\<rparr>, sumd + 1)
        else
          (let s2 = (if error (fst r) \<noteq> SUCCESS
                     then s1\<lparr>out := out s @ [c2p_report E c (error (fst r))
                            (extract_cons E c (cons s) (1 / sqrt detg)) detg g3d]\<rparr>
                     else s1);
               s3 = s2\<lparr>prim := copy_prim (prim s) c (nmhd E) (nscalars E) (GetBaryonMass eosc)
                        (fst (snd r))\<rparr>
           in if cons_floor (fst r) \<or> cons_adjusted (fst r)
              then (s3\<lparr>cons := store_cons (cons s) c (nmhd E) (nscalars E) (sqrt detg)
                      (snd (snd r))\<rparr>, sumd)
              else (s3, sumd)))"
  by (cases fl; simp add: c2p_body_def c2p_outcome_def Let_def)

lemma c2p_body_eos: "eos (fst (c2p_body E ps eosc bfc fl c (s, n))) = eos s"
  by (simp add: c2p_body_def Let_def)

lemma c2p_body_nfofc: "nfofc (fst (c2p_body E ps eosc bfc fl c (s, n))) = nfofc s"
  by (simp add: c2p_body_def Let_def)

lemma c2p_body_cons:
  "cons (fst (c2p_body E ps eosc bfc fl c (s, n))) =
    (let r = c2p_outcome E ps eosc bfc fl c s
     in if error (fst r) \<noteq> SUCCESS \<and> fl then cons s
        else if cons_floor (fst r) \<or> cons_adjusted (fst r)
        then store_cons (cons s) c (nmhd E) (nscalars E) (sqrt (GetDeterminant (metric_at E c)))
               (snd (snd r))
        else cons s)"
  by (cases fl; simp add: c2p_body_unfold Let_def)

lemma c2p_body_prim:
  "prim (fst (c2p_body E ps eosc bfc fl c (s, n))) =
    (let r = c2p_outcome E ps eosc bfc fl c s
     in if error (fst r) \<noteq> SUCCESS \<and> fl then prim s
        else copy_prim (prim s) c (nmhd E) (nscalars E) (GetBaryonMass eosc) (fst (snd r)))"
  by (cases fl; simp add: c2p_body_unfold Let_def)

lemma c2p_body_bcc0:
  "bcc0 (fst (c2p_body E ps eosc bfc fl c (s, n))) = cc_fields bfc fl c (bcc0 s)"
  by (cases fl; simp add: c2p_body_unfold Let_def)

lemma c2p_body_fofc:
  "fofc (fst (c2p_body E ps eosc bfc fl c (s, n))) =
    (if error (fst (c2p_outcome E ps eosc bfc fl c s)) \<noteq> SUCCESS \<and> fl
     then (fofc s)(c := True) else fofc s)"
  by (cases fl; simp add: c2p_body_unfold Let_def)

lemma c2p_body_count:
  "snd (c2p_body E ps eosc bfc fl c (s, n)) =
     n + (if error (fst (c2p_outcome E ps eosc bfc fl c s)) \<noteq> SUCCESS \<and> fl then 1 else 0)"
  by (cases fl; simp add: c2p_body_unfold Let_def)

lemma c2p_body_other:
  assumes "c' \<noteq> c"
  shows "cons (fst (c2p_body E ps eosc bfc fl c (s, n))) c' = cons s c'"
    and "prim (fst (c2p_body E ps eosc bfc fl c (s, n))) c' = prim s c'"
    and "bcc0 (fst (c2p_body E ps eosc bfc fl c (s, n))) c' = bcc0 s c'"
    and "fofc (fst (c2p_body E ps eosc bfc fl c (s, n))) c' = fofc s c'"
  using assms
  by (simp_all add: c2p_body_cons c2p_body_prim c2p_body_bcc0 c2p_body_fofc Let_def
      store_cons_other copy_prim_other cc_fields_other)

lemma same_at_refl: "same_at c s s"
  by (simp add: same_at_def)

lemma c2p_body_same_other: "c' \<noteq> c \<Longrightarrow> same_at c' (fst (c2p_body E ps eosc bfc fl c (s, n))) s"
  by (simp add: same_at_def c2p_body_other)

lemma c2p_body_local:
  assumes "same_at c s t"
  shows "same_at c (fst (c2p_body E ps eosc bfc fl c (s, n))) (fst (c2p_body E ps eosc bfc fl c (t, n')))"
proof -
  let ?r = "c2p_outcome E ps eosc bfc fl c t"
  have 1: "cons s c = cons t c" "prim s c = prim t c" "bcc0 s c = bcc0 t c" "fofc s c = fofc t c"
    using assms by (simp_all add: same_at_def)
  have o: "c2p_outcome E ps eosc bfc fl c s = ?r"
    by (rule c2p_outcome_local) (fact 1)+
  note 2 = store_cons_local [of "cons s" c "cons t", OF 1(1)]
    copy_prim_local [of "prim s" c "prim t", OF 1(2)]
    cc_fields_local [of "bcc0 s" c "bcc0 t", OF 1(3)]
  consider (a) "error (fst ?r) \<noteq> SUCCESS \<and> fl"
    | (b) "\<not> (error (fst ?r) \<noteq> SUCCESS \<and> fl)" "cons_floor (fst ?r) \<or> cons_adjusted (fst ?r)"
    | (c) "\<not> (error (fst ?r) \<noteq> SUCCESS \<and> fl)" "\<not> (cons_floor (fst ?r) \<or> cons_adjusted (fst ?r))"
    by blast
  then show ?thesis
  proof cases
    case a
    with o show ?thesis
      by (cases fl; simp add: same_at_def c2p_body_cons c2p_body_prim c2p_body_bcc0 c2p_body_fofc Let_def 1 2)
  next
    case b
    with o show ?thesis
      by (cases fl; simp add: same_at_def c2p_body_cons c2p_body_prim c2p_body_bcc0 c2p_body_fofc Let_def 1 2)
  next
    case c
    with o show ?thesis
      by (cases fl; simp add: same_at_def c2p_body_cons c2p_body_prim c2p_body_bcc0 c2p_body_fofc Let_def 1 2)
  qed
qed

lemma same_at_trans: "same_at c s t \<Longrightarrow> same_at c t u \<Longrightarrow> same_at c s u"
  by (simp add: same_at_def)

lemma c2p_outcome_same: "same_at c s t \<Longrightarrow>
    c2p_outcome E ps eosc bfc fl c s = c2p_outcome E ps eosc bfc fl c t"
  by (rule c2p_outcome_local) (simp_all add: same_at_def)

section \<open>The pass of ConsToPrim over the cells\<close>

lemma fold_body_other:
  "c \<notin> set cs \<Longrightarrow> same_at c (fst (fold (c2p_body E ps eosc bfc fl) cs P)) (fst P)"
proof (induction cs arbitrary: P)
  case Nil
  then show ?case by (simp add: same_at_refl)
next
  case (Cons x xs)
  obtain s n where P: "P = (s, n)" by (cases P)
  from Cons.prems have "c \<noteq> x" "c \<notin> set xs" by auto
  then have "same_at c (fst (fold (c2p_body E ps eosc bfc fl) xs (c2p_body E ps eosc bfc fl x P)))
      (fst (c2p_body E ps eosc bfc fl x P))"
    using Cons.IH by blast
  moreover have "same_at c (fst (c2p_body E ps eosc bfc fl x P)) (fst P)"
    using \<open>c \<noteq> x\<close> by (simp add: P c2p_body_same_other)
  ultimately show ?case by (auto intro: same_at_trans)
qed

lemma fold_body_at:
  "distinct cs \<Longrightarrow> c \<in> set cs \<Longrightarrow>
   same_at c (fst (fold (c2p_body E ps eosc bfc fl) cs P)) (fst (c2p_body E ps eosc bfc fl c P))"
proof (induction cs arbitrary: P)
  case Nil
  then show ?case by simp
next
  case (Cons x xs)
  obtain s n where P: "P = (s, n)" by (cases P)
  show ?case
  proof (cases "x = c")
    case True
    with Cons.prems have "c \<notin> set xs" by simp
    then show ?thesis using True by (simp add: fold_body_other)
  next
    case False
    with Cons.prems have "distinct xs" "c \<in> set xs" by auto
    then have "same_at c (fst (fold (c2p_body E ps eosc bfc fl) xs (c2p_body E ps eosc bfc fl x P)))
        (fst (c2p_body E ps eosc bfc fl c (c2p_body E ps eosc bfc fl x P)))"
      using Cons.IH by blast
    moreover have "same_at c (fst (c2p_body E ps eosc bfc fl x P)) (fst P)"
      using False by (simp add: P c2p_body_same_other)
    then have "same_at c (fst (c2p_body E ps eosc bfc fl c (c2p_body E ps eosc bfc fl x P)))
        (fst (c2p_body E ps eosc bfc fl c P))"
      using c2p_body_local [of c "fst (c2p_body E ps eosc bfc fl x P)" "fst P" E ps eosc bfc fl
          "snd (c2p_body E ps eosc bfc fl x P)" "snd P"]
      by simp
    ultimately show ?thesis by (auto intro: same_at_trans)
  qed
qed

lemma fold_body_eos:
  "eos (fst (fold (c2p_body E ps eosc bfc fl) cs P)) = eos (fst P)"
proof (induction cs arbitrary: P)
  case Nil
  then show ?case by simp
next
  case (Cons x xs)
  obtain s n where P: "P = (s, n)" by (cases P)
  show ?case by (simp add: Cons.IH) (simp add: P c2p_body_eos)
qed

lemma fold_body_nfofc:
  "nfofc (fst (fold (c2p_body E ps eosc bfc fl) cs P)) = nfofc (fst P)"
proof (induction cs arbitrary: P)
  case Nil
  then show ?case by simp
next
  case (Cons x xs)
  obtain s n where P: "P = (s, n)" by (cases P)
  show ?case by (simp add: Cons.IH) (simp add: P c2p_body_nfofc)
qed

lemma fold_body_count:
  "distinct cs \<Longrightarrow>
   snd (fold (c2p_body E ps eosc bfc fl) cs P) =
     snd P + (if fl then int (length (filter (c2p_fails E ps eosc bfc fl (fst P)) cs)) else 0)"
proof (induction cs arbitrary: P)
  case Nil
  then show ?case by simp
next
  case (Cons x xs)
  obtain s n where P: "P = (s, n)" by (cases P)
  let ?Q = "c2p_body E ps eosc bfc fl x P"
  have "c2p_fails E ps eosc bfc fl (fst ?Q) c = c2p_fails E ps eosc bfc fl (fst P) c"
    if "c \<in> set xs" for c
  proof -
    from that Cons.prems have "c \<noteq> x" by auto
    then have "same_at c (fst ?Q) (fst P)" by (simp add: P c2p_body_same_other)
    then show ?thesis by (simp add: c2p_fails_def c2p_outcome_same)
  qed
  then have "filter (c2p_fails E ps eosc bfc fl (fst ?Q)) xs = filter (c2p_fails E ps eosc bfc fl (fst P)) xs"
    by (intro filter_cong) simp_all
  moreover have "snd ?Q = snd P + (if c2p_fails E ps eosc bfc fl (fst P) x \<and> fl then 1 else 0)"
    by (simp add: P c2p_body_count c2p_fails_def)
  moreover from Cons.prems have "distinct xs" by simp
  ultimately show ?case using Cons.IH [of ?Q] by (cases fl; simp)
qed

lemma c2p_pass_fold:
  "c2p_pass E ps eosc bfc fl il jl kl ni nji nkji nmkji s =
     fold (c2p_body E ps eosc bfc fl) (map (c2p_cell il jl kl ni nji nkji) [0..nmkji - 1]) (s, 0)"
  by (simp add: c2p_pass_def fold_map comp_def)

lemma c2p_cell_inj:
  assumes "c2p_cell il jl kl ni nji nkji idx = c2p_cell il jl kl ni nji nkji idx'"
  shows "idx = idx'"
proof -
  define m where "m = idx sdiv nkji"
  define k where "k = (idx - m * nkji) sdiv nji"
  define j where "j = (idx - m * nkji - k * nji) sdiv ni"
  define m' where "m' = idx' sdiv nkji"
  define k' where "k' = (idx' - m' * nkji) sdiv nji"
  define j' where "j' = (idx' - m' * nkji - k' * nji) sdiv ni"
  have 1: "c2p_cell il jl kl ni nji nkji idx = (m, k + kl, j + jl, idx - m * nkji - k * nji - j * ni + il)"
    by (simp add: c2p_cell_def Let_def m_def k_def j_def)
  have 2: "c2p_cell il jl kl ni nji nkji idx' = (m', k' + kl, j' + jl, idx' - m' * nkji - k' * nji - j' * ni + il)"
    by (simp add: c2p_cell_def Let_def m'_def k'_def j'_def)
  from assms have "m = m'" "k = k'" "j = j'"
    "idx - m * nkji - k * nji - j * ni + il = idx' - m' * nkji - k' * nji - j' * ni + il"
    unfolding 1 2 by auto
  then show ?thesis by simp
qed

lemma c2p_cells_distinct: "distinct (map (c2p_cell il jl kl ni nji nkji) [a..b])"
  by (simp add: distinct_map inj_on_def) (blast dest: c2p_cell_inj)

lemma sdiv_nonneg: "0 \<le> a \<Longrightarrow> 0 < b \<Longrightarrow> (a::int) sdiv b = a div b"
  by (cases "a = 0") (simp_all add: signed_divide_int_def)

lemma div_step: "0 \<le> r \<Longrightarrow> r < n \<Longrightarrow> (q * n + r) div n = (q::int)"
  by simp

lemma box_remainders:
  fixes m k j i :: int
  assumes b: "kl \<le> k" "k \<le> ku" "jl \<le> j" "j \<le> ju" "il \<le> i" "i \<le> iu"
    and ni: "ni = iu - il + 1" and nji: "nji = (ju - jl + 1) * ni"
    and nkji: "nkji = (ku - kl + 1) * nji"
  shows "0 < ni" "0 < nji" "0 < nkji"
    and "0 \<le> i - il" "i - il < ni"
    and "0 \<le> (j - jl) * ni + (i - il)" "(j - jl) * ni + (i - il) < nji"
    and "0 \<le> (k - kl) * nji + (j - jl) * ni + (i - il)"
        "(k - kl) * nji + (j - jl) * ni + (i - il) < nkji"
proof -
  show 1: "0 < ni" using b by (simp add: ni)
  show 2: "0 < nji" using b 1 by (simp add: nji)
  show 3: "0 < nkji" using b 2 by (simp add: nkji)
  show 4: "0 \<le> i - il" "i - il < ni" using b by (simp_all add: ni)
  show 5: "0 \<le> (j - jl) * ni + (i - il)" using b 1 4 by simp
  have "(j - jl) * ni + (i - il) < (j - jl) * ni + ni" using 4 by simp
  also have "\<dots> = (j - jl + 1) * ni" by (simp add: algebra_simps)
  also have "\<dots> \<le> (ju - jl + 1) * ni" by (rule mult_right_mono) (use b 1 in simp_all)
  finally show 6: "(j - jl) * ni + (i - il) < nji" by (simp add: nji)
  have "0 \<le> (k - kl) * nji" using b 2 by simp
  then show 7: "0 \<le> (k - kl) * nji + (j - jl) * ni + (i - il)" using 5 by linarith
  have "(k - kl) * nji + (j - jl) * ni + (i - il) < (k - kl) * nji + nji" using 6 by simp
  also have "\<dots> = (k - kl + 1) * nji" by (simp add: algebra_simps)
  also have "\<dots> \<le> (ku - kl + 1) * nji" by (rule mult_right_mono) (use b 2 in simp_all)
  finally show "(k - kl) * nji + (j - jl) * ni + (i - il) < nkji" by (simp add: nkji)
qed

lemma c2p_cell_index:
  assumes box: "in_box nmb il iu jl ju kl ku c"
    and ni: "ni = iu - il + 1" and nji: "nji = (ju - jl + 1) * ni"
    and nkji: "nkji = (ku - kl + 1) * nji"
  shows "c2p_cell il jl kl ni nji nkji (c2p_index il jl kl ni nji nkji c) = c"
    and "0 \<le> c2p_index il jl kl ni nji nkji c"
    and "c2p_index il jl kl ni nji nkji c \<le> nmb * nkji - 1"
proof -
  obtain m k j i where c: "c = (m, k, j, i)" by (cases c)
  from box have b: "0 \<le> m" "m < nmb" "kl \<le> k" "k \<le> ku" "jl \<le> j" "j \<le> ju" "il \<le> i" "i \<le> iu"
    by (simp_all add: in_box_def c)
  note r = box_remainders [OF b(3-8) ni nji nkji]
  let ?r2 = "(k - kl) * nji + (j - jl) * ni + (i - il)"
  let ?idx = "m * nkji + ?r2"
  have idx: "c2p_index il jl kl ni nji nkji c = ?idx"
    by (simp add: c2p_index_def c)
  have nonneg: "0 \<le> ?idx" using b(1) r(3) r(8) by simp
  have m: "?idx sdiv nkji = m"
    using nonneg r(3) div_step [OF r(8) r(9), of m] by (simp only: sdiv_nonneg add.assoc)
  have k: "(?idx - m * nkji) sdiv nji = k - kl"
  proof -
    have "?idx - m * nkji = (k - kl) * nji + ((j - jl) * ni + (i - il))" by simp
    moreover have "0 \<le> (k - kl) * nji + ((j - jl) * ni + (i - il))" using r(8) by simp
    ultimately show ?thesis
      using r(2) div_step [OF r(6) r(7), of "k - kl"] by (simp only: sdiv_nonneg)
  qed
  have j: "(?idx - m * nkji - (k - kl) * nji) sdiv ni = j - jl"
  proof -
    have "?idx - m * nkji - (k - kl) * nji = (j - jl) * ni + (i - il)" by simp
    then show ?thesis
      using r(1) r(6) div_step [OF r(4) r(5), of "j - jl"] by (simp only: sdiv_nonneg)
  qed
  show "c2p_cell il jl kl ni nji nkji (c2p_index il jl kl ni nji nkji c) = c"
    unfolding idx c2p_cell_def Let_def m k j by (simp add: c)
  show "0 \<le> c2p_index il jl kl ni nji nkji c" using nonneg by (simp add: idx)
  have "?idx < m * nkji + nkji" using r(9) by simp
  also have "\<dots> = (m + 1) * nkji" by (simp add: algebra_simps)
  also have "\<dots> \<le> nmb * nkji" by (rule mult_right_mono) (use b r(3) in simp_all)
  finally show "c2p_index il jl kl ni nji nkji c \<le> nmb * nkji - 1" by (simp add: idx)
qed

lemma box_cell_in_pass:
  assumes "in_box nmb il iu jl ju kl ku c"
    and "ni = iu - il + 1" and "nji = (ju - jl + 1) * ni" and "nkji = (ku - kl + 1) * nji"
  shows "c \<in> set (map (c2p_cell il jl kl ni nji nkji) [0..nmb * nkji - 1])"
proof -
  note i = c2p_cell_index [OF assms]
  have "c2p_index il jl kl ni nji nkji c \<in> set [0..nmb * nkji - 1]"
    using i(2,3) by simp
  moreover have "c = c2p_cell il jl kl ni nji nkji (c2p_index il jl kl ni nji nkji c)"
    by (simp only: i(1))
  ultimately show ?thesis unfolding set_map by (rule image_eqI [rotated])
qed

lemma pass_policy_mb: "GetBaryonMass (pass_policy fl e) = GetBaryonMass e"
  by (simp add: pass_policy_def)

lemma c2p_pass_cells:
  "c2p_pass E ps eosc bfc fl il jl kl (iu - il + 1) ((ju - jl + 1) * (iu - il + 1))
      ((ku - kl + 1) * ((ju - jl + 1) * (iu - il + 1)))
      (nmb * ((ku - kl + 1) * ((ju - jl + 1) * (iu - il + 1)))) s =
     fold (c2p_body E ps eosc bfc fl) (pass_cells nmb il iu jl ju kl ku) (s, 0)"
  by (simp add: c2p_pass_fold pass_cells_def Let_def)

lemma pass_cells_distinct: "distinct (pass_cells nmb il iu jl ju kl ku)"
  by (simp only: pass_cells_def Let_def c2p_cells_distinct)

lemma pass_cells_box: "in_box nmb il iu jl ju kl ku c \<Longrightarrow> c \<in> set (pass_cells nmb il iu jl ju kl ku)"
  using box_cell_in_pass [of nmb il iu jl ju kl ku c "iu - il + 1" "(ju - jl + 1) * (iu - il + 1)"
      "(ku - kl + 1) * ((ju - jl + 1) * (iu - il + 1))"]
  by (simp add: pass_cells_def Let_def)

text \<open>ConsToPrim in terms of the fold over the cells.\<close>

lemma ConsToPrim_fold:
  "ConsToPrim E ps bfc il iu jl ju kl ku fl s =
    (let p = fold (c2p_body E ps (pass_policy fl (eos s)) bfc fl)
               (pass_cells (nmb_thispack E) il iu jl ju kl ku)
               (s\<lparr>eos := pass_policy fl (eos s)\<rparr>, 0)
     in if fl then (fst p)\<lparr>eos := eos s, nfofc := nfofc (fst p) + snd p\<rparr> else fst p)"
proof (cases fl)
  case True
  have e: "eos (fst (fold (c2p_body E ps eosc bfc True) cs (s\<lparr>eos := e1\<rparr>, 0)))
      \<lparr>IsPrimitiveFlooringFailure := IsPrimitiveFlooringFailure (eos s),
        IsConservedFlooringFailure := IsConservedFlooringFailure (eos s)\<rparr> = eos s"
    if "e1 = (eos s)\<lparr>IsPrimitiveFlooringFailure := True, IsConservedFlooringFailure := True\<rparr>"
    for eosc cs e1
    by (simp add: fold_body_eos that)
  show ?thesis
    unfolding ConsToPrim_def Let_def c2p_pass_cells
    by (simp add: True pass_policy_def e)
next
  case False
  show ?thesis
    unfolding ConsToPrim_def Let_def c2p_pass_cells
    by (simp add: False pass_policy_def)
qed

lemma same_at_eos: "same_at c (s\<lparr>eos := e\<rparr>) s"
  by (simp add: same_at_def)

lemma same_at_restore: "same_at c (s\<lparr>eos := e, nfofc := n\<rparr>) s"
  by (simp add: same_at_def)

lemma ConsToPrim_at:
  assumes "in_box (nmb_thispack E) il iu jl ju kl ku c"
  shows "same_at c (ConsToPrim E ps bfc il iu jl ju kl ku fl s)
           (fst (c2p_body E ps (pass_policy fl (eos s)) bfc fl c (s, 0)))"
proof -
  let ?e = "pass_policy fl (eos s)"
  let ?cs = "pass_cells (nmb_thispack E) il iu jl ju kl ku"
  let ?p = "fold (c2p_body E ps ?e bfc fl) ?cs (s\<lparr>eos := ?e\<rparr>, 0)"
  have "same_at c (fst ?p) (fst (c2p_body E ps ?e bfc fl c (s\<lparr>eos := ?e\<rparr>, 0)))"
    using fold_body_at [OF pass_cells_distinct pass_cells_box [OF assms]] by simp
  moreover have "same_at c (fst (c2p_body E ps ?e bfc fl c (s\<lparr>eos := ?e\<rparr>, 0)))
      (fst (c2p_body E ps ?e bfc fl c (s, 0)))"
    by (rule c2p_body_local) (rule same_at_eos)
  moreover have "same_at c (ConsToPrim E ps bfc il iu jl ju kl ku fl s) (fst ?p)"
    unfolding ConsToPrim_fold Let_def by (cases fl) (simp_all add: same_at_restore same_at_refl)
  ultimately show ?thesis by (blast intro: same_at_trans)
qed

lemma c2p_outcome_eos: "c2p_outcome E ps eosc bfc fl c (s\<lparr>eos := e\<rparr>) = c2p_outcome E ps eosc bfc fl c s"
  by (simp add: c2p_outcome_def)

lemma c2p_fails_eos: "c2p_fails E ps eosc bfc fl (s\<lparr>eos := e\<rparr>) = c2p_fails E ps eosc bfc fl s"
  by (simp add: c2p_fails_def c2p_outcome_eos fun_eq_iff)

lemma ConsToPrim_eos: "eos (ConsToPrim E ps bfc il iu jl ju kl ku fl s) = eos s"
  unfolding ConsToPrim_fold Let_def by (cases fl) (simp_all add: fold_body_eos pass_policy_def)

lemma ConsToPrim_nfofc:
  "nfofc (ConsToPrim E ps bfc il iu jl ju kl ku fl s) =
     nfofc s + (if fl then int (length (filter (c2p_fails E ps (pass_policy fl (eos s)) bfc fl s)
       (pass_cells (nmb_thispack E) il iu jl ju kl ku))) else 0)"
  unfolding ConsToPrim_fold Let_def
  by (cases fl) (simp_all add: fold_body_nfofc fold_body_count [OF pass_cells_distinct] c2p_fails_eos)

section \<open>ConsToPrim at a cell of its index range\<close>

lemma ex_box: "in_box (nmb_thispack ex_env) 0 1 0 0 0 0 (0, 0, 0, 0)"
  "in_box (nmb_thispack ex_env) 0 1 0 0 0 0 (0, 0, 0, 1)"
  by (simp_all add: in_box_def ex_env_def)

lemma ex_det: "GetDeterminant (metric_at ex_env c) = 1"
  by (simp add: GetDeterminant_def metric_at_def ex_env_def)

lemma copy_prim_apply:
  "copy_prim a c nhyd nscal mb p c' n =
    (if c' = c \<and> n = IPR then PPR p
     else if c' = c \<and> n = IVZ then PVZ p
     else if c' = c \<and> n = IVY then PVY p
     else if c' = c \<and> n = IVX then PVX p
     else if c' = c \<and> n = IDN then PRH p * mb
     else a c' n)"
  by (simp add: copy_prim_def read_scalars_id upd_apply)

lemma c2p_outcome_excised:
  "bh_excise E \<Longrightarrow> excision_floor E c \<Longrightarrow>
   c2p_outcome E ps eosc bfc fl c s =
     c2p_excised E ps eosc
       (extract_cons E c (cons s) (1 / sqrt (GetDeterminant (metric_at E c))))
       (cc_fields bfc fl c (bcc0 s) c IBX * (1 / sqrt (GetDeterminant (metric_at E c))),
        cc_fields bfc fl c (bcc0 s) c IBY * (1 / sqrt (GetDeterminant (metric_at E c))),
        cc_fields bfc fl c (bcc0 s) c IBZ * (1 / sqrt (GetDeterminant (metric_at E c))))
       (metric_at E c)"
  by (simp add: c2p_outcome_def c2p_solve_def Let_def)

lemma c2p_outcome_solved:
  "\<not> (bh_excise E \<and> excision_floor E c) \<Longrightarrow>
   c2p_outcome E ps eosc bfc fl c s =
     ConToPrim ps eosc
       (extract_cons E c (cons s) (1 / sqrt (GetDeterminant (metric_at E c))))
       (cc_fields bfc fl c (bcc0 s) c IBX * (1 / sqrt (GetDeterminant (metric_at E c))),
        cc_fields bfc fl c (bcc0 s) c IBY * (1 / sqrt (GetDeterminant (metric_at E c))),
        cc_fields bfc fl c (bcc0 s) c IBZ * (1 / sqrt (GetDeterminant (metric_at E c))))
       (metric_at E c)
       (SpatialInv (1 / GetDeterminant (metric_at E c)) (metric_at E c))"
  by (auto simp add: c2p_outcome_def c2p_solve_def Let_def)

lemma c2p_excised_result:
  "fst (c2p_excised E ps eosc u b g) =
     \<lparr>error = SUCCESS, iterations = 0, cons_floor = False, prim_floor = False, cons_adjusted = True\<rparr>"
  by (simp add: c2p_excised_def Let_def)

lemma c2p_excised_prim:
  "PRH (fst (snd (c2p_excised E ps eosc u b g))) = dexcise E / GetBaryonMass eosc"
  "PVX (fst (snd (c2p_excised E ps eosc u b g))) = 0"
  "PVY (fst (snd (c2p_excised E ps eosc u b g))) = 0"
  "PVZ (fst (snd (c2p_excised E ps eosc u b g))) = 0"
  "PPR (fst (snd (c2p_excised E ps eosc u b g))) = pexcise E"
  by (simp_all add: c2p_excised_def Let_def)

lemma c2p_excised_solver: "c2p_excised E (ps\<lparr>ConToPrim := f\<rparr>) eosc u b g = c2p_excised E ps eosc u b g"
  by (simp add: c2p_excised_def Let_def)

text \<open>The four arrays at a cell of the index range after ConsToPrim.\<close>

lemma ConsToPrim_prim_at:
  assumes "in_box (nmb_thispack E) il iu jl ju kl ku c"
  shows "prim (ConsToPrim E ps bfc il iu jl ju kl ku fl s) c =
    (if c2p_fails E ps (pass_policy fl (eos s)) bfc fl s c \<and> fl then prim s c
     else copy_prim (prim s) c (nmhd E) (nscalars E) (GetBaryonMass (eos s))
            (fst (snd (c2p_outcome E ps (pass_policy fl (eos s)) bfc fl c s))) c)"
  using ConsToPrim_at [OF assms, of ps bfc fl s]
  by (cases fl; simp add: same_at_def c2p_body_prim Let_def c2p_fails_def pass_policy_def)

lemma ConsToPrim_cons_at:
  assumes "in_box (nmb_thispack E) il iu jl ju kl ku c"
  shows "cons (ConsToPrim E ps bfc il iu jl ju kl ku fl s) c =
    (let r = c2p_outcome E ps (pass_policy fl (eos s)) bfc fl c s
     in if error (fst r) \<noteq> SUCCESS \<and> fl then cons s c
        else if cons_floor (fst r) \<or> cons_adjusted (fst r)
        then store_cons (cons s) c (nmhd E) (nscalars E) (sqrt (GetDeterminant (metric_at E c)))
               (snd (snd r)) c
        else cons s c)"
  using ConsToPrim_at [OF assms, of ps bfc fl s]
  by (cases fl; simp add: same_at_def c2p_body_cons Let_def pass_policy_def)

lemma ConsToPrim_bcc0_at:
  assumes "in_box (nmb_thispack E) il iu jl ju kl ku c"
  shows "bcc0 (ConsToPrim E ps bfc il iu jl ju kl ku fl s) c = cc_fields bfc fl c (bcc0 s) c"
  using ConsToPrim_at [OF assms, of ps bfc fl s]
  by (simp add: same_at_def c2p_body_bcc0)

lemma ConsToPrim_fofc_at:
  assumes "in_box (nmb_thispack E) il iu jl ju kl ku c"
  shows "fofc (ConsToPrim E ps bfc il iu jl ju kl ku fl s) c =
    (if c2p_fails E ps (pass_policy fl (eos s)) bfc fl s c \<and> fl then True else fofc s c)"
  using ConsToPrim_at [OF assms, of ps bfc fl s]
  by (cases fl; simp add: same_at_def c2p_body_fofc c2p_fails_def pass_policy_def)

text \<open>
  Claim C1. At every cell of the index range whose excision mask is set while the global
  excision flag is on, ConsToPrim stores the configured density \<open>dexcise\<close>, zero velocity
  and the configured pressure \<open>pexcise\<close> into the primitive array, whatever the conserved
  state of the cell is and with or without \<open>floors_only\<close>; the result of the cell is
  \<open>SUCCESS\<close> with \<open>cons_adjusted\<close> set, the cell is not a failure and is not flagged; and
  the root-finder is not used: with any other root-finder \<open>f\<close> in its place the primitive
  and conserved arrays at the cell come out the same. The baryon mass is not zero.
\<close>

theorem excision_override:
  assumes box: "in_box (nmb_thispack E) il iu jl ju kl ku c"
    and ex: "bh_excise E" "excision_floor E c"
    and mb: "GetBaryonMass (eos s) \<noteq> 0"
  shows "prim (ConsToPrim E ps bfc il iu jl ju kl ku floors_only s) c IDN = dexcise E
    \<and> prim (ConsToPrim E ps bfc il iu jl ju kl ku floors_only s) c IVX = 0
    \<and> prim (ConsToPrim E ps bfc il iu jl ju kl ku floors_only s) c IVY = 0
    \<and> prim (ConsToPrim E ps bfc il iu jl ju kl ku floors_only s) c IVZ = 0
    \<and> prim (ConsToPrim E ps bfc il iu jl ju kl ku floors_only s) c IPR = pexcise E
    \<and> fst (c2p_outcome E ps (pass_policy floors_only (eos s)) bfc floors_only c s) =
        \<lparr>error = SUCCESS, iterations = 0, cons_floor = False, prim_floor = False,
         cons_adjusted = True\<rparr>
    \<and> \<not> c2p_fails E ps (pass_policy floors_only (eos s)) bfc floors_only s c
    \<and> fofc (ConsToPrim E ps bfc il iu jl ju kl ku floors_only s) c = fofc s c
    \<and> prim (ConsToPrim E (ps\<lparr>ConToPrim := f\<rparr>) bfc il iu jl ju kl ku floors_only s) c =
        prim (ConsToPrim E ps bfc il iu jl ju kl ku floors_only s) c
    \<and> cons (ConsToPrim E (ps\<lparr>ConToPrim := f\<rparr>) bfc il iu jl ju kl ku floors_only s) c =
        cons (ConsToPrim E ps bfc il iu jl ju kl ku floors_only s) c"
proof -
  let ?e = "pass_policy floors_only (eos s)"
  note o = c2p_outcome_excised [OF ex]
  have res: "fst (c2p_outcome E ps ?e bfc floors_only c s) =
      \<lparr>error = SUCCESS, iterations = 0, cons_floor = False, prim_floor = False,
       cons_adjusted = True\<rparr>"
    by (simp only: o c2p_excised_result)
  then have nf: "\<not> c2p_fails E ps ?e bfc floors_only s c"
    by (simp add: c2p_fails_def)
  have res': "\<not> c2p_fails E (ps\<lparr>ConToPrim := f\<rparr>) ?e bfc floors_only s c"
    by (simp add: c2p_fails_def o c2p_excised_result)
  have same: "c2p_outcome E (ps\<lparr>ConToPrim := f\<rparr>) ?e bfc floors_only c s =
      c2p_outcome E ps ?e bfc floors_only c s"
    by (simp only: o c2p_excised_solver)
  have p: "prim (ConsToPrim E ps bfc il iu jl ju kl ku floors_only s) c =
      copy_prim (prim s) c (nmhd E) (nscalars E) (GetBaryonMass (eos s))
        (fst (snd (c2p_outcome E ps ?e bfc floors_only c s))) c"
    by (simp add: ConsToPrim_prim_at [OF box] nf)
  have p': "prim (ConsToPrim E (ps\<lparr>ConToPrim := f\<rparr>) bfc il iu jl ju kl ku floors_only s) c =
      copy_prim (prim s) c (nmhd E) (nscalars E) (GetBaryonMass (eos s))
        (fst (snd (c2p_outcome E ps ?e bfc floors_only c s))) c"
    by (simp add: ConsToPrim_prim_at [OF box] res' same)
  have c': "cons (ConsToPrim E (ps\<lparr>ConToPrim := f\<rparr>) bfc il iu jl ju kl ku floors_only s) c =
      cons (ConsToPrim E ps bfc il iu jl ju kl ku floors_only s) c"
    by (simp add: ConsToPrim_cons_at [OF box] same)
  have vals: "prim (ConsToPrim E ps bfc il iu jl ju kl ku floors_only s) c IDN = dexcise E"
    "prim (ConsToPrim E ps bfc il iu jl ju kl ku floors_only s) c IVX = 0"
    "prim (ConsToPrim E ps bfc il iu jl ju kl ku floors_only s) c IVY = 0"
    "prim (ConsToPrim E ps bfc il iu jl ju kl ku floors_only s) c IVZ = 0"
    "prim (ConsToPrim E ps bfc il iu jl ju kl ku floors_only s) c IPR = pexcise E"
    using mb
    by (simp_all add: p copy_prim_apply o c2p_excised_prim pass_policy_mb index_defs)
  have f: "fofc (ConsToPrim E ps bfc il iu jl ju kl ku floors_only s) c = fofc s c"
    by (simp add: ConsToPrim_fofc_at [OF box] nf)
  show ?thesis
    using vals res nf f p p' c' by simp
qed

theorem excision_override_witness:
  "prim (ConsToPrim ex_env ex_ps ex_bfc 0 1 0 0 0 0 True (ex_pack (- 1))) (0, 0, 0, 0) IDN = 2
   \<and> prim (ConsToPrim ex_env ex_ps ex_bfc 0 1 0 0 0 0 True (ex_pack (- 1))) (0, 0, 0, 0) IVX = 0
   \<and> prim (ConsToPrim ex_env ex_ps ex_bfc 0 1 0 0 0 0 True (ex_pack (- 1))) (0, 0, 0, 0) IPR = 3
   \<and> fofc (ConsToPrim ex_env ex_ps ex_bfc 0 1 0 0 0 0 True (ex_pack (- 1))) (0, 0, 0, 0) = False"
  using excision_override [OF ex_box(1), where s = "ex_pack (- 1)" and ps = ex_ps
      and bfc = ex_bfc and floors_only = True]
  by (simp add: ex_env_def ex_pack_def)

lemma filter_length_split:
  "distinct xs \<Longrightarrow> x \<in> set xs \<Longrightarrow> P x \<Longrightarrow>
   length (filter P xs) = Suc (length (filter P (removeAll x xs)))"
  by (induction xs) auto

text \<open>
  Claim C2. In a pass with \<open>floors_only\<close>, at every cell of the index range that is not
  excised and whose primitive solve returns an error, the cell is flagged for the
  first-order flux correction, the conserved and primitive arrays at the cell are left as
  they were, and the cell adds exactly one to the failure count: the kernel adds one to the
  running sum, and the counter grows by one more than the failures of the other cells.
\<close>

theorem floors_only_failure:
  assumes box: "in_box (nmb_thispack E) il iu jl ju kl ku c"
    and nex: "\<not> (bh_excise E \<and> excision_floor E c)"
    and err: "c2p_fails E ps (pass_policy True (eos s)) bfc True s c"
  shows "fofc (ConsToPrim E ps bfc il iu jl ju kl ku True s) c
    \<and> cons (ConsToPrim E ps bfc il iu jl ju kl ku True s) c = cons s c
    \<and> prim (ConsToPrim E ps bfc il iu jl ju kl ku True s) c = prim s c
    \<and> nfofc (ConsToPrim E ps bfc il iu jl ju kl ku True s) =
        nfofc s + 1 + int (length (filter (c2p_fails E ps (pass_policy True (eos s)) bfc True s)
          (removeAll c (pass_cells (nmb_thispack E) il iu jl ju kl ku))))
    \<and> snd (c2p_body E ps (pass_policy True (eos s)) bfc True c (s, sumd)) = sumd + 1"
proof -
  have "fofc (ConsToPrim E ps bfc il iu jl ju kl ku True s) c"
    by (simp add: ConsToPrim_fofc_at [OF box] err)
  moreover have "cons (ConsToPrim E ps bfc il iu jl ju kl ku True s) c = cons s c"
    using err by (simp add: ConsToPrim_cons_at [OF box] c2p_fails_def)
  moreover have "prim (ConsToPrim E ps bfc il iu jl ju kl ku True s) c = prim s c"
    by (simp add: ConsToPrim_prim_at [OF box] err)
  moreover have "nfofc (ConsToPrim E ps bfc il iu jl ju kl ku True s) =
        nfofc s + 1 + int (length (filter (c2p_fails E ps (pass_policy True (eos s)) bfc True s)
          (removeAll c (pass_cells (nmb_thispack E) il iu jl ju kl ku))))"
    by (simp add: ConsToPrim_nfofc
        filter_length_split [OF pass_cells_distinct pass_cells_box [OF box],
          where P = "c2p_fails E ps (pass_policy True (eos s)) bfc True s", OF err])
  moreover have "snd (c2p_body E ps (pass_policy True (eos s)) bfc True c (s, sumd)) = sumd + 1"
    using err by (simp add: c2p_body_count c2p_fails_def)
  ultimately show ?thesis by simp
qed

lemma ex_not_excised: "\<not> (bh_excise ex_env \<and> excision_floor ex_env (0, 0, 0, 1))"
  by (simp add: ex_env_def)

lemma ex_fails: "c2p_fails ex_env ex_ps e ex_bfc fl (ex_pack d) (0, 0, 0, 1) \<longleftrightarrow> d < 0"
  by (simp add: c2p_fails_def c2p_outcome_solved [OF ex_not_excised] ex_det)
    (simp add: ex_ps_def ex_pack_def extract_cons_def index_defs)

theorem floors_only_failure_witness:
  "fofc (ConsToPrim ex_env ex_ps ex_bfc 0 1 0 0 0 0 True (ex_pack (- 1))) (0, 0, 0, 1)
   \<and> cons (ConsToPrim ex_env ex_ps ex_bfc 0 1 0 0 0 0 True (ex_pack (- 1))) (0, 0, 0, 1) =
       cons (ex_pack (- 1)) (0, 0, 0, 1)
   \<and> prim (ConsToPrim ex_env ex_ps ex_bfc 0 1 0 0 0 0 True (ex_pack (- 1))) (0, 0, 0, 1) =
       prim (ex_pack (- 1)) (0, 0, 0, 1)"
  using floors_only_failure [OF ex_box(2), where s = "ex_pack (- 1)" and ps = ex_ps
      and bfc = ex_bfc]
  by (simp add: ex_fails) (simp add: ex_env_def)

lemma ConsToPrim_scalars_kept:
  assumes "in_box (nmb_thispack E) il iu jl ju kl ku c" and "IPR < nmhd E"
  shows "prim (ConsToPrim E ps bfc il iu jl ju kl ku fl s) c (nmhd E + n) = prim s c (nmhd E + n)"
  using assms(2) by (simp add: ConsToPrim_prim_at [OF assms(1)] copy_prim_apply index_defs)

text \<open>
  Claim C4 says that after the solve of a cell that is not excised, without
  \<open>floors_only\<close>, the recovered scalar concentrations are copied into the primitive array
  beside density, velocity and pressure. The loop that should do it stores nothing:
  whatever the solve returns, the scalar entries of the primitive array stay as they were.
\<close>

theorem scalars_not_copied_back:
  "prim (ConsToPrim ex_env ex_ps ex_bfc 0 1 0 0 0 0 False (ex_pack 1)) (0, 0, 0, 1)
      (nmhd ex_env + 0) = 1 / 4
   \<and> PYF (fst (snd (c2p_outcome ex_env ex_ps (eos (ex_pack 1)) ex_bfc False (0, 0, 0, 1)
        (ex_pack 1)))) 0 = 1 / 2
   \<and> error (fst (c2p_outcome ex_env ex_ps (eos (ex_pack 1)) ex_bfc False (0, 0, 0, 1)
        (ex_pack 1))) = SUCCESS
   \<and> prim (ConsToPrim ex_env ex_ps ex_bfc 0 1 0 0 0 0 False (ex_pack 1)) (0, 0, 0, 1) IDN = 1
   \<and> prim (ex_pack 1) (0, 0, 0, 1) IDN = 1 / 4"
proof -
  have 1: "prim (ConsToPrim ex_env ex_ps ex_bfc 0 1 0 0 0 0 False (ex_pack 1)) (0, 0, 0, 1)
      (nmhd ex_env + 0) = prim (ex_pack 1) (0, 0, 0, 1) (nmhd ex_env + 0)"
    by (rule ConsToPrim_scalars_kept [OF ex_box(2)]) (simp add: ex_env_def index_defs)
  have o: "c2p_outcome ex_env ex_ps e ex_bfc False (0, 0, 0, 1) (ex_pack 1) =
      ConToPrim ex_ps e (extract_cons ex_env (0, 0, 0, 1) (cons (ex_pack 1)) 1)
        (cc_fields ex_bfc False (0, 0, 0, 1) (bcc0 (ex_pack 1)) (0, 0, 0, 1) IBX,
         cc_fields ex_bfc False (0, 0, 0, 1) (bcc0 (ex_pack 1)) (0, 0, 0, 1) IBY,
         cc_fields ex_bfc False (0, 0, 0, 1) (bcc0 (ex_pack 1)) (0, 0, 0, 1) IBZ)
        (metric_at ex_env (0, 0, 0, 1)) (SpatialInv 1 (metric_at ex_env (0, 0, 0, 1)))" for e
    by (simp add: c2p_outcome_solved [OF ex_not_excised] ex_det)
  have 2: "PYF (fst (snd (c2p_outcome ex_env ex_ps e ex_bfc False (0, 0, 0, 1) (ex_pack 1)))) 0 = 1 / 2"
    "error (fst (c2p_outcome ex_env ex_ps e ex_bfc False (0, 0, 0, 1) (ex_pack 1))) = SUCCESS"
    "PRH (fst (snd (c2p_outcome ex_env ex_ps e ex_bfc False (0, 0, 0, 1) (ex_pack 1)))) = 1" for e
    unfolding o by (simp_all add: ex_ps_def extract_cons_def ex_pack_def index_defs)
  have 3: "prim (ConsToPrim ex_env ex_ps ex_bfc 0 1 0 0 0 0 False (ex_pack 1)) (0, 0, 0, 1) IDN = 1"
    by (simp add: ConsToPrim_prim_at [OF ex_box(2)] copy_prim_apply index_defs 2)
      (simp add: ex_pack_def)
  show ?thesis
    using 1 2 3 by (simp add: ex_pack_def)
qed

lemma c2p_pass_eos: "eos (fst (c2p_pass E ps eosc bfc fl il jl kl ni nji nkji nmkji t)) = eos t"
  by (simp add: c2p_pass_fold fold_body_eos)

text \<open>
  Claim C7. With \<open>floors_only\<close>, the two floor-failure flags of the policy have after
  ConsToPrim the values they had before it. The kernel body and the whole parallel pass
  leave the policy object they are given as it is; the driver sets both flags before the
  pass, on the object the kernel captures, and restores them after it.
\<close>

theorem floor_failure_flags_restored:
  "IsPrimitiveFlooringFailure (eos (ConsToPrim E ps bfc il iu jl ju kl ku True s)) =
     IsPrimitiveFlooringFailure (eos s)
   \<and> IsConservedFlooringFailure (eos (ConsToPrim E ps bfc il iu jl ju kl ku True s)) =
     IsConservedFlooringFailure (eos s)
   \<and> eos (fst (c2p_body E ps eosc bfc True c (t, sumd))) = eos t
   \<and> eos (fst (c2p_pass E ps eosc bfc True il jl kl ni nji nkji nmkji t)) = eos t
   \<and> ConsToPrim E ps bfc il iu jl ju kl ku True s =
      (let e = (eos s)\<lparr>IsPrimitiveFlooringFailure := True, IsConservedFlooringFailure := True\<rparr>;
           p = fold (c2p_body E ps e bfc True) (pass_cells (nmb_thispack E) il iu jl ju kl ku)
                 (s\<lparr>eos := e\<rparr>, 0)
       in (fst p)\<lparr>eos := eos s, nfofc := nfofc (fst p) + snd p\<rparr>)"
  by (simp add: ConsToPrim_eos c2p_body_eos c2p_pass_eos)
    (simp add: ConsToPrim_fold pass_policy_def Let_def)

lemma fold_body_bcc0:
  "bcc0 (fst (fold (c2p_body E ps eosc bfc True) cs P)) = bcc0 (fst P)"
proof (induction cs arbitrary: P)
  case Nil
  then show ?case by simp
next
  case (Cons x xs)
  obtain s n where P: "P = (s, n)" by (cases P)
  have "cc_fields bfc True x b = b" for b by (cases x) (simp add: cc_fields_def)
  then show ?case by (simp add: Cons.IH) (simp add: P c2p_body_bcc0)
qed

lemma ConsToPrim_bcc0_floors_only: "bcc0 (ConsToPrim E ps bfc il iu jl ju kl ku True s) = bcc0 s"
  by (simp add: ConsToPrim_fold Let_def fold_body_bcc0)

text \<open>The arrays at a cell of the index range that is not excised, in terms of what the
  root-finder returns for the cell.\<close>

lemma ConsToPrim_solved_at:
  assumes box: "in_box (nmb_thispack E) il iu jl ju kl ku c"
    and nex: "\<not> (bh_excise E \<and> excision_floor E c)"
    and r: "r = ConToPrim ps (pass_policy fl (eos s))
         (extract_cons E c (cons s) (1 / sqrt (GetDeterminant (metric_at E c))))
         (cc_fields bfc fl c (bcc0 s) c IBX * (1 / sqrt (GetDeterminant (metric_at E c))),
          cc_fields bfc fl c (bcc0 s) c IBY * (1 / sqrt (GetDeterminant (metric_at E c))),
          cc_fields bfc fl c (bcc0 s) c IBZ * (1 / sqrt (GetDeterminant (metric_at E c))))
         (metric_at E c)
         (SpatialInv (1 / GetDeterminant (metric_at E c)) (metric_at E c))"
  shows "prim (ConsToPrim E ps bfc il iu jl ju kl ku fl s) c =
      (if error (fst r) \<noteq> SUCCESS \<and> fl then prim s c
       else copy_prim (prim s) c (nmhd E) (nscalars E) (GetBaryonMass (eos s)) (fst (snd r)) c)"
    and "cons (ConsToPrim E ps bfc il iu jl ju kl ku fl s) c =
      (if error (fst r) \<noteq> SUCCESS \<and> fl then cons s c
       else if cons_floor (fst r) \<or> cons_adjusted (fst r)
       then store_cons (cons s) c (nmhd E) (nscalars E) (sqrt (GetDeterminant (metric_at E c)))
              (snd (snd r)) c
       else cons s c)"
    and "fofc (ConsToPrim E ps bfc il iu jl ju kl ku fl s) c =
      (if error (fst r) \<noteq> SUCCESS \<and> fl then True else fofc s c)"
proof -
  have o: "c2p_outcome E ps (pass_policy fl (eos s)) bfc fl c s = r"
    unfolding r by (rule c2p_outcome_solved [OF nex])
  show "prim (ConsToPrim E ps bfc il iu jl ju kl ku fl s) c =
      (if error (fst r) \<noteq> SUCCESS \<and> fl then prim s c
       else copy_prim (prim s) c (nmhd E) (nscalars E) (GetBaryonMass (eos s)) (fst (snd r)) c)"
    using o by (cases fl; simp add: ConsToPrim_prim_at [OF box] c2p_fails_def)
  show "cons (ConsToPrim E ps bfc il iu jl ju kl ku fl s) c =
      (if error (fst r) \<noteq> SUCCESS \<and> fl then cons s c
       else if cons_floor (fst r) \<or> cons_adjusted (fst r)
       then store_cons (cons s) c (nmhd E) (nscalars E) (sqrt (GetDeterminant (metric_at E c)))
              (snd (snd r)) c
       else cons s c)"
    using o by (cases fl; simp add: ConsToPrim_cons_at [OF box] Let_def)
  show "fofc (ConsToPrim E ps bfc il iu jl ju kl ku fl s) c =
      (if error (fst r) \<noteq> SUCCESS \<and> fl then True else fofc s c)"
    using o by (cases fl; simp add: ConsToPrim_fofc_at [OF box] c2p_fails_def)
qed

lemma cc_fields_means:
  "cc_fields bfc False (m, k, j, i) b (m, k, j, i) IBX =
      0.5 * (x1f bfc (m, k, j, i) + x1f bfc (m, k, j, i + 1))"
  "cc_fields bfc False (m, k, j, i) b (m, k, j, i) IBY =
      0.5 * (x2f bfc (m, k, j, i) + x2f bfc (m, k, j + 1, i))"
  "cc_fields bfc False (m, k, j, i) b (m, k, j, i) IBZ =
      0.5 * (x3f bfc (m, k, j, i) + x3f bfc (m, k + 1, j, i))"
  "cc_fields bfc True c b = b"
  by (simp_all add: cc_fields_def upd_apply index_defs split: prod.splits)

text \<open>
  Claim C10. With \<open>floors_only\<close> ConsToPrim leaves the cell-centred magnetic field array
  unchanged. Without \<open>floors_only\<close>, at every cell of the index range, each component of
  the cell-centred field is overwritten with the mean of the two adjacent face-centred
  values. At a cell that is not excised the primitive solve is handed the field of the
  mode, times \<open>1 / sqrt (det g)\<close>: without \<open>floors_only\<close> the density, velocity and
  pressure that ConsToPrim stores, and the conserved state it stores after a floor or an
  adjustment, are those that the root-finder \<open>ConToPrim\<close> returns for the three means;
  with \<open>floors_only\<close> the flag of the cell and the primitives it stores are those that
  the root-finder returns for the field that the array held before the call.
\<close>

theorem cell_centred_field:
  assumes box: "in_box (nmb_thispack E) il iu jl ju kl ku (m, k, j, i)"
  shows "bcc0 (ConsToPrim E ps bfc il iu jl ju kl ku True s) = bcc0 s
    \<and> bcc0 (ConsToPrim E ps bfc il iu jl ju kl ku False s) (m, k, j, i) IBX =
        0.5 * (x1f bfc (m, k, j, i) + x1f bfc (m, k, j, i + 1))
    \<and> bcc0 (ConsToPrim E ps bfc il iu jl ju kl ku False s) (m, k, j, i) IBY =
        0.5 * (x2f bfc (m, k, j, i) + x2f bfc (m, k, j + 1, i))
    \<and> bcc0 (ConsToPrim E ps bfc il iu jl ju kl ku False s) (m, k, j, i) IBZ =
        0.5 * (x3f bfc (m, k, j, i) + x3f bfc (m, k + 1, j, i))
    \<and> (\<not> (bh_excise E \<and> excision_floor E (m, k, j, i)) \<longrightarrow>
        (let c = (m, k, j, i);
             g = metric_at E c;
             isdetg = 1 / sqrt (GetDeterminant g);
             u = extract_cons E c (cons s) isdetg;
             gu = SpatialInv (1 / GetDeterminant g) g;
             r = ConToPrim ps (eos s) u
                   (0.5 * (x1f bfc (m, k, j, i) + x1f bfc (m, k, j, i + 1)) * isdetg,
                    0.5 * (x2f bfc (m, k, j, i) + x2f bfc (m, k, j + 1, i)) * isdetg,
                    0.5 * (x3f bfc (m, k, j, i) + x3f bfc (m, k + 1, j, i)) * isdetg) g gu;
             r' = ConToPrim ps
                   ((eos s)\<lparr>IsPrimitiveFlooringFailure := True,
                            IsConservedFlooringFailure := True\<rparr>) u
                   (bcc0 s c IBX * isdetg, bcc0 s c IBY * isdetg, bcc0 s c IBZ * isdetg) g gu;
             t = ConsToPrim E ps bfc il iu jl ju kl ku False s;
             t' = ConsToPrim E ps bfc il iu jl ju kl ku True s
         in prim t c IDN = PRH (fst (snd r)) * GetBaryonMass (eos s)
            \<and> prim t c IVX = PVX (fst (snd r))
            \<and> prim t c IVY = PVY (fst (snd r))
            \<and> prim t c IVZ = PVZ (fst (snd r))
            \<and> prim t c IPR = PPR (fst (snd r))
            \<and> cons t c =
                (if cons_floor (fst r) \<or> cons_adjusted (fst r)
                 then store_cons (cons s) c (nmhd E) (nscalars E) (sqrt (GetDeterminant g))
                        (snd (snd r)) c
                 else cons s c)
            \<and> fofc t' c = (error (fst r') \<noteq> SUCCESS \<or> fofc s c)
            \<and> prim t' c =
                (if error (fst r') \<noteq> SUCCESS then prim s c
                 else copy_prim (prim s) c (nmhd E) (nscalars E) (GetBaryonMass (eos s))
                        (fst (snd r')) c)))"
proof -
  let ?c = "(m, k, j, i)"
  have b: "bcc0 (ConsToPrim E ps bfc il iu jl ju kl ku False s) ?c =
      cc_fields bfc False ?c (bcc0 s) ?c"
    by (rule ConsToPrim_bcc0_at [OF box])
  have means: "bcc0 (ConsToPrim E ps bfc il iu jl ju kl ku False s) (m, k, j, i) IBX =
        0.5 * (x1f bfc (m, k, j, i) + x1f bfc (m, k, j, i + 1))"
    "bcc0 (ConsToPrim E ps bfc il iu jl ju kl ku False s) (m, k, j, i) IBY =
        0.5 * (x2f bfc (m, k, j, i) + x2f bfc (m, k, j + 1, i))"
    "bcc0 (ConsToPrim E ps bfc il iu jl ju kl ku False s) (m, k, j, i) IBZ =
        0.5 * (x3f bfc (m, k, j, i) + x3f bfc (m, k + 1, j, i))"
    unfolding b by (rule cc_fields_means)+
  have solve: ?thesis if nex: "\<not> (bh_excise E \<and> excision_floor E ?c)"
  proof -
    let ?isd = "1 / sqrt (GetDeterminant (metric_at E ?c))"
    let ?r = "ConToPrim ps (eos s) (extract_cons E ?c (cons s) ?isd)
        (0.5 * (x1f bfc (m, k, j, i) + x1f bfc (m, k, j, i + 1)) * ?isd,
         0.5 * (x2f bfc (m, k, j, i) + x2f bfc (m, k, j + 1, i)) * ?isd,
         0.5 * (x3f bfc (m, k, j, i) + x3f bfc (m, k + 1, j, i)) * ?isd)
        (metric_at E ?c) (SpatialInv (1 / GetDeterminant (metric_at E ?c)) (metric_at E ?c))"
    let ?r' = "ConToPrim ps
        ((eos s)\<lparr>IsPrimitiveFlooringFailure := True, IsConservedFlooringFailure := True\<rparr>)
        (extract_cons E ?c (cons s) ?isd)
        (bcc0 s ?c IBX * ?isd, bcc0 s ?c IBY * ?isd, bcc0 s ?c IBZ * ?isd)
        (metric_at E ?c) (SpatialInv (1 / GetDeterminant (metric_at E ?c)) (metric_at E ?c))"
    let ?t = "ConsToPrim E ps bfc il iu jl ju kl ku False s"
    let ?t' = "ConsToPrim E ps bfc il iu jl ju kl ku True s"
    have rF: "?r = ConToPrim ps (pass_policy False (eos s)) (extract_cons E ?c (cons s) ?isd)
        (cc_fields bfc False ?c (bcc0 s) ?c IBX * ?isd,
         cc_fields bfc False ?c (bcc0 s) ?c IBY * ?isd,
         cc_fields bfc False ?c (bcc0 s) ?c IBZ * ?isd)
        (metric_at E ?c) (SpatialInv (1 / GetDeterminant (metric_at E ?c)) (metric_at E ?c))"
      by (simp only: cc_fields_means pass_policy_def if_False)
    have rT: "?r' = ConToPrim ps (pass_policy True (eos s)) (extract_cons E ?c (cons s) ?isd)
        (cc_fields bfc True ?c (bcc0 s) ?c IBX * ?isd,
         cc_fields bfc True ?c (bcc0 s) ?c IBY * ?isd,
         cc_fields bfc True ?c (bcc0 s) ?c IBZ * ?isd)
        (metric_at E ?c) (SpatialInv (1 / GetDeterminant (metric_at E ?c)) (metric_at E ?c))"
      by (simp only: cc_fields_means pass_policy_def if_True)
    note F = ConsToPrim_solved_at [OF box nex rF]
    note T = ConsToPrim_solved_at [OF box nex rT]
    have p: "prim ?t ?c =
        copy_prim (prim s) ?c (nmhd E) (nscalars E) (GetBaryonMass (eos s)) (fst (snd ?r)) ?c"
      by (simp only: F(1) simp_thms if_False)
    have 1: "prim ?t ?c IDN = PRH (fst (snd ?r)) * GetBaryonMass (eos s)"
      "prim ?t ?c IVX = PVX (fst (snd ?r))"
      "prim ?t ?c IVY = PVY (fst (snd ?r))"
      "prim ?t ?c IVZ = PVZ (fst (snd ?r))"
      "prim ?t ?c IPR = PPR (fst (snd ?r))"
      unfolding p by (simp_all only: copy_prim_apply) (simp_all add: index_defs)
    have 2: "cons ?t ?c =
        (if cons_floor (fst ?r) \<or> cons_adjusted (fst ?r)
         then store_cons (cons s) ?c (nmhd E) (nscalars E) (sqrt (GetDeterminant (metric_at E ?c)))
                (snd (snd ?r)) ?c
         else cons s ?c)"
      by (simp only: F(2) simp_thms if_False)
    have 3: "fofc ?t' ?c = (error (fst ?r') \<noteq> SUCCESS \<or> fofc s ?c)"
      by (simp only: T(3) simp_thms) simp
    have 4: "prim ?t' ?c =
        (if error (fst ?r') \<noteq> SUCCESS then prim s ?c
         else copy_prim (prim s) ?c (nmhd E) (nscalars E) (GetBaryonMass (eos s))
                (fst (snd ?r')) ?c)"
      by (simp only: T(1) simp_thms)
    show ?thesis
      unfolding Let_def
      by (intro conjI impI ConsToPrim_bcc0_floors_only means 1 2 3 4)
  qed
  show ?thesis
  proof (cases "bh_excise E \<and> excision_floor E ?c")
    case True
    then show ?thesis using means by (simp add: ConsToPrim_bcc0_floors_only)
  next
    case False
    then show ?thesis by (rule solve)
  qed
qed

lemma ex_field_outcome:
  "fst (snd (ConToPrim ex_ps_field e u b g gu)) =
     \<lparr>PRH = CDN u, PVX = fst b, PVY = fst (snd b), PVZ = snd (snd b), PPR = CTA u,
      PTM = CTA u, PYF = (\<lambda>n. 1 / 2)\<rparr>"
  "error (fst (ConToPrim ex_ps_field e u b g gu)) = SUCCESS"
  by (simp_all add: ex_ps_field_def ex_ps_def)

theorem cell_centred_field_witness:
  "prim (ConsToPrim ex_env ex_ps_field ex_bfc 0 1 0 0 0 0 False (ex_pack 1)) (0, 0, 0, 1) IVX = 3 / 2
   \<and> prim (ConsToPrim ex_env ex_ps_field ex_bfc 0 1 0 0 0 0 False (ex_pack 1)) (0, 0, 0, 1) IVY = 1
   \<and> prim (ConsToPrim ex_env ex_ps_field ex_bfc 0 1 0 0 0 0 False (ex_pack 1)) (0, 0, 0, 1) IVZ = 2
   \<and> prim (ConsToPrim ex_env ex_ps_field ex_bfc 0 1 0 0 0 0 True (ex_pack 1)) (0, 0, 0, 1) IVX = 7
   \<and> bcc0 (ConsToPrim ex_env ex_ps_field ex_bfc 0 1 0 0 0 0 False (ex_pack 1)) (0, 0, 0, 1) IBX = 3 / 2
   \<and> bcc0 (ConsToPrim ex_env ex_ps_field ex_bfc 0 1 0 0 0 0 True (ex_pack 1)) (0, 0, 0, 1) IBX = 7"
  using cell_centred_field [OF ex_box(2), where s = "ex_pack 1" and ps = ex_ps_field
      and bfc = ex_bfc]
  by (simp add: ex_not_excised ex_det Let_def ex_field_outcome copy_prim_apply index_defs)
    (simp add: ex_bfc_def ex_pack_def)

section \<open>The scalar fluxes\<close>












section \<open>The sweeps of the second and third direction\<close>

lemma smod2: "(v::int) smod 2 = 0 \<longleftrightarrow> even v"
  by (auto simp add: signed_modulo_int_def sgn_if abs_if zmod_zminus1_eq_if elim: evenE oddE)

lemma wl_parity:
  "wl_of v = wl_next_of (v - 1)" "bl_of v = bl_next_of (v - 1)"
  "wl_of v \<noteq> wl_next_of v" "bl_of v \<noteq> bl_next_of v"
  by (simp_all add: wl_of_def wl_next_of_def bl_of_def bl_next_of_def smod2)

lemma solver_inputs_append:
  "solver_inputs nv il iu (xs @ ys) = solver_inputs nv il iu xs @ solver_inputs nv il iu ys"
  by (induction nv il iu xs rule: solver_inputs.induct) simp_all

lemma recon_calls_append: "recon_calls (xs @ ys) = recon_calls xs @ recon_calls ys"
  by (induction xs rule: recon_calls.induct) simp_all

lemma view_write_range: "view nv il iu (write_range nv il iu q buf) = view nv il iu q"
  by (simp add: view_def write_range_def fun_eq_iff)

text \<open>One iteration: the scratch arrays it leaves for the next one and the calls it makes.\<close>

lemma sweep_step_scr:
  assumes "v = (if d = 2 then j else k)"
  shows "scr (sweep_step ops E M rs w0 b0cc b0 d m k j ts) (wl_next_of v) =
      write_range (nmhd E + nscalars E) (is' M - 1) (ie M + 1)
        (fst (Reconstruct ops (recon_method M) (recon_method M = ppmx) d w0 m k j))
        (scr ts (wl_next_of v))"
    and "scr (sweep_step ops E M rs w0 b0cc b0 d m k j ts) (bl_next_of v) =
      write_range 3 (is' M - 1) (ie M + 1)
        (fst (Reconstruct ops (recon_method M) (recon_method M = ppmx) d b0cc m k j))
        (scr ts (bl_next_of v))"
  by (cases "v smod 2 = 0";
      simp add: sweep_step_def Let_def assms [symmetric] wl_of_def wl_next_of_def bl_of_def
        bl_next_of_def)+

lemma sweep_step_events:
  assumes "v = (if d = 2 then j else k)"
  shows "events (sweep_step ops E M rs w0 b0cc b0 d m k j ts) =
      events ts @ Recon d m k j #
        (if v > (if d = 2 then js M else ks M) - 1
         then [Solve d m k j (scr ts (wl_of v))
                 (write_range (nmhd E + nscalars E) (is' M - 1) (ie M + 1)
                   (snd (Reconstruct ops (recon_method M) (recon_method M = ppmx) d w0 m k j))
                   (scr ts 3))
                 (scr ts (bl_of v))
                 (write_range 3 (is' M - 1) (ie M + 1)
                   (snd (Reconstruct ops (recon_method M) (recon_method M = ppmx) d b0cc m k j))
                   (scr ts 6))]
         else [])"
  by (cases "v smod 2 = 0";
      simp add: sweep_step_def Let_def assms [symmetric] wl_of_def wl_next_of_def bl_of_def
        bl_next_of_def)

lemma sweep_snoc:
  "sweep ops E M rs w0 b0cc b0 d m k j (vs @ [v]) ts =
     sweep_step ops E M rs w0 b0cc b0 d m (if d = 2 then k else v) (if d = 2 then v else j)
       (sweep ops E M rs w0 b0cc b0 d m k j vs ts)"
  by (simp add: sweep_def)

lemma solver_inputs_naive_interface:
  "solver_inputs (nmhd E + nscalars E) (is' M - 1) (ie M + 1)
      (naive_interface ops E M w0 b0cc sc d m k j v) =
    [(d, m, (if d = 2 then k else v), (if d = 2 then v else j),
      view (nmhd E + nscalars E) (is' M - 1) (ie M + 1)
        (fst (Reconstruct ops (recon_method M) (recon_method M = ppmx) d w0 m
               (if d = 2 then k else v - 1) (if d = 2 then v - 1 else j))),
      view (nmhd E + nscalars E) (is' M - 1) (ie M + 1)
        (snd (Reconstruct ops (recon_method M) (recon_method M = ppmx) d w0 m
               (if d = 2 then k else v) (if d = 2 then v else j))),
      view 3 (is' M - 1) (ie M + 1)
        (fst (Reconstruct ops (recon_method M) (recon_method M = ppmx) d b0cc m
               (if d = 2 then k else v - 1) (if d = 2 then v - 1 else j))),
      view 3 (is' M - 1) (ie M + 1)
        (snd (Reconstruct ops (recon_method M) (recon_method M = ppmx) d b0cc m
               (if d = 2 then k else v) (if d = 2 then v else j))))]"
  by (simp add: naive_interface_def Let_def view_write_range)

lemma sweep_invariant:
  assumes d: "d = 2 \<or> d = 3" and lo: "lo = (if d = 2 then js M else ks M)"
    and ev: "events ts0 = []" and b: "lo - 1 \<le> b"
  shows "view (nmhd E + nscalars E) (is' M - 1) (ie M + 1)
        (scr (sweep ops E M rs w0 b0cc b0 d m k j [lo - 1..b] ts0) (wl_next_of b)) =
      view (nmhd E + nscalars E) (is' M - 1) (ie M + 1)
        (fst (Reconstruct ops (recon_method M) (recon_method M = ppmx) d w0 m
               (if d = 2 then k else b) (if d = 2 then b else j)))
    \<and> view 3 (is' M - 1) (ie M + 1)
        (scr (sweep ops E M rs w0 b0cc b0 d m k j [lo - 1..b] ts0) (bl_next_of b)) =
      view 3 (is' M - 1) (ie M + 1)
        (fst (Reconstruct ops (recon_method M) (recon_method M = ppmx) d b0cc m
               (if d = 2 then k else b) (if d = 2 then b else j)))
    \<and> solver_inputs (nmhd E + nscalars E) (is' M - 1) (ie M + 1)
        (events (sweep ops E M rs w0 b0cc b0 d m k j [lo - 1..b] ts0)) =
      solver_inputs (nmhd E + nscalars E) (is' M - 1) (ie M + 1)
        (concat (map (naive_interface ops E M w0 b0cc sc d m k j) [lo..b]))
    \<and> recon_calls (events (sweep ops E M rs w0 b0cc b0 d m k j [lo - 1..b] ts0)) =
      map (\<lambda>v. (d, m, (if d = 2 then k else v), (if d = 2 then v else j))) [lo - 1..b]"
  using b
proof (induction b rule: int_ge_induct)
  case base
  have v: "lo - 1 = (if d = 2 then (if d = 2 then lo - 1 else j) else (if d = 2 then k else lo - 1))"
    using d by auto
  have one: "[lo - 1..lo - 1] = [] @ [lo - 1]" by simp
  have emp: "[lo..lo - 1] = []" by simp
  show ?case
    unfolding one sweep_snoc emp
    by (simp add: sweep_step_scr [OF v] sweep_step_events [OF v] view_write_range ev
        sweep_def lo [symmetric])
next
  case (step b)
  let ?ts = "sweep ops E M rs w0 b0cc b0 d m k j [lo - 1..b] ts0"
  have v: "b + 1 = (if d = 2 then (if d = 2 then b + 1 else j) else (if d = 2 then k else b + 1))"
    using d by auto
  have "[lo - 1..b + 1] = [lo - 1..b + 1 - 1] @ [b + 1]"
    by (rule upto_rec2) (use step.hyps in simp)
  then have snoc: "[lo - 1..b + 1] = [lo - 1..b] @ [b + 1]"
    by (simp only: add_diff_cancel_right')
  have "[lo..b + 1] = [lo..b + 1 - 1] @ [b + 1]"
    by (rule upto_rec2) (use step.hyps in simp)
  then have nsnoc: "[lo..b + 1] = [lo..b] @ [b + 1]"
    by (simp only: add_diff_cancel_right')
  have gt: "b + 1 > lo - 1" using step.hyps by simp
  have par: "wl_of (b + 1) = wl_next_of b" "bl_of (b + 1) = bl_next_of b"
    using wl_parity(1,2) [of "b + 1"] by simp_all
  from step.IH have
    ih1: "view (nmhd E + nscalars E) (is' M - 1) (ie M + 1) (scr ?ts (wl_next_of b)) =
      view (nmhd E + nscalars E) (is' M - 1) (ie M + 1)
        (fst (Reconstruct ops (recon_method M) (recon_method M = ppmx) d w0 m
               (if d = 2 then k else b) (if d = 2 then b else j)))"
    and ih2: "view 3 (is' M - 1) (ie M + 1) (scr ?ts (bl_next_of b)) =
      view 3 (is' M - 1) (ie M + 1)
        (fst (Reconstruct ops (recon_method M) (recon_method M = ppmx) d b0cc m
               (if d = 2 then k else b) (if d = 2 then b else j)))"
    and ih3: "solver_inputs (nmhd E + nscalars E) (is' M - 1) (ie M + 1) (events ?ts) =
      solver_inputs (nmhd E + nscalars E) (is' M - 1) (ie M + 1)
        (concat (map (naive_interface ops E M w0 b0cc sc d m k j) [lo..b]))"
    and ih4: "recon_calls (events ?ts) =
      map (\<lambda>v. (d, m, (if d = 2 then k else v), (if d = 2 then v else j))) [lo - 1..b]"
    by simp_all
  show ?case
    unfolding snoc nsnoc sweep_snoc
    using gt
    by (simp add: sweep_step_scr [OF v] sweep_step_events [OF v] view_write_range
        solver_inputs_append recon_calls_append solver_inputs_naive_interface par
        ih1 ih2 ih3 ih4 lo [symmetric])
qed

lemma sweep_events:
  assumes d: "d = 2 \<or> d = 3" and lo: "lo = (if d = 2 then js M else ks M)"
    and ev: "events ts0 = []"
  shows "solver_inputs (nmhd E + nscalars E) (is' M - 1) (ie M + 1)
        (events (sweep ops E M rs w0 b0cc b0 d m k j [lo - 1..hi] ts0)) =
      solver_inputs (nmhd E + nscalars E) (is' M - 1) (ie M + 1)
        (concat (map (naive_interface ops E M w0 b0cc sc d m k j) [lo..hi]))"
    and "recon_calls (events (sweep ops E M rs w0 b0cc b0 d m k j [lo - 1..hi] ts0)) =
      map (\<lambda>v. (d, m, (if d = 2 then k else v), (if d = 2 then v else j))) [lo - 1..hi]"
proof -
  show "solver_inputs (nmhd E + nscalars E) (is' M - 1) (ie M + 1)
        (events (sweep ops E M rs w0 b0cc b0 d m k j [lo - 1..hi] ts0)) =
      solver_inputs (nmhd E + nscalars E) (is' M - 1) (ie M + 1)
        (concat (map (naive_interface ops E M w0 b0cc sc d m k j) [lo..hi]))"
  proof (cases "lo - 1 \<le> hi")
    case True
    from sweep_invariant [OF d lo ev True] show ?thesis by blast
  next
    case False
    then show ?thesis by (simp add: sweep_def ev)
  qed
  show "recon_calls (events (sweep ops E M rs w0 b0cc b0 d m k j [lo - 1..hi] ts0)) =
      map (\<lambda>v. (d, m, (if d = 2 then k else v), (if d = 2 then v else j))) [lo - 1..hi]"
  proof (cases "lo - 1 \<le> hi")
    case True
    from sweep_invariant [OF d lo ev True] show ?thesis by blast
  next
    case False
    then show ?thesis by (simp add: sweep_def ev)
  qed
qed

lemma x2_team_events:
  "snd (x2_team ops E M rs w0 b0cc b0 scrs0 (m, k) fd) =
     events (sweep ops E M rs w0 b0cc b0 2 m k j [js M - 1..je M + 1]
       \<lparr>scr = scrs0, fluxes = fd, events = []\<rparr>)"
  by (simp add: x2_team_def sweep_def Let_def)

lemma x3_team_events:
  "snd (x3_team ops E M rs w0 b0cc b0 scrs0 (m, j) fd) =
     events (sweep ops E M rs w0 b0cc b0 3 m k j [ks M - 1..ke M + 1]
       \<lparr>scr = scrs0, fluxes = fd, events = []\<rparr>)"
  by (simp add: x3_team_def sweep_def Let_def)

text \<open>
  Claim C9. In the sweeps of the second and third direction the Riemann solver is handed,
  interface by interface, the same left and right states of the primitives and of the
  field as in the naive scheme that reconstructs both sides of every interface: the left
  state of the interface \<open>v\<close> is the one reconstructed in the iteration \<open>v - 1\<close>, kept
  in the scratch array that the iteration \<open>v\<close> takes as its left array. The two arrays
  swap roles with the parity of the sweep index, and every row is reconstructed once in a
  sweep.
\<close>

theorem sweep_reuses_left_state:
  "solver_inputs (nmhd E + nscalars E) (is' M - 1) (ie M + 1)
      (snd (x2_team ops E M rs w0 b0cc b0 scrs0 (m, k) fd)) =
    solver_inputs (nmhd E + nscalars E) (is' M - 1) (ie M + 1)
      (naive_sweep ops E M w0 b0cc sc 2 m k j)
   \<and> recon_calls (snd (x2_team ops E M rs w0 b0cc b0 scrs0 (m, k) fd)) =
       map (\<lambda>v. (2, m, k, v)) [js M - 1..je M + 1]
   \<and> solver_inputs (nmhd E + nscalars E) (is' M - 1) (ie M + 1)
      (snd (x3_team ops E M rs w0 b0cc b0 scrs0 (m, j) fd)) =
    solver_inputs (nmhd E + nscalars E) (is' M - 1) (ie M + 1)
      (naive_sweep ops E M w0 b0cc sc 3 m k j)
   \<and> recon_calls (snd (x3_team ops E M rs w0 b0cc b0 scrs0 (m, j) fd)) =
       map (\<lambda>v. (3, m, v, j)) [ks M - 1..ke M + 1]
   \<and> wl_of v = wl_next_of (v - 1) \<and> bl_of v = bl_next_of (v - 1)
   \<and> wl_of v \<noteq> wl_next_of v \<and> bl_of v \<noteq> bl_next_of v"
proof -
  have e: "events \<lparr>scr = scrs0, fluxes = fd, events = []\<rparr> = []" by simp
  have 2: "(2::nat) = 2 \<or> (2::nat) = 3" and 3: "(3::nat) = 2 \<or> (3::nat) = 3" by simp_all
  have l2: "js M = (if (2::nat) = 2 then js M else ks M)"
    and l3: "ks M = (if (3::nat) = 2 then js M else ks M)" by simp_all
  note a = sweep_events(1) [OF 2 l2 e, where sc = sc] sweep_events(2) [OF 2 l2 e]
  note b = sweep_events(1) [OF 3 l3 e, where sc = sc] sweep_events(2) [OF 3 l3 e]
  show ?thesis
    unfolding x2_team_events [of ops E M rs w0 b0cc b0 scrs0 m k fd j]
      x3_team_events [of ops E M rs w0 b0cc b0 scrs0 m j fd k] naive_sweep_def
    using wl_parity [of v] by (simp add: a b)
qed

section \<open>The call of the flux correction\<close>

lemma fofc_calls_append: "fofc_calls (xs @ ys) = fofc_calls xs @ fofc_calls ys"
  by (induction xs rule: fofc_calls.induct) simp_all

lemma x1_team_no_fofc: "fofc_calls (snd (x1_team ops E M rs w0 b0cc b0 sc t fd)) = []"
  by (cases t) (simp add: x1_team_def Let_def)

lemma sweep_step_no_fofc:
  "fofc_calls (events (sweep_step ops E M rs w0 b0cc b0 d m k j ts)) = fofc_calls (events ts)"
  by (simp add: sweep_step_def Let_def fofc_calls_append)

lemma fold_sweep_step_no_fofc:
  "fofc_calls (events (fold (\<lambda>v. sweep_step ops E M rs w0 b0cc b0 d m (fk v) (fj v)) vs ts)) =
     fofc_calls (events ts)"
  by (induction vs arbitrary: ts) (simp_all add: sweep_step_no_fofc)

lemma x2_team_no_fofc: "fofc_calls (snd (x2_team ops E M rs w0 b0cc b0 scrs t fd)) = []"
  using fold_sweep_step_no_fofc [where fk = "\<lambda>v. snd t" and fj = "\<lambda>v. v" and d = 2]
  by (cases t) (simp add: x2_team_def Let_def)

lemma x3_team_no_fofc: "fofc_calls (snd (x3_team ops E M rs w0 b0cc b0 scrs t fd)) = []"
  using fold_sweep_step_no_fofc [where fk = "\<lambda>v. v" and fj = "\<lambda>v. snd t" and d = 3]
  by (cases t) (simp add: x3_team_def Let_def)

lemma run_teams_no_fofc:
  assumes "\<And>t fd. fofc_calls (snd (team t fd)) = []"
  shows "fofc_calls (snd (run_teams team ts r)) = fofc_calls (snd r)"
proof (induction ts arbitrary: r)
  case Nil
  then show ?case by (simp add: run_teams_def)
next
  case (Cons t ts)
  obtain fd tr where r: "r = (fd, tr)" by (cases r)
  have "run_teams team (t # ts) r = run_teams team ts (fst (team t fd), tr @ snd (team t fd))"
    by (simp add: run_teams_def r Let_def)
  then show ?case by (simp add: Cons.IH fofc_calls_append assms r)
qed

lemma CalcFluxes_fofc_calls:
  "fofc_calls (snd (snd (CalcFluxes ops E M rs b0 sc scrs stage (fd, pk)))) =
     (if use_fofc M \<or> bh_excise E then [stage] else [])"
  by (simp add: CalcFluxes_def Let_def fofc_calls_append
      run_teams_no_fofc [OF x1_team_no_fofc] run_teams_no_fofc [OF x2_team_no_fofc]
      run_teams_no_fofc [OF x3_team_no_fofc])

lemma CalcFluxes_status: "fst (CalcFluxes ops E M rs b0 sc scrs stage (fd, pk)) = complete"
  by (simp add: CalcFluxes_def Let_def)

text \<open>
  Claim C6 says that the first-order flux correction runs exactly when some cell was
  flagged or the global excision flag is on. \<open>CalcFluxes\<close> does not look at the flags
  of the cells: after the sweeps it calls the correction once, for its stage, exactly when
  the flag \<open>use_fofc\<close> of the MHD object or the global excision flag is set, and it
  returns \<open>complete\<close> either way.
\<close>

theorem fofc_by_configuration:
  "fofc_calls (snd (snd (CalcFluxes ops E M rs b0 sc scrs stage (fd, pk)))) =
     (if use_fofc M \<or> bh_excise E then [stage] else [])
   \<and> fst (CalcFluxes ops E M rs b0 sc scrs stage (fd, pk)) = complete"
  by (simp add: CalcFluxes_fofc_calls CalcFluxes_status)

text \<open>
  Against claim C6 as stated: with \<open>use_fofc\<close> set the correction is called although no
  cell is flagged and nothing is excised, and with \<open>use_fofc\<close> clear it is not called
  although every cell is flagged.
\<close>

theorem fofc_not_by_flagged_cells:
  "\<not> flagged (ex_pack 1) \<and> \<not> bh_excise ex_env_plain
   \<and> fofc_calls (snd (snd (CalcFluxes ex_ops ex_env_plain (ex_mesh True)
        llf_dyngr ex_bfc ex_scr ex_scrs 1 (ex_fd, ex_pack 1)))) = [1]
   \<and> flagged ex_pack_flagged
   \<and> fofc_calls (snd (snd (CalcFluxes ex_ops ex_env_plain (ex_mesh False)
        llf_dyngr ex_bfc ex_scr ex_scrs 1 (ex_fd, ex_pack_flagged)))) = []"
  by (simp add: CalcFluxes_fofc_calls flagged_def)
    (simp add: ex_pack_def ex_mesh_def ex_env_plain_def ex_pack_flagged_def)

section \<open>The checks of the characteristic speeds\<close>

lemma GetGRFastMagnetosonicSpeeds_returns:
  "\<not> exits (GetGRFastMagnetosonicSpeeds ps eosc prm bsq g3d gii index)"
  by (simp add: GetGRFastMagnetosonicSpeeds_def Let_def exits_def)

lemma GetGRSoundSpeeds_exits_iff:
  "exits (GetGRSoundSpeeds ps eosc prm g3d gii index) \<longleftrightarrow>
     \<not> isfinite (r_sqrt
       (let uu = (PVX prm, PVY prm, PVZ prm);
            usq = SquareVector ps uu g3d;
            iWsq = r_div 1 (1 + usq);
            csq = GetSoundSpeed ps eosc (PRH prm) (PTM prm) (PYF prm)
                    * GetSoundSpeed ps eosc (PRH prm) (PTM prm) (PYF prm);
            vu = r_mul (fin (vel_component uu index)) (r_sqrt iWsq)
        in r_mul (r_mul (fin csq) iWsq)
             (r_sub (r_mul (fin gii) (r_sub (fin 1) (r_mul (r_mul (fin usq) iWsq) (fin csq))))
                (r_mul (r_mul vu vu) (fin (1 - csq))))))"
  by (simp add: GetGRSoundSpeeds_def Let_def exits_def)

text \<open>
  Claim C5 says that no per-cell condition at run time ends the process. A failed solve in
  \<open>ConsToPrim\<close> is indeed only reported or flagged, and the check of the magnetosonic
  speeds only prints. The check of the sound speeds does not: in flat space, for a fluid
  moving across the direction of the face with four-velocity \<open>(0, 2, 2)\<close> and an
  equation of state that returns the sound speed 2, the discriminant is negative, its
  square root is not finite, and \<open>GetGRSoundSpeeds\<close> ends the process.
\<close>

theorem sound_speed_check_exits:
  "GetGRSoundSpeeds ex_ps (eos (ex_pack 1)) ex_prim ex_flat 1 0 =
     Exits [Printf ''There's a problem with the sound speed!'' [] [] [1, 4, 8, 1, 1]]
   \<and> \<not> exits (GetGRFastMagnetosonicSpeeds ex_ps (eos (ex_pack 1)) ex_prim 0 ex_flat 1 0)"
proof -
  have "SquareVector ex_ps (0, 2, 2) ex_flat = 8"
    by (simp add: ex_ps_def ex_flat_def)
  moreover have "GetSoundSpeed ex_ps e n T Y = 2" for e n T Y
    by (simp add: ex_ps_def)
  ultimately have "GetGRSoundSpeeds ex_ps (eos (ex_pack 1)) ex_prim ex_flat 1 0 =
     Exits [Printf ''There's a problem with the sound speed!'' [] [] [1, 4, 8, 1, 1]]"
    by (simp add: GetGRSoundSpeeds_def Let_def ex_prim_def r_div_def r_sqrt_def r_mul_def
        r_sub_def lift2_def fin_def isfinite_def vel_component_def)
  then show ?thesis by (simp add: GetGRFastMagnetosonicSpeeds_returns)
qed

section \<open>Floating-point values\<close>

lemma fp_mul_NaN [simp]: "fp_mul x NaN = NaN"
  by (cases x) simp_all

lemma fp_div_NaN [simp]: "fp_div x NaN = NaN"
  by (cases x) simp_all

lemma fp_mul_not_finite: "\<not> fp_finite y \<Longrightarrow> \<not> fp_finite (fp_mul x y)"
  by (cases x; cases y) simp_all

lemma fp_sqrt_nonpos:
  "a \<le> 0 \<Longrightarrow> fp_sqrt a = (if a < 0 then NaN else Fin 0)"
  by (simp add: fp_sqrt_def)

lemma isdetg_nonpos:
  "a \<le> 0 \<Longrightarrow> fp_div (Fin 1) (fp_sqrt a) = (if a < 0 then NaN else Infinity)"
  by (simp add: fp_sqrt_def)

lemma isdetg_not_finite: "a \<le> 0 \<Longrightarrow> \<not> fp_finite (fp_div (Fin 1) (fp_sqrt a))"
  by (simp add: isdetg_nonpos)

section \<open>The kernels in floating-point arithmetic, cell by cell\<close>

lemma store_cons_fp_other: "c' \<noteq> c \<Longrightarrow> store_cons_fp a c nhyd nscal sd cp c' = a c'"
  by (simp add: store_cons_fp_def fun_eq_iff store_scalars_apply upd_apply)

lemma store_prim_fp_other: "c' \<noteq> c \<Longrightarrow> store_prim_fp a c nhyd nscal sd cp c' = a c'"
  by (simp add: store_prim_fp_def fun_eq_iff store_scalars_apply upd_apply)

lemma copy_prim_fp_other: "c' \<noteq> c \<Longrightarrow> copy_prim_fp a c nhyd nscal sd cp c' = a c'"
  by (simp add: copy_prim_fp_def fun_eq_iff read_scalars_id upd_apply)

lemma cc_fields_fp_other: "c' \<noteq> c \<Longrightarrow> cc_fields_fp bfc fl c b c' = b c'"
  by (cases c) (simp add: cc_fields_fp_def fun_eq_iff upd_apply)

lemma store_cons_fp_local:
  "a c = a' c \<Longrightarrow> store_cons_fp a c nhyd nscal sd cp c = store_cons_fp a' c nhyd nscal sd cp c"
  by (simp add: store_cons_fp_def fun_eq_iff store_scalars_apply upd_apply)

lemma store_prim_fp_local:
  "a c = a' c \<Longrightarrow> store_prim_fp a c nhyd nscal mb p c = store_prim_fp a' c nhyd nscal mb p c"
  by (simp add: store_prim_fp_def fun_eq_iff store_scalars_apply upd_apply)

lemma copy_prim_fp_local:
  "a c = a' c \<Longrightarrow> copy_prim_fp a c nhyd nscal sd cp c = copy_prim_fp a' c nhyd nscal sd cp c"
  by (simp add: copy_prim_fp_def fun_eq_iff read_scalars_id upd_apply)

lemma cc_fields_fp_local:
  "b c = b' c \<Longrightarrow> cc_fields_fp bfc fl c b c = cc_fields_fp bfc fl c b' c"
  by (cases c) (simp add: cc_fields_fp_def fun_eq_iff upd_apply)

lemma extract_cons_fp_local:
  assumes "u c = u' c"
  shows "extract_cons_fp ps E c u x = extract_cons_fp ps E c u' x"
proof -
  have "u c n = u' c n" for n using assms by simp
  then show ?thesis by (simp add: extract_cons_fp_def cong: if_cong)
qed

lemma extract_prim_local:
  assumes "w c = w' c"
  shows "extract_prim ps E mb c w = extract_prim ps E mb c w'"
proof -
  have "w c n = w' c n" for n using assms by simp
  then show ?thesis by (simp add: extract_prim_def cong: if_cong)
qed

lemma same_at_fp_refl: "same_at_fp c s s"
  by (simp add: same_at_fp_def)

lemma same_at_fp_trans: "same_at_fp c s t \<Longrightarrow> same_at_fp c t u \<Longrightarrow> same_at_fp c s u"
  by (simp add: same_at_fp_def)

text \<open>A pass over distinct cells, each step of which works on its own cell: at a cell of
  the pass the result is that of the step of the cell.\<close>

lemma fold_cells_other:
  assumes other: "\<And>x S. c \<noteq> x \<Longrightarrow> same_at_fp c (pr (f x S)) (pr S)"
  shows "c \<notin> set cs \<Longrightarrow> same_at_fp c (pr (fold f cs S)) (pr S)"
proof (induction cs arbitrary: S)
  case Nil
  then show ?case by (simp add: same_at_fp_refl)
next
  case (Cons x xs)
  then have "c \<noteq> x" "c \<notin> set xs" by auto
  then have "same_at_fp c (pr (fold f xs (f x S))) (pr (f x S))"
    using Cons.IH by blast
  moreover have "same_at_fp c (pr (f x S)) (pr S)"
    using \<open>c \<noteq> x\<close> by (rule other)
  ultimately show ?case by (auto intro: same_at_fp_trans)
qed

lemma fold_cells_at:
  assumes other: "\<And>c x S. c \<noteq> x \<Longrightarrow> same_at_fp c (pr (f x S)) (pr S)"
    and local: "\<And>c S T. same_at_fp c (pr S) (pr T) \<Longrightarrow> same_at_fp c (pr (f c S)) (pr (f c T))"
  shows "distinct cs \<Longrightarrow> c \<in> set cs \<Longrightarrow> same_at_fp c (pr (fold f cs S)) (pr (f c S))"
proof (induction cs arbitrary: S)
  case Nil
  then show ?case by simp
next
  case (Cons x xs)
  show ?case
  proof (cases "x = c")
    case True
    with Cons.prems have "c \<notin> set xs" by simp
    then have "same_at_fp c (pr (fold f xs (f c S))) (pr (f c S))"
      by (intro fold_cells_other other)
    then show ?thesis using True by simp
  next
    case False
    with Cons.prems have "distinct xs" "c \<in> set xs" by auto
    then have "same_at_fp c (pr (fold f xs (f x S))) (pr (f c (f x S)))"
      using Cons.IH by blast
    moreover have "same_at_fp c (pr (f x S)) (pr S)"
      using False by (intro other) simp
    then have "same_at_fp c (pr (f c (f x S))) (pr (f c S))"
      by (rule local)
    ultimately show ?thesis by (auto intro: same_at_fp_trans)
  qed
qed

subsection \<open>PrimToCons\<close>

lemma p2c_body_unfold:
  "p2c_body E ps eosc c s =
    (let r = p2c_outcome E ps eosc c s;
         chk = CheckForConservedNaNs (snd (snd r));
         s0 = s\<lparr>out_fp := out_fp s @ fst chk @
                 (if snd chk
                  then [Printf_fp ''Error occurred in PrimToCons at'' []
                          (case c of (m, k, j, i) \<Rightarrow> [m, k, j, i]) [],
                        DumpPrimitiveVars (fst (snd r))]
                  else [])\<rparr>;
         s1 = s0\<lparr>cons_fp := store_cons_fp (cons_fp s) c (nmhd E) (nscalars E)
                 (fp_sqrt (GetDeterminant (metric_at E c))) (snd (snd r))\<rparr>
     in if fst r
        then s1\<lparr>prim_fp := store_prim_fp (prim_fp s) c (nmhd E) (nscalars E) (GetBaryonMass eosc)
                  (fst (snd r))\<rparr>
        else s1)"
  by (simp add: p2c_body_def p2c_outcome_def Let_def)

lemma p2c_outcome_same:
  assumes "same_at_fp c s t"
  shows "p2c_outcome E ps eosc c s = p2c_outcome E ps eosc c t"
proof -
  have "prim_fp s c = prim_fp t c" "bcc0_fp s c = bcc0_fp t c"
    using assms by (simp_all add: same_at_fp_def)
  then show ?thesis
    using extract_prim_local [of "prim_fp s" c "prim_fp t" ps E "GetBaryonMass eosc"]
    by (simp add: p2c_outcome_def Let_def)
qed

lemma p2c_body_same_other: "c' \<noteq> c \<Longrightarrow> same_at_fp c' (p2c_body E ps eosc c s) s"
  by (simp add: same_at_fp_def p2c_body_unfold Let_def store_cons_fp_other store_prim_fp_other)

lemma p2c_body_local:
  assumes "same_at_fp c s t"
  shows "same_at_fp c (p2c_body E ps eosc c s) (p2c_body E ps eosc c t)"
proof -
  have 1: "cons_fp s c = cons_fp t c" "prim_fp s c = prim_fp t c" "bcc0_fp s c = bcc0_fp t c"
    "fofc_fp s c = fofc_fp t c"
    using assms by (simp_all add: same_at_fp_def)
  note 2 = store_cons_fp_local [of "cons_fp s" c "cons_fp t", OF 1(1)]
    store_prim_fp_local [of "prim_fp s" c "prim_fp t", OF 1(2)]
  show ?thesis
    unfolding p2c_body_unfold p2c_outcome_same [OF assms]
    by (simp add: same_at_fp_def Let_def 1 2)
qed

lemma cells_distinct: "distinct (cells nmb il iu jl ju kl ku)"
  by (simp add: cells_def distinct_product)

lemma cells_box: "c \<in> set (cells nmb il iu jl ju kl ku) \<longleftrightarrow> in_box nmb il iu jl ju kl ku c"
  by (cases c) (auto simp add: cells_def in_box_def)

lemma PrimToCons_at:
  assumes "in_box (nmb_thispack E) il iu jl ju kl ku c"
  shows "same_at_fp c (PrimToCons E ps il iu jl ju kl ku s) (p2c_body E ps (eos_fp s) c s)"
  unfolding PrimToCons_def
  using fold_cells_at [of "\<lambda>s. s" "p2c_body E ps (eos_fp s)", OF p2c_body_same_other p2c_body_local
      cells_distinct]
  by (simp add: cells_box assms)

lemma PrimToCons_cons_at:
  assumes "in_box (nmb_thispack E) il iu jl ju kl ku c"
  shows "cons_fp (PrimToCons E ps il iu jl ju kl ku s) c =
     store_cons_fp (cons_fp s) c (nmhd E) (nscalars E) (fp_sqrt (GetDeterminant (metric_at E c)))
       (snd (snd (p2c_outcome E ps (eos_fp s) c s))) c"
  using PrimToCons_at [OF assms, of ps s]
  by (simp add: same_at_fp_def p2c_body_unfold Let_def)

lemma PrimToCons_prim_at:
  assumes "in_box (nmb_thispack E) il iu jl ju kl ku c"
  shows "prim_fp (PrimToCons E ps il iu jl ju kl ku s) c =
     (if fst (p2c_outcome E ps (eos_fp s) c s)
      then store_prim_fp (prim_fp s) c (nmhd E) (nscalars E) (GetBaryonMass (eos_fp s))
             (fst (snd (p2c_outcome E ps (eos_fp s) c s))) c
      else prim_fp s c)"
  using PrimToCons_at [OF assms, of ps s]
  by (simp add: same_at_fp_def p2c_body_unfold Let_def)

lemma store_cons_fp_apply:
  "store_cons_fp a c nhyd nscal sd u c' n =
    (if c' = c \<and> nhyd \<le> n \<and> n < nhyd + nscal then fp_mul (CYD_fp u (n - nhyd)) sd
     else if c' = c \<and> n = IEN then fp_mul (CTA_fp u) sd
     else if c' = c \<and> n = IM3 then fp_mul (CSZ_fp u) sd
     else if c' = c \<and> n = IM2 then fp_mul (CSY_fp u) sd
     else if c' = c \<and> n = IM1 then fp_mul (CSX_fp u) sd
     else if c' = c \<and> n = IDN then fp_mul (CDN_fp u) sd
     else a c' n)"
  by (simp add: store_cons_fp_def store_scalars_apply upd_apply)

lemma store_cons_fp_NaN:
  assumes "n \<in> {IDN, IM1, IM2, IM3, IEN} \<or> (nhyd \<le> n \<and> n < nhyd + nscal)"
  shows "store_cons_fp a c nhyd nscal NaN u c n = NaN"
  using assms by (auto simp add: store_cons_fp_apply)

subsection \<open>ConsToPrim\<close>

lemma c2p_outcome_fp_local:
  "cons_fp s c = cons_fp t c \<Longrightarrow> bcc0_fp s c = bcc0_fp t c \<Longrightarrow>
   c2p_outcome_fp E ps eosc bfc fl c s = c2p_outcome_fp E ps eosc bfc fl c t"
  using cc_fields_fp_local [of "bcc0_fp s" c "bcc0_fp t" bfc fl]
    extract_cons_fp_local [of "cons_fp s" c "cons_fp t" ps E]
  by (simp add: c2p_outcome_fp_def Let_def)

lemma c2p_body_fp_unfold:
  "c2p_body_fp E ps eosc bfc fl c (s, sumd) =
    (let r = c2p_outcome_fp E ps eosc bfc fl c s;
         g3d = metric_at E c; detg = GetDeterminant g3d;
         s1 = s\<lparr>bcc0_fp := cc_fields_fp bfc fl c (bcc0_fp s)\<rparr>
     in if error (fst r) \<noteq> SUCCESS \<and> fl then (s1\<lparr>fofc_fp := (fofc_fp s)(c := True)\<rparr>, sumd + 1)
        else
          (let s2 = (if error (fst r) \<noteq> SUCCESS
                     then s1\<lparr>out_fp := out_fp s @ [c2p_report_fp E c (error (fst r))
                            (extract_cons_fp ps E c (cons_fp s) (fp_div (Fin 1) (fp_sqrt detg)))
                            detg g3d]\<rparr>
                     else s1);
               s3 = s2\<lparr>prim_fp := copy_prim_fp (prim_fp s) c (nmhd E) (nscalars E)
                        (GetBaryonMass eosc) (fst (snd r))\<rparr>
           in if cons_floor (fst r) \<or> cons_adjusted (fst r)
              then (s3\<lparr>cons_fp := store_cons_fp (cons_fp s) c (nmhd E) (nscalars E)
                      (fp_sqrt detg) (snd (snd r))\<rparr>, sumd)
              else (s3, sumd)))"
  by (cases fl; simp add: c2p_body_fp_def c2p_outcome_fp_def Let_def)

lemma c2p_body_fp_cons:
  "cons_fp (fst (c2p_body_fp E ps eosc bfc fl c (s, n))) =
    (let r = c2p_outcome_fp E ps eosc bfc fl c s
     in if error (fst r) \<noteq> SUCCESS \<and> fl then cons_fp s
        else if cons_floor (fst r) \<or> cons_adjusted (fst r)
        then store_cons_fp (cons_fp s) c (nmhd E) (nscalars E)
               (fp_sqrt (GetDeterminant (metric_at E c))) (snd (snd r))
        else cons_fp s)"
  by (cases fl; simp add: c2p_body_fp_unfold Let_def)

lemma c2p_body_fp_prim:
  "prim_fp (fst (c2p_body_fp E ps eosc bfc fl c (s, n))) =
    (let r = c2p_outcome_fp E ps eosc bfc fl c s
     in if error (fst r) \<noteq> SUCCESS \<and> fl then prim_fp s
        else copy_prim_fp (prim_fp s) c (nmhd E) (nscalars E) (GetBaryonMass eosc) (fst (snd r)))"
  by (cases fl; simp add: c2p_body_fp_unfold Let_def)

lemma c2p_body_fp_bcc0:
  "bcc0_fp (fst (c2p_body_fp E ps eosc bfc fl c (s, n))) = cc_fields_fp bfc fl c (bcc0_fp s)"
  by (cases fl; simp add: c2p_body_fp_unfold Let_def)

lemma c2p_body_fp_fofc:
  "fofc_fp (fst (c2p_body_fp E ps eosc bfc fl c (s, n))) =
    (if error (fst (c2p_outcome_fp E ps eosc bfc fl c s)) \<noteq> SUCCESS \<and> fl
     then (fofc_fp s)(c := True) else fofc_fp s)"
  by (cases fl; simp add: c2p_body_fp_unfold Let_def)

lemma c2p_body_fp_eos: "eos_fp (fst (c2p_body_fp E ps eosc bfc fl c (s, n))) = eos_fp s"
  by (simp add: c2p_body_fp_def Let_def)

lemma c2p_body_fp_same_other:
  "c' \<noteq> c \<Longrightarrow> same_at_fp c' (fst (c2p_body_fp E ps eosc bfc fl c P)) (fst P)"
  by (cases P)
    (simp add: same_at_fp_def c2p_body_fp_cons c2p_body_fp_prim c2p_body_fp_bcc0
      c2p_body_fp_fofc Let_def store_cons_fp_other copy_prim_fp_other cc_fields_fp_other)

lemma c2p_body_fp_local:
  assumes "same_at_fp c (fst P) (fst Q)"
  shows "same_at_fp c (fst (c2p_body_fp E ps eosc bfc fl c P)) (fst (c2p_body_fp E ps eosc bfc fl c Q))"
proof -
  obtain s n where P: "P = (s, n)" by (cases P)
  obtain t n' where Q: "Q = (t, n')" by (cases Q)
  let ?r = "c2p_outcome_fp E ps eosc bfc fl c t"
  have 1: "cons_fp s c = cons_fp t c" "prim_fp s c = prim_fp t c" "bcc0_fp s c = bcc0_fp t c"
    "fofc_fp s c = fofc_fp t c"
    using assms by (simp_all add: same_at_fp_def P Q)
  have o: "c2p_outcome_fp E ps eosc bfc fl c s = ?r"
    by (rule c2p_outcome_fp_local) (fact 1)+
  note 2 = store_cons_fp_local [of "cons_fp s" c "cons_fp t", OF 1(1)]
    copy_prim_fp_local [of "prim_fp s" c "prim_fp t", OF 1(2)]
    cc_fields_fp_local [of "bcc0_fp s" c "bcc0_fp t", OF 1(3)]
  consider (a) "error (fst ?r) \<noteq> SUCCESS \<and> fl"
    | (b) "\<not> (error (fst ?r) \<noteq> SUCCESS \<and> fl)" "cons_floor (fst ?r) \<or> cons_adjusted (fst ?r)"
    | (c) "\<not> (error (fst ?r) \<noteq> SUCCESS \<and> fl)" "\<not> (cons_floor (fst ?r) \<or> cons_adjusted (fst ?r))"
    by blast
  then show ?thesis
  proof cases
    case a
    with o show ?thesis
      unfolding P Q
      by (cases fl; simp add: same_at_fp_def c2p_body_fp_cons c2p_body_fp_prim c2p_body_fp_bcc0
          c2p_body_fp_fofc Let_def 1 2)
  next
    case b
    with o show ?thesis
      unfolding P Q
      by (cases fl; simp add: same_at_fp_def c2p_body_fp_cons c2p_body_fp_prim c2p_body_fp_bcc0
          c2p_body_fp_fofc Let_def 1 2)
  next
    case c
    with o show ?thesis
      unfolding P Q
      by (cases fl; simp add: same_at_fp_def c2p_body_fp_cons c2p_body_fp_prim c2p_body_fp_bcc0
          c2p_body_fp_fofc Let_def 1 2)
  qed
qed

lemma fold_body_fp_eos:
  "eos_fp (fst (fold (c2p_body_fp E ps eosc bfc fl) cs P)) = eos_fp (fst P)"
proof (induction cs arbitrary: P)
  case Nil
  then show ?case by simp
next
  case (Cons x xs)
  obtain s n where P: "P = (s, n)" by (cases P)
  show ?case by (simp add: Cons.IH) (simp add: P c2p_body_fp_eos)
qed

lemma c2p_pass_fp_cells:
  "c2p_pass_fp E ps eosc bfc fl il jl kl (iu - il + 1) ((ju - jl + 1) * (iu - il + 1))
      ((ku - kl + 1) * ((ju - jl + 1) * (iu - il + 1)))
      (nmb * ((ku - kl + 1) * ((ju - jl + 1) * (iu - il + 1)))) s =
     fold (c2p_body_fp E ps eosc bfc fl) (pass_cells nmb il iu jl ju kl ku) (s, 0)"
  by (simp add: c2p_pass_fp_def pass_cells_def Let_def fold_map comp_def)

lemma ConsToPrim_fp_fold:
  "ConsToPrim_fp E ps bfc il iu jl ju kl ku fl s =
    (let p = fold (c2p_body_fp E ps (pass_policy fl (eos_fp s)) bfc fl)
               (pass_cells (nmb_thispack E) il iu jl ju kl ku)
               (s\<lparr>eos_fp := pass_policy fl (eos_fp s)\<rparr>, 0)
     in if fl then (fst p)\<lparr>eos_fp := eos_fp s, nfofc_fp := nfofc_fp (fst p) + snd p\<rparr> else fst p)"
proof (cases fl)
  case True
  have e: "eos_fp (fst (fold (c2p_body_fp E ps eosc bfc True) cs (s\<lparr>eos_fp := e1\<rparr>, 0)))
      \<lparr>IsPrimitiveFlooringFailure := IsPrimitiveFlooringFailure (eos_fp s),
        IsConservedFlooringFailure := IsConservedFlooringFailure (eos_fp s)\<rparr> = eos_fp s"
    if "e1 = (eos_fp s)\<lparr>IsPrimitiveFlooringFailure := True, IsConservedFlooringFailure := True\<rparr>"
    for eosc cs e1
    by (simp add: fold_body_fp_eos that)
  show ?thesis
    unfolding ConsToPrim_fp_def Let_def c2p_pass_fp_cells
    by (simp add: True pass_policy_def e)
next
  case False
  show ?thesis
    unfolding ConsToPrim_fp_def Let_def c2p_pass_fp_cells
    by (simp add: False pass_policy_def)
qed

lemma same_at_fp_eos: "same_at_fp c (s\<lparr>eos_fp := e\<rparr>) s"
  by (simp add: same_at_fp_def)

lemma same_at_fp_restore: "same_at_fp c (s\<lparr>eos_fp := e, nfofc_fp := n\<rparr>) s"
  by (simp add: same_at_fp_def)

lemma ConsToPrim_fp_at:
  assumes "in_box (nmb_thispack E) il iu jl ju kl ku c"
  shows "same_at_fp c (ConsToPrim_fp E ps bfc il iu jl ju kl ku fl s)
           (fst (c2p_body_fp E ps (pass_policy fl (eos_fp s)) bfc fl c (s, 0)))"
proof -
  let ?e = "pass_policy fl (eos_fp s)"
  let ?cs = "pass_cells (nmb_thispack E) il iu jl ju kl ku"
  let ?p = "fold (c2p_body_fp E ps ?e bfc fl) ?cs (s\<lparr>eos_fp := ?e\<rparr>, 0)"
  have "same_at_fp c (fst ?p) (fst (c2p_body_fp E ps ?e bfc fl c (s\<lparr>eos_fp := ?e\<rparr>, 0)))"
    using fold_cells_at [of fst "c2p_body_fp E ps ?e bfc fl", OF c2p_body_fp_same_other
        c2p_body_fp_local pass_cells_distinct pass_cells_box [OF assms]]
    by simp
  moreover have "same_at_fp c (fst (c2p_body_fp E ps ?e bfc fl c (s\<lparr>eos_fp := ?e\<rparr>, 0)))
      (fst (c2p_body_fp E ps ?e bfc fl c (s, 0)))"
    by (rule c2p_body_fp_local) (simp add: same_at_fp_eos)
  moreover have "same_at_fp c (ConsToPrim_fp E ps bfc il iu jl ju kl ku fl s) (fst ?p)"
    unfolding ConsToPrim_fp_fold Let_def
    by (cases fl) (simp_all add: same_at_fp_restore same_at_fp_refl)
  ultimately show ?thesis by (blast intro: same_at_fp_trans)
qed

section \<open>The conversions at a cell of their index range\<close>

lemma copy_prim_fp_apply:
  "copy_prim_fp a c nhyd nscal mb p c' n =
    (if c' = c \<and> n = IPR then PPR_fp p
     else if c' = c \<and> n = IVZ then PVZ_fp p
     else if c' = c \<and> n = IVY then PVY_fp p
     else if c' = c \<and> n = IVX then PVX_fp p
     else if c' = c \<and> n = IDN then fp_mul (PRH_fp p) (Fin mb)
     else a c' n)"
  by (simp add: copy_prim_fp_def read_scalars_id upd_apply)

lemma cc_fields_fp_means:
  "cc_fields_fp bfc False (m, k, j, i) b (m, k, j, i) IBX =
      Fin (0.5 * (x1f bfc (m, k, j, i) + x1f bfc (m, k, j, i + 1)))"
  "cc_fields_fp bfc False (m, k, j, i) b (m, k, j, i) IBY =
      Fin (0.5 * (x2f bfc (m, k, j, i) + x2f bfc (m, k, j + 1, i)))"
  "cc_fields_fp bfc False (m, k, j, i) b (m, k, j, i) IBZ =
      Fin (0.5 * (x3f bfc (m, k, j, i) + x3f bfc (m, k + 1, j, i)))"
  "cc_fields_fp bfc True c b = b"
  by (simp_all add: cc_fields_fp_def upd_apply index_defs split: prod.splits)

text \<open>PrimToCons at a cell of its index range: what it hands to \<open>PrimToCon\<close> and what it
  stores.\<close>

lemma PrimToCons_converted_at:
  assumes box: "in_box (nmb_thispack E) il iu jl ju kl ku c"
    and u: "u = PrimToCon_fp ps (eos_fp s)
        (snd (ApplyPrimitiveFloor_fp ps (eos_fp s)
           ((extract_prim ps E (GetBaryonMass (eos_fp s)) c (prim_fp s))
              \<lparr>PTM_fp := GetTemperatureFromP_fp ps (eos_fp s)
                 (PRH_fp (extract_prim ps E (GetBaryonMass (eos_fp s)) c (prim_fp s)))
                 (PPR_fp (extract_prim ps E (GetBaryonMass (eos_fp s)) c (prim_fp s)))
                 (PYF_fp (extract_prim ps E (GetBaryonMass (eos_fp s)) c (prim_fp s)))\<rparr>)))
        (fp_div (bcc0_fp s c IBX) (fp_sqrt (GetDeterminant (metric_at E c))),
         fp_div (bcc0_fp s c IBY) (fp_sqrt (GetDeterminant (metric_at E c))),
         fp_div (bcc0_fp s c IBZ) (fp_sqrt (GetDeterminant (metric_at E c))))
        (metric_at E c)"
  shows "cons_fp (PrimToCons E ps il iu jl ju kl ku s) c =
      store_cons_fp (cons_fp s) c (nmhd E) (nscalars E)
        (fp_sqrt (GetDeterminant (metric_at E c))) u c"
proof -
  have "snd (snd (p2c_outcome E ps (eos_fp s) c s)) = u"
    unfolding u by (simp add: p2c_outcome_def Let_def)
  then show ?thesis by (simp add: PrimToCons_cons_at [OF box])
qed

text \<open>ConsToPrim at a cell of its index range that is not excised, in terms of what the
  root-finder returns for the cell.\<close>

lemma ConsToPrim_fp_solved_at:
  assumes box: "in_box (nmb_thispack E) il iu jl ju kl ku c"
    and nex: "\<not> (bh_excise E \<and> excision_floor E c)"
    and r: "r = ConToPrim_fp ps (pass_policy fl (eos_fp s))
         (extract_cons_fp ps E c (cons_fp s)
            (fp_div (Fin 1) (fp_sqrt (GetDeterminant (metric_at E c)))))
         (fp_mul (cc_fields_fp bfc fl c (bcc0_fp s) c IBX)
            (fp_div (Fin 1) (fp_sqrt (GetDeterminant (metric_at E c)))),
          fp_mul (cc_fields_fp bfc fl c (bcc0_fp s) c IBY)
            (fp_div (Fin 1) (fp_sqrt (GetDeterminant (metric_at E c)))),
          fp_mul (cc_fields_fp bfc fl c (bcc0_fp s) c IBZ)
            (fp_div (Fin 1) (fp_sqrt (GetDeterminant (metric_at E c)))))
         (metric_at E c)
         (SpatialInv_fp (fp_div (Fin 1) (Fin (GetDeterminant (metric_at E c)))) (metric_at E c))"
  shows "prim_fp (ConsToPrim_fp E ps bfc il iu jl ju kl ku fl s) c =
      (if error (fst r) \<noteq> SUCCESS \<and> fl then prim_fp s c
       else copy_prim_fp (prim_fp s) c (nmhd E) (nscalars E) (GetBaryonMass (eos_fp s))
              (fst (snd r)) c)"
    and "cons_fp (ConsToPrim_fp E ps bfc il iu jl ju kl ku fl s) c =
      (if error (fst r) \<noteq> SUCCESS \<and> fl then cons_fp s c
       else if cons_floor (fst r) \<or> cons_adjusted (fst r)
       then store_cons_fp (cons_fp s) c (nmhd E) (nscalars E)
              (fp_sqrt (GetDeterminant (metric_at E c))) (snd (snd r)) c
       else cons_fp s c)"
    and "fofc_fp (ConsToPrim_fp E ps bfc il iu jl ju kl ku fl s) c =
      (if error (fst r) \<noteq> SUCCESS \<and> fl then True else fofc_fp s c)"
proof -
  have o: "c2p_outcome_fp E ps (pass_policy fl (eos_fp s)) bfc fl c s = r"
    unfolding r using nex by (auto simp add: c2p_outcome_fp_def c2p_solve_fp_def Let_def)
  note at = ConsToPrim_fp_at [OF box, of ps bfc fl s]
  show "prim_fp (ConsToPrim_fp E ps bfc il iu jl ju kl ku fl s) c =
      (if error (fst r) \<noteq> SUCCESS \<and> fl then prim_fp s c
       else copy_prim_fp (prim_fp s) c (nmhd E) (nscalars E) (GetBaryonMass (eos_fp s))
              (fst (snd r)) c)"
    using o at
    by (cases fl; simp add: same_at_fp_def c2p_body_fp_prim Let_def pass_policy_def)
  show "cons_fp (ConsToPrim_fp E ps bfc il iu jl ju kl ku fl s) c =
      (if error (fst r) \<noteq> SUCCESS \<and> fl then cons_fp s c
       else if cons_floor (fst r) \<or> cons_adjusted (fst r)
       then store_cons_fp (cons_fp s) c (nmhd E) (nscalars E)
              (fp_sqrt (GetDeterminant (metric_at E c))) (snd (snd r)) c
       else cons_fp s c)"
    using o at
    by (cases fl; simp add: same_at_fp_def c2p_body_fp_cons Let_def pass_policy_def)
  show "fofc_fp (ConsToPrim_fp E ps bfc il iu jl ju kl ku fl s) c =
      (if error (fst r) \<noteq> SUCCESS \<and> fl then True else fofc_fp s c)"
    using o at
    by (cases fl; simp add: same_at_fp_def c2p_body_fp_fofc Let_def pass_policy_def)
qed

lemma fp_div_zero_not_finite: "\<not> fp_finite (fp_div x (Fin 0))"
  by (cases x) simp_all

lemma extract_cons_fp_not_finite:
  assumes "\<not> fp_finite x"
  shows "\<not> fp_finite (CDN_fp (extract_cons_fp ps E c u x))"
    "\<not> fp_finite (CSX_fp (extract_cons_fp ps E c u x))"
    "\<not> fp_finite (CSY_fp (extract_cons_fp ps E c u x))"
    "\<not> fp_finite (CSZ_fp (extract_cons_fp ps E c u x))"
    "\<not> fp_finite (CTA_fp (extract_cons_fp ps E c u x))"
    "n < nscalars E \<Longrightarrow> \<not> fp_finite (CYD_fp (extract_cons_fp ps E c u x) n)"
  using assms by (simp_all add: extract_cons_fp_def fp_mul_not_finite)

lemma p2c_body_out:
  assumes "p = extract_prim ps E (GetBaryonMass eosc) (m, k, j, i) (prim_fp s)"
    and "fl = ApplyPrimitiveFloor_fp ps eosc
          (p\<lparr>PTM_fp := GetTemperatureFromP_fp ps eosc (PRH_fp p) (PPR_fp p) (PYF_fp p)\<rparr>)"
    and "u = PrimToCon_fp ps eosc (snd fl)
          (fp_div (bcc0_fp s (m, k, j, i) IBX) (fp_sqrt (GetDeterminant (metric_at E (m, k, j, i)))),
           fp_div (bcc0_fp s (m, k, j, i) IBY) (fp_sqrt (GetDeterminant (metric_at E (m, k, j, i)))),
           fp_div (bcc0_fp s (m, k, j, i) IBZ) (fp_sqrt (GetDeterminant (metric_at E (m, k, j, i)))))
          (metric_at E (m, k, j, i))"
  shows "out_fp (p2c_body E ps eosc (m, k, j, i) s) =
    out_fp s @ fst (CheckForConservedNaNs u) @
      (if snd (CheckForConservedNaNs u)
       then [Printf_fp ''Error occurred in PrimToCons at'' [] [m, k, j, i] [],
             DumpPrimitiveVars (snd fl)]
       else [])"
  unfolding assms by (simp add: p2c_body_unfold p2c_outcome_def Let_def)

lemma c2p_body_fp_out:
  assumes "\<not> (bh_excise E \<and> excision_floor E c)"
    and "u = extract_cons_fp ps E c (cons_fp s)
          (fp_div (Fin 1) (fp_sqrt (GetDeterminant (metric_at E c))))"
    and "r = ConToPrim_fp ps eosc u
          (fp_mul (cc_fields_fp bfc False c (bcc0_fp s) c IBX)
             (fp_div (Fin 1) (fp_sqrt (GetDeterminant (metric_at E c)))),
           fp_mul (cc_fields_fp bfc False c (bcc0_fp s) c IBY)
             (fp_div (Fin 1) (fp_sqrt (GetDeterminant (metric_at E c)))),
           fp_mul (cc_fields_fp bfc False c (bcc0_fp s) c IBZ)
             (fp_div (Fin 1) (fp_sqrt (GetDeterminant (metric_at E c)))))
          (metric_at E c)
          (SpatialInv_fp (fp_div (Fin 1) (Fin (GetDeterminant (metric_at E c)))) (metric_at E c))"
  shows "out_fp (fst (c2p_body_fp E ps eosc bfc False c (s, n))) =
    out_fp s @
      (if error (fst r) \<noteq> SUCCESS
       then [c2p_report_fp E c (error (fst r)) u (GetDeterminant (metric_at E c)) (metric_at E c)]
       else [])"
  unfolding assms(2,3) using assms(1)
  by (auto simp add: c2p_body_fp_unfold c2p_outcome_fp_def c2p_solve_fp_def Let_def)

lemma ex_zero_box: "in_box (nmb_thispack ex_env_zero) 0 1 0 0 0 0 (0, 0, 0, 1)"
  by (simp add: in_box_def ex_env_zero_def ex_env_def)

lemma ex_zero_not_excised: "\<not> (bh_excise ex_env_zero \<and> excision_floor ex_env_zero (0, 0, 0, 1))"
  by (simp add: ex_env_zero_def ex_env_def)

lemma ex_zero_det: "GetDeterminant (metric_at ex_env_zero c) = 0"
  by (simp add: GetDeterminant_def metric_at_def ex_env_zero_def ex_env_def)

text \<open>
  Claim C8 says that the conversions reject a spatial metric whose determinant is not
  strictly positive. Neither conversion tests the determinant, and neither has a way to
  reject a cell. At every cell \<open>c = (m, k, j, i)\<close> of the index range and for every metric:

  \<^item> \<open>PrimToCons\<close> hands \<open>PrimToCon\<close> the cell-centred field divided by the square root
    of the determinant and stores what \<open>PrimToCon\<close> returns, every conserved slot times
    that square root. Where the determinant is negative the square root is NaN, the field
    handed over is NaN, and the five hydrodynamic slots and every scalar slot of the
    conserved array become NaN. Where it is zero the square root is zero and the field
    handed over is not finite. All the kernel does about a conserved state that is not
    finite is to print the messages of \<open>CheckForConservedNaNs\<close>.

  \<^item> \<open>ConsToPrim\<close>, where the cell is not excised, hands the root-finder the conserved
    state and the field times the inverse of that square root, and stores the density,
    velocity and pressure that the root-finder returns, and after a floor or an adjustment
    the conserved state it returns; with \<open>floors_only\<close> it flags the cell if the
    root-finder reports an error, and without it prints the report of the error. Where the
    determinant is not positive the inverse is NaN or an infinity and no conserved value
    handed to the root-finder is finite.
\<close>

theorem determinant_not_checked:
  assumes box: "in_box (nmb_thispack E) il iu jl ju kl ku (m, k, j, i)"
  shows "(let c = (m, k, j, i);
             g = metric_at E c;
             sdetg = fp_sqrt (GetDeterminant g);
             b = (fp_div (bcc0_fp s c IBX) sdetg, fp_div (bcc0_fp s c IBY) sdetg,
                  fp_div (bcc0_fp s c IBZ) sdetg);
             p = extract_prim ps E (GetBaryonMass (eos_fp s)) c (prim_fp s);
             fl = ApplyPrimitiveFloor_fp ps (eos_fp s)
                    (p\<lparr>PTM_fp := GetTemperatureFromP_fp ps (eos_fp s) (PRH_fp p) (PPR_fp p)
                                    (PYF_fp p)\<rparr>);
             u = PrimToCon_fp ps (eos_fp s) (snd fl) b g;
             t = PrimToCons E ps il iu jl ju kl ku s
         in cons_fp t c = store_cons_fp (cons_fp s) c (nmhd E) (nscalars E) sdetg u c
            \<and> (GetDeterminant g < 0 \<longrightarrow>
                 sdetg = NaN \<and> b = (NaN, NaN, NaN)
                 \<and> cons_fp t c IDN = NaN \<and> cons_fp t c IM1 = NaN \<and> cons_fp t c IM2 = NaN
                 \<and> cons_fp t c IM3 = NaN \<and> cons_fp t c IEN = NaN
                 \<and> (nmhd E \<le> n \<and> n < nmhd E + nscalars E \<longrightarrow> cons_fp t c n = NaN))
            \<and> (GetDeterminant g = 0 \<longrightarrow>
                 sdetg = Fin 0 \<and> \<not> fp_finite (fst b) \<and> \<not> fp_finite (fst (snd b))
                 \<and> \<not> fp_finite (snd (snd b)))
            \<and> out_fp (p2c_body E ps (eos_fp s) c s) =
                out_fp s @ fst (CheckForConservedNaNs u) @
                  (if snd (CheckForConservedNaNs u)
                   then [Printf_fp ''Error occurred in PrimToCons at'' [] [m, k, j, i] [],
                         DumpPrimitiveVars (snd fl)]
                   else []))
    \<and> (\<not> (bh_excise E \<and> excision_floor E (m, k, j, i)) \<longrightarrow>
        (let c = (m, k, j, i);
             g = metric_at E c;
             sdetg = fp_sqrt (GetDeterminant g);
             isdetg = fp_div (Fin 1) sdetg;
             u = extract_cons_fp ps E c (cons_fp s) isdetg;
             gu = SpatialInv_fp (fp_div (Fin 1) (Fin (GetDeterminant g))) g;
             r = ConToPrim_fp ps (eos_fp s) u
                   (fp_mul (Fin (0.5 * (x1f bfc (m, k, j, i) + x1f bfc (m, k, j, i + 1)))) isdetg,
                    fp_mul (Fin (0.5 * (x2f bfc (m, k, j, i) + x2f bfc (m, k, j + 1, i)))) isdetg,
                    fp_mul (Fin (0.5 * (x3f bfc (m, k, j, i) + x3f bfc (m, k + 1, j, i)))) isdetg)
                   g gu;
             r' = ConToPrim_fp ps
                   ((eos_fp s)\<lparr>IsPrimitiveFlooringFailure := True,
                               IsConservedFlooringFailure := True\<rparr>) u
                   (fp_mul (bcc0_fp s c IBX) isdetg, fp_mul (bcc0_fp s c IBY) isdetg,
                    fp_mul (bcc0_fp s c IBZ) isdetg) g gu;
             t = ConsToPrim_fp E ps bfc il iu jl ju kl ku False s;
             t' = ConsToPrim_fp E ps bfc il iu jl ju kl ku True s
         in prim_fp t c IDN = fp_mul (PRH_fp (fst (snd r))) (Fin (GetBaryonMass (eos_fp s)))
            \<and> prim_fp t c IVX = PVX_fp (fst (snd r))
            \<and> prim_fp t c IVY = PVY_fp (fst (snd r))
            \<and> prim_fp t c IVZ = PVZ_fp (fst (snd r))
            \<and> prim_fp t c IPR = PPR_fp (fst (snd r))
            \<and> cons_fp t c =
                (if cons_floor (fst r) \<or> cons_adjusted (fst r)
                 then store_cons_fp (cons_fp s) c (nmhd E) (nscalars E) sdetg (snd (snd r)) c
                 else cons_fp s c)
            \<and> fofc_fp t' c = (error (fst r') \<noteq> SUCCESS \<or> fofc_fp s c)
            \<and> out_fp (fst (c2p_body_fp E ps (eos_fp s) bfc False c (s, 0))) =
                out_fp s @
                  (if error (fst r) \<noteq> SUCCESS
                   then [c2p_report_fp E c (error (fst r)) u (GetDeterminant g) g]
                   else [])
            \<and> (GetDeterminant g \<le> 0 \<longrightarrow>
                 isdetg = (if GetDeterminant g < 0 then NaN else Infinity)
                 \<and> \<not> fp_finite (CDN_fp u) \<and> \<not> fp_finite (CSX_fp u) \<and> \<not> fp_finite (CSY_fp u)
                 \<and> \<not> fp_finite (CSZ_fp u) \<and> \<not> fp_finite (CTA_fp u))))"
proof -
  let ?c = "(m, k, j, i)"
  let ?g = "metric_at E ?c"
  let ?sd = "fp_sqrt (GetDeterminant ?g)"
  let ?isd = "fp_div (Fin 1) ?sd"
  let ?t = "PrimToCons E ps il iu jl ju kl ku s"
  note P = PrimToCons_converted_at [OF box refl, of ps s]
  have neg: "cons_fp ?t ?c IDN = NaN" "cons_fp ?t ?c IM1 = NaN" "cons_fp ?t ?c IM2 = NaN"
    "cons_fp ?t ?c IM3 = NaN" "cons_fp ?t ?c IEN = NaN"
    "nmhd E \<le> n \<and> n < nmhd E + nscalars E \<longrightarrow> cons_fp ?t ?c n = NaN"
    if "GetDeterminant ?g < 0"
  proof -
    have sd: "?sd = NaN" using that by (simp add: fp_sqrt_def)
    show "cons_fp ?t ?c IDN = NaN" "cons_fp ?t ?c IM1 = NaN" "cons_fp ?t ?c IM2 = NaN"
      "cons_fp ?t ?c IM3 = NaN" "cons_fp ?t ?c IEN = NaN"
      "nmhd E \<le> n \<and> n < nmhd E + nscalars E \<longrightarrow> cons_fp ?t ?c n = NaN"
      unfolding P sd by (simp_all add: store_cons_fp_NaN)
  qed
  have 1: "(let c = (m, k, j, i);
             g = metric_at E c;
             sdetg = fp_sqrt (GetDeterminant g);
             b = (fp_div (bcc0_fp s c IBX) sdetg, fp_div (bcc0_fp s c IBY) sdetg,
                  fp_div (bcc0_fp s c IBZ) sdetg);
             p = extract_prim ps E (GetBaryonMass (eos_fp s)) c (prim_fp s);
             fl = ApplyPrimitiveFloor_fp ps (eos_fp s)
                    (p\<lparr>PTM_fp := GetTemperatureFromP_fp ps (eos_fp s) (PRH_fp p) (PPR_fp p)
                                    (PYF_fp p)\<rparr>);
             u = PrimToCon_fp ps (eos_fp s) (snd fl) b g;
             t = PrimToCons E ps il iu jl ju kl ku s
         in cons_fp t c = store_cons_fp (cons_fp s) c (nmhd E) (nscalars E) sdetg u c
            \<and> (GetDeterminant g < 0 \<longrightarrow>
                 sdetg = NaN \<and> b = (NaN, NaN, NaN)
                 \<and> cons_fp t c IDN = NaN \<and> cons_fp t c IM1 = NaN \<and> cons_fp t c IM2 = NaN
                 \<and> cons_fp t c IM3 = NaN \<and> cons_fp t c IEN = NaN
                 \<and> (nmhd E \<le> n \<and> n < nmhd E + nscalars E \<longrightarrow> cons_fp t c n = NaN))
            \<and> (GetDeterminant g = 0 \<longrightarrow>
                 sdetg = Fin 0 \<and> \<not> fp_finite (fst b) \<and> \<not> fp_finite (fst (snd b))
                 \<and> \<not> fp_finite (snd (snd b)))
            \<and> out_fp (p2c_body E ps (eos_fp s) c s) =
                out_fp s @ fst (CheckForConservedNaNs u) @
                  (if snd (CheckForConservedNaNs u)
                   then [Printf_fp ''Error occurred in PrimToCons at'' [] [m, k, j, i] [],
                         DumpPrimitiveVars (snd fl)]
                   else []))"
    unfolding Let_def
  proof (intro conjI impI)
    show "cons_fp ?t ?c = store_cons_fp (cons_fp s) ?c (nmhd E) (nscalars E) ?sd
        (PrimToCon_fp ps (eos_fp s)
          (snd (ApplyPrimitiveFloor_fp ps (eos_fp s)
             ((extract_prim ps E (GetBaryonMass (eos_fp s)) ?c (prim_fp s))
                \<lparr>PTM_fp := GetTemperatureFromP_fp ps (eos_fp s)
                   (PRH_fp (extract_prim ps E (GetBaryonMass (eos_fp s)) ?c (prim_fp s)))
                   (PPR_fp (extract_prim ps E (GetBaryonMass (eos_fp s)) ?c (prim_fp s)))
                   (PYF_fp (extract_prim ps E (GetBaryonMass (eos_fp s)) ?c (prim_fp s)))\<rparr>)))
          (fp_div (bcc0_fp s ?c IBX) ?sd, fp_div (bcc0_fp s ?c IBY) ?sd,
           fp_div (bcc0_fp s ?c IBZ) ?sd)
          ?g) ?c"
      by (rule P)
    show "out_fp (p2c_body E ps (eos_fp s) ?c s) =
        out_fp s @
        fst (CheckForConservedNaNs
          (PrimToCon_fp ps (eos_fp s)
            (snd (ApplyPrimitiveFloor_fp ps (eos_fp s)
               ((extract_prim ps E (GetBaryonMass (eos_fp s)) ?c (prim_fp s))
                  \<lparr>PTM_fp := GetTemperatureFromP_fp ps (eos_fp s)
                     (PRH_fp (extract_prim ps E (GetBaryonMass (eos_fp s)) ?c (prim_fp s)))
                     (PPR_fp (extract_prim ps E (GetBaryonMass (eos_fp s)) ?c (prim_fp s)))
                     (PYF_fp (extract_prim ps E (GetBaryonMass (eos_fp s)) ?c (prim_fp s)))\<rparr>)))
            (fp_div (bcc0_fp s ?c IBX) ?sd, fp_div (bcc0_fp s ?c IBY) ?sd,
             fp_div (bcc0_fp s ?c IBZ) ?sd)
            ?g)) @
        (if snd (CheckForConservedNaNs
          (PrimToCon_fp ps (eos_fp s)
            (snd (ApplyPrimitiveFloor_fp ps (eos_fp s)
               ((extract_prim ps E (GetBaryonMass (eos_fp s)) ?c (prim_fp s))
                  \<lparr>PTM_fp := GetTemperatureFromP_fp ps (eos_fp s)
                     (PRH_fp (extract_prim ps E (GetBaryonMass (eos_fp s)) ?c (prim_fp s)))
                     (PPR_fp (extract_prim ps E (GetBaryonMass (eos_fp s)) ?c (prim_fp s)))
                     (PYF_fp (extract_prim ps E (GetBaryonMass (eos_fp s)) ?c (prim_fp s)))\<rparr>)))
            (fp_div (bcc0_fp s ?c IBX) ?sd, fp_div (bcc0_fp s ?c IBY) ?sd,
             fp_div (bcc0_fp s ?c IBZ) ?sd)
            ?g))
         then [Printf_fp ''Error occurred in PrimToCons at'' [] [m, k, j, i] [],
               DumpPrimitiveVars
                 (snd (ApplyPrimitiveFloor_fp ps (eos_fp s)
                   ((extract_prim ps E (GetBaryonMass (eos_fp s)) ?c (prim_fp s))
                      \<lparr>PTM_fp := GetTemperatureFromP_fp ps (eos_fp s)
                         (PRH_fp (extract_prim ps E (GetBaryonMass (eos_fp s)) ?c (prim_fp s)))
                         (PPR_fp (extract_prim ps E (GetBaryonMass (eos_fp s)) ?c (prim_fp s)))
                         (PYF_fp (extract_prim ps E (GetBaryonMass (eos_fp s)) ?c (prim_fp s)))\<rparr>)))]
         else [])"
      by (rule p2c_body_out [OF refl refl refl])
  qed (simp_all add: neg fp_sqrt_def fp_div_zero_not_finite)
  have 2: "(let c = (m, k, j, i);
             g = metric_at E c;
             sdetg = fp_sqrt (GetDeterminant g);
             isdetg = fp_div (Fin 1) sdetg;
             u = extract_cons_fp ps E c (cons_fp s) isdetg;
             gu = SpatialInv_fp (fp_div (Fin 1) (Fin (GetDeterminant g))) g;
             r = ConToPrim_fp ps (eos_fp s) u
                   (fp_mul (Fin (0.5 * (x1f bfc (m, k, j, i) + x1f bfc (m, k, j, i + 1)))) isdetg,
                    fp_mul (Fin (0.5 * (x2f bfc (m, k, j, i) + x2f bfc (m, k, j + 1, i)))) isdetg,
                    fp_mul (Fin (0.5 * (x3f bfc (m, k, j, i) + x3f bfc (m, k + 1, j, i)))) isdetg)
                   g gu;
             r' = ConToPrim_fp ps
                   ((eos_fp s)\<lparr>IsPrimitiveFlooringFailure := True,
                               IsConservedFlooringFailure := True\<rparr>) u
                   (fp_mul (bcc0_fp s c IBX) isdetg, fp_mul (bcc0_fp s c IBY) isdetg,
                    fp_mul (bcc0_fp s c IBZ) isdetg) g gu;
             t = ConsToPrim_fp E ps bfc il iu jl ju kl ku False s;
             t' = ConsToPrim_fp E ps bfc il iu jl ju kl ku True s
         in prim_fp t c IDN = fp_mul (PRH_fp (fst (snd r))) (Fin (GetBaryonMass (eos_fp s)))
            \<and> prim_fp t c IVX = PVX_fp (fst (snd r))
            \<and> prim_fp t c IVY = PVY_fp (fst (snd r))
            \<and> prim_fp t c IVZ = PVZ_fp (fst (snd r))
            \<and> prim_fp t c IPR = PPR_fp (fst (snd r))
            \<and> cons_fp t c =
                (if cons_floor (fst r) \<or> cons_adjusted (fst r)
                 then store_cons_fp (cons_fp s) c (nmhd E) (nscalars E) sdetg (snd (snd r)) c
                 else cons_fp s c)
            \<and> fofc_fp t' c = (error (fst r') \<noteq> SUCCESS \<or> fofc_fp s c)
            \<and> out_fp (fst (c2p_body_fp E ps (eos_fp s) bfc False c (s, 0))) =
                out_fp s @
                  (if error (fst r) \<noteq> SUCCESS
                   then [c2p_report_fp E c (error (fst r)) u (GetDeterminant g) g]
                   else [])
            \<and> (GetDeterminant g \<le> 0 \<longrightarrow>
                 isdetg = (if GetDeterminant g < 0 then NaN else Infinity)
                 \<and> \<not> fp_finite (CDN_fp u) \<and> \<not> fp_finite (CSX_fp u) \<and> \<not> fp_finite (CSY_fp u)
                 \<and> \<not> fp_finite (CSZ_fp u) \<and> \<not> fp_finite (CTA_fp u)))"
    if nex: "\<not> (bh_excise E \<and> excision_floor E ?c)"
  proof -
    let ?u = "extract_cons_fp ps E ?c (cons_fp s) ?isd"
    let ?gu = "SpatialInv_fp (fp_div (Fin 1) (Fin (GetDeterminant ?g))) ?g"
    let ?r = "ConToPrim_fp ps (eos_fp s) ?u
        (fp_mul (Fin (0.5 * (x1f bfc (m, k, j, i) + x1f bfc (m, k, j, i + 1)))) ?isd,
         fp_mul (Fin (0.5 * (x2f bfc (m, k, j, i) + x2f bfc (m, k, j + 1, i)))) ?isd,
         fp_mul (Fin (0.5 * (x3f bfc (m, k, j, i) + x3f bfc (m, k + 1, j, i)))) ?isd)
        ?g ?gu"
    let ?r' = "ConToPrim_fp ps
        ((eos_fp s)\<lparr>IsPrimitiveFlooringFailure := True, IsConservedFlooringFailure := True\<rparr>) ?u
        (fp_mul (bcc0_fp s ?c IBX) ?isd, fp_mul (bcc0_fp s ?c IBY) ?isd,
         fp_mul (bcc0_fp s ?c IBZ) ?isd) ?g ?gu"
    let ?F = "ConsToPrim_fp E ps bfc il iu jl ju kl ku False s"
    let ?T = "ConsToPrim_fp E ps bfc il iu jl ju kl ku True s"
    have rF: "?r = ConToPrim_fp ps (pass_policy False (eos_fp s)) ?u
        (fp_mul (cc_fields_fp bfc False ?c (bcc0_fp s) ?c IBX) ?isd,
         fp_mul (cc_fields_fp bfc False ?c (bcc0_fp s) ?c IBY) ?isd,
         fp_mul (cc_fields_fp bfc False ?c (bcc0_fp s) ?c IBZ) ?isd)
        ?g ?gu"
      by (simp only: cc_fields_fp_means pass_policy_def if_False)
    have rT: "?r' = ConToPrim_fp ps (pass_policy True (eos_fp s)) ?u
        (fp_mul (cc_fields_fp bfc True ?c (bcc0_fp s) ?c IBX) ?isd,
         fp_mul (cc_fields_fp bfc True ?c (bcc0_fp s) ?c IBY) ?isd,
         fp_mul (cc_fields_fp bfc True ?c (bcc0_fp s) ?c IBZ) ?isd)
        ?g ?gu"
      by (simp only: cc_fields_fp_means pass_policy_def if_True)
    note F = ConsToPrim_fp_solved_at [OF box nex rF]
    note T = ConsToPrim_fp_solved_at [OF box nex rT]
    have p: "prim_fp ?F ?c =
        copy_prim_fp (prim_fp s) ?c (nmhd E) (nscalars E) (GetBaryonMass (eos_fp s))
          (fst (snd ?r)) ?c"
      by (simp only: F(1) simp_thms if_False)
    have a: "prim_fp ?F ?c IDN = fp_mul (PRH_fp (fst (snd ?r))) (Fin (GetBaryonMass (eos_fp s)))"
      "prim_fp ?F ?c IVX = PVX_fp (fst (snd ?r))"
      "prim_fp ?F ?c IVY = PVY_fp (fst (snd ?r))"
      "prim_fp ?F ?c IVZ = PVZ_fp (fst (snd ?r))"
      "prim_fp ?F ?c IPR = PPR_fp (fst (snd ?r))"
      unfolding p by (simp_all only: copy_prim_fp_apply) (simp_all add: index_defs)
    have b: "cons_fp ?F ?c =
        (if cons_floor (fst ?r) \<or> cons_adjusted (fst ?r)
         then store_cons_fp (cons_fp s) ?c (nmhd E) (nscalars E) ?sd (snd (snd ?r)) ?c
         else cons_fp s ?c)"
      by (simp only: F(2) simp_thms if_False)
    have c: "fofc_fp ?T ?c = (error (fst ?r') \<noteq> SUCCESS \<or> fofc_fp s ?c)"
      by (simp only: T(3) simp_thms) simp
    have d: "?isd = (if GetDeterminant ?g < 0 then NaN else Infinity)"
      "\<not> fp_finite (CDN_fp ?u)" "\<not> fp_finite (CSX_fp ?u)" "\<not> fp_finite (CSY_fp ?u)"
      "\<not> fp_finite (CSZ_fp ?u)" "\<not> fp_finite (CTA_fp ?u)"
      if "GetDeterminant ?g \<le> 0"
    proof -
      show "?isd = (if GetDeterminant ?g < 0 then NaN else Infinity)"
        using that by (rule isdetg_nonpos)
      show "\<not> fp_finite (CDN_fp ?u)" "\<not> fp_finite (CSX_fp ?u)" "\<not> fp_finite (CSY_fp ?u)"
        "\<not> fp_finite (CSZ_fp ?u)" "\<not> fp_finite (CTA_fp ?u)"
        by (rule extract_cons_fp_not_finite [OF isdetg_not_finite [OF that]])+
    qed
    have e: "out_fp (fst (c2p_body_fp E ps (eos_fp s) bfc False ?c (s, 0))) =
        out_fp s @
          (if error (fst ?r) \<noteq> SUCCESS
           then [c2p_report_fp E ?c (error (fst ?r)) ?u (GetDeterminant ?g) ?g]
           else [])"
    proof -
      have "?r = ConToPrim_fp ps (eos_fp s) ?u
          (fp_mul (cc_fields_fp bfc False ?c (bcc0_fp s) ?c IBX) ?isd,
           fp_mul (cc_fields_fp bfc False ?c (bcc0_fp s) ?c IBY) ?isd,
           fp_mul (cc_fields_fp bfc False ?c (bcc0_fp s) ?c IBZ) ?isd)
          ?g ?gu"
        by (simp only: cc_fields_fp_means)
      from c2p_body_fp_out [OF nex refl this] show ?thesis .
    qed
    show ?thesis
      unfolding Let_def
      by (intro conjI impI a b c d e)
  qed
  from 1 2 show ?thesis by (intro conjI impI)
qed

lemma ex_neg_box: "in_box (nmb_thispack ex_env_neg) 0 1 0 0 0 0 (0, 0, 0, 1)"
  by (simp add: in_box_def ex_env_neg_def ex_env_def)

lemma ex_neg_not_excised: "\<not> (bh_excise ex_env_neg \<and> excision_floor ex_env_neg (0, 0, 0, 1))"
  by (simp add: ex_env_neg_def ex_env_def)

lemma ex_neg_det: "GetDeterminant (metric_at ex_env_neg c) = - 4"
  by (simp add: GetDeterminant_def metric_at_def ex_env_neg_def ex_env_def)

lemma ex_counts:
  "nmhd ex_env_zero = 5" "nscalars ex_env_zero = 1" "nmhd ex_env_neg = 5" "nscalars ex_env_neg = 1"
  by (simp_all add: ex_env_zero_def ex_env_neg_def ex_env_def)

theorem determinant_not_checked_witness:
  "cons_fp (PrimToCons ex_env_zero ex_solver_fp 0 1 0 0 0 0 ex_pack_fp) (0, 0, 0, 1) IDN = Fin 0
   \<and> cons_fp (PrimToCons ex_env_zero ex_solver_fp 0 1 0 0 0 0 ex_pack_fp) (0, 0, 0, 1) IM1 = NaN
   \<and> prim_fp (ConsToPrim_fp ex_env_zero ex_solver_fp ex_bfc 0 1 0 0 0 0 False ex_pack_fp)
        (0, 0, 0, 1) IDN = Infinity
   \<and> prim_fp (ConsToPrim_fp ex_env_zero ex_solver_fp ex_bfc 0 1 0 0 0 0 False ex_pack_fp)
        (0, 0, 0, 1) IVX = Infinity
   \<and> fofc_fp (ConsToPrim_fp ex_env_zero ex_solver_fp ex_bfc 0 1 0 0 0 0 True ex_pack_fp)
        (0, 0, 0, 1)"
  using determinant_not_checked [OF ex_zero_box, where ps = ex_solver_fp and s = ex_pack_fp
      and bfc = ex_bfc and n = 5]
  by (simp add: Let_def ex_zero_det ex_zero_not_excised ex_counts fp_sqrt_def
      store_cons_fp_apply index_defs ex_solver_fp_def ex_pack_fp_def extract_prim_def
      extract_cons_fp_def ex_bfc_def)

text \<open>
  Against claim C8 as stated: with a metric of determinant \<open>- 4\<close> neither conversion
  rejects the cell. \<open>PrimToCons\<close> overwrites the conserved density and energy, which
  were \<open>1\<close>, with NaN; \<open>ConsToPrim\<close> overwrites the primitive density, which was
  \<open>1 / 4\<close>, with what the root-finder returns for a conserved state that is NaN, and with
  \<open>floors_only\<close> it flags the cell.
\<close>

theorem negative_determinant_accepted:
  "GetDeterminant (metric_at ex_env_neg (0, 0, 0, 1)) = - 4
   \<and> cons_fp ex_pack_fp (0, 0, 0, 1) IDN = Fin 1
   \<and> cons_fp (PrimToCons ex_env_neg ex_solver_fp 0 1 0 0 0 0 ex_pack_fp) (0, 0, 0, 1) IDN = NaN
   \<and> cons_fp (PrimToCons ex_env_neg ex_solver_fp 0 1 0 0 0 0 ex_pack_fp) (0, 0, 0, 1) IEN = NaN
   \<and> prim_fp ex_pack_fp (0, 0, 0, 1) IDN = Fin (1 / 4)
   \<and> prim_fp (ConsToPrim_fp ex_env_neg ex_solver_fp ex_bfc 0 1 0 0 0 0 False ex_pack_fp)
        (0, 0, 0, 1) IDN = NaN
   \<and> \<not> fofc_fp ex_pack_fp (0, 0, 0, 1)
   \<and> fofc_fp (ConsToPrim_fp ex_env_neg ex_solver_fp ex_bfc 0 1 0 0 0 0 True ex_pack_fp)
        (0, 0, 0, 1)"
proof -
  have 1: "cons_fp (PrimToCons ex_env_neg ex_solver_fp 0 1 0 0 0 0 ex_pack_fp) (0, 0, 0, 1) n = NaN"
    if "n \<in> {IDN, IM1, IM2, IM3, IEN}" for n
    using that
    by (simp only: PrimToCons_converted_at [OF ex_neg_box refl] ex_neg_det)
      (auto simp add: fp_sqrt_def store_cons_fp_NaN)
  have 2: "prim_fp (ConsToPrim_fp ex_env_neg ex_solver_fp ex_bfc 0 1 0 0 0 0 False ex_pack_fp)
        (0, 0, 0, 1) IDN = NaN"
    by (simp only: ConsToPrim_fp_solved_at(1) [OF ex_neg_box ex_neg_not_excised refl] ex_neg_det)
      (simp add: fp_sqrt_def ex_solver_fp_def extract_cons_fp_def copy_prim_fp_apply index_defs)
  have 3: "fofc_fp (ConsToPrim_fp ex_env_neg ex_solver_fp ex_bfc 0 1 0 0 0 0 True ex_pack_fp)
        (0, 0, 0, 1)"
    by (simp only: ConsToPrim_fp_solved_at(3) [OF ex_neg_box ex_neg_not_excised refl] ex_neg_det)
      (simp add: fp_sqrt_def ex_solver_fp_def extract_cons_fp_def)
  show ?thesis
    using 1 [of IDN] 1 [of IEN] 2 3 by (simp add: ex_neg_det ex_pack_fp_def)
qed

section \<open>The two models of ConsToPrim\<close>

lemma positive_determinant:
  assumes "0 < d"
  shows "fp_sqrt d = Fin (sqrt d)" "fp_div (Fin 1) (fp_sqrt d) = Fin (1 / sqrt d)"
    "fp_div (Fin 1) (Fin d) = Fin (1 / d)"
  using assms by (simp_all add: fp_sqrt_def)

lemma SpatialInv_fp_fin: "SpatialInv_fp (Fin x) g = fin_g3 (SpatialInv x g)"
  by (simp add: SpatialInv_fp_def SpatialInv_def fin_g3_def)

lemma extract_cons_fp_fin:
  assumes "\<And>n. u' c n = Fin (u c n)" and "\<And>n. junk_fp psf n = Fin (junk E n)"
  shows "extract_cons_fp psf E c u' (Fin x) = fin_cons (extract_cons E c u x)"
  by (simp add: extract_cons_fp_def extract_cons_def fin_cons_def assms fun_eq_iff)

lemma cc_fields_fp_fin:
  assumes "\<And>n. b' c n = Fin (b c n)"
  shows "cc_fields_fp bfc fl c b' c n = Fin (cc_fields bfc fl c b c n)"
  using assms by (cases c; cases fl; simp add: cc_fields_fp_def cc_fields_def upd_apply)

lemma copy_prim_fp_fin:
  assumes "\<And>n. a' c n = Fin (a c n)"
  shows "copy_prim_fp a' c nhyd nscal mb (fin_prim p) c n = Fin (copy_prim a c nhyd nscal mb p c n)"
  by (simp add: copy_prim_fp_apply copy_prim_apply fin_prim_def assms)

lemma store_cons_apply:
  "store_cons a c nhyd nscal sd u c' n =
    (if c' = c \<and> nhyd \<le> n \<and> n < nhyd + nscal then CYD u (n - nhyd) * sd
     else if c' = c \<and> n = IEN then CTA u * sd
     else if c' = c \<and> n = IM3 then CSZ u * sd
     else if c' = c \<and> n = IM2 then CSY u * sd
     else if c' = c \<and> n = IM1 then CSX u * sd
     else if c' = c \<and> n = IDN then CDN u * sd
     else a c' n)"
  by (simp add: store_cons_def store_scalars_apply upd_apply)

lemma store_cons_fp_fin:
  assumes "\<And>n. a' c n = Fin (a c n)"
  shows "store_cons_fp a' c nhyd nscal (Fin sd) (fin_cons u) c n =
    Fin (store_cons a c nhyd nscal sd u c n)"
  by (simp add: store_cons_fp_apply store_cons_apply fin_cons_def assms)

text \<open>
  Where the determinant of the metric is positive, the values of a cell are finite and the
  two root-finders agree, the floating-point model of ConsToPrim leaves at the cell the
  values that the model on the reals leaves, and the same flag.
\<close>

lemma ConsToPrim_fp_agrees:
  assumes box: "in_box (nmb_thispack E) il iu jl ju kl ku c"
    and nex: "\<not> (bh_excise E \<and> excision_floor E c)"
    and det: "0 < GetDeterminant (metric_at E c)"
    and ag: "solvers_agree ps psf"
    and junk: "\<And>n. junk_fp psf n = Fin (junk E n)"
    and eos: "eos_fp t = eos s"
    and cons: "\<And>n. cons_fp t c n = Fin (cons s c n)"
    and bcc0: "\<And>n. bcc0_fp t c n = Fin (bcc0 s c n)"
    and prim: "\<And>n. prim_fp t c n = Fin (prim s c n)"
    and fofc: "fofc_fp t c = fofc s c"
  shows "prim_fp (ConsToPrim_fp E psf bfc il iu jl ju kl ku fl t) c n =
      Fin (prim (ConsToPrim E ps bfc il iu jl ju kl ku fl s) c n)"
    and "cons_fp (ConsToPrim_fp E psf bfc il iu jl ju kl ku fl t) c n =
      Fin (cons (ConsToPrim E ps bfc il iu jl ju kl ku fl s) c n)"
    and "fofc_fp (ConsToPrim_fp E psf bfc il iu jl ju kl ku fl t) c =
      fofc (ConsToPrim E ps bfc il iu jl ju kl ku fl s) c"
proof -
  let ?d = "GetDeterminant (metric_at E c)"
  let ?isd = "1 / sqrt ?d"
  let ?r = "ConToPrim ps (pass_policy fl (eos s))
         (extract_cons E c (cons s) ?isd)
         (cc_fields bfc fl c (bcc0 s) c IBX * ?isd,
          cc_fields bfc fl c (bcc0 s) c IBY * ?isd,
          cc_fields bfc fl c (bcc0 s) c IBZ * ?isd)
         (metric_at E c) (SpatialInv (1 / ?d) (metric_at E c))"
  let ?rf = "(fst ?r, fin_prim (fst (snd ?r)), fin_cons (snd (snd ?r)))"
  have isd: "fp_div (Fin 1) (fp_sqrt ?d) = Fin ?isd"
    and dinv: "fp_div (Fin 1) (Fin ?d) = Fin (1 / ?d)"
    by (rule positive_determinant [OF det])+
  have b: "fp_mul (cc_fields_fp bfc fl c (bcc0_fp t) c n) (Fin ?isd) =
      Fin (cc_fields bfc fl c (bcc0 s) c n * ?isd)" for n
    by (simp add: cc_fields_fp_fin [of "bcc0_fp t" c "bcc0 s", OF bcc0])
  note u = extract_cons_fp_fin [of "cons_fp t" c "cons s" psf E, OF cons junk]
  have "ConToPrim_fp psf (pass_policy fl (eos_fp t))
         (extract_cons_fp psf E c (cons_fp t) (fp_div (Fin 1) (fp_sqrt ?d)))
         (fp_mul (cc_fields_fp bfc fl c (bcc0_fp t) c IBX) (fp_div (Fin 1) (fp_sqrt ?d)),
          fp_mul (cc_fields_fp bfc fl c (bcc0_fp t) c IBY) (fp_div (Fin 1) (fp_sqrt ?d)),
          fp_mul (cc_fields_fp bfc fl c (bcc0_fp t) c IBZ) (fp_div (Fin 1) (fp_sqrt ?d)))
         (metric_at E c) (SpatialInv_fp (fp_div (Fin 1) (Fin ?d)) (metric_at E c)) =
      ConToPrim_fp psf (pass_policy fl (eos s))
         (fin_cons (extract_cons E c (cons s) ?isd))
         (Fin (cc_fields bfc fl c (bcc0 s) c IBX * ?isd),
          Fin (cc_fields bfc fl c (bcc0 s) c IBY * ?isd),
          Fin (cc_fields bfc fl c (bcc0 s) c IBZ * ?isd))
         (metric_at E c) (fin_g3 (SpatialInv (1 / ?d) (metric_at E c)))"
    by (simp only: isd dinv b u SpatialInv_fp_fin eos)
  also have "\<dots> = ?rf"
    using ag unfolding solvers_agree_def by blast
  finally have rf0: "?rf = ConToPrim_fp psf (pass_policy fl (eos_fp t))
         (extract_cons_fp psf E c (cons_fp t) (fp_div (Fin 1) (fp_sqrt ?d)))
         (fp_mul (cc_fields_fp bfc fl c (bcc0_fp t) c IBX) (fp_div (Fin 1) (fp_sqrt ?d)),
          fp_mul (cc_fields_fp bfc fl c (bcc0_fp t) c IBY) (fp_div (Fin 1) (fp_sqrt ?d)),
          fp_mul (cc_fields_fp bfc fl c (bcc0_fp t) c IBZ) (fp_div (Fin 1) (fp_sqrt ?d)))
         (metric_at E c) (SpatialInv_fp (fp_div (Fin 1) (Fin ?d)) (metric_at E c))"
    by (rule sym)
  define rr where "rr = ?r"
  note rf = rf0 [folded rr_def]
  note R = ConsToPrim_solved_at [OF box nex rr_def]
  note F = ConsToPrim_fp_solved_at [OF box nex rf]
  show "prim_fp (ConsToPrim_fp E psf bfc il iu jl ju kl ku fl t) c n =
      Fin (prim (ConsToPrim E ps bfc il iu jl ju kl ku fl s) c n)"
  proof (cases "error (fst rr) \<noteq> SUCCESS \<and> fl")
    case True
    show ?thesis
      unfolding F(1) R(1) fst_conv snd_conv
      using True by (simp only: simp_thms if_True prim)
  next
    case False
    show ?thesis
      unfolding F(1) R(1) fst_conv snd_conv
      using False
      by (simp only: simp_thms if_False eos
          copy_prim_fp_fin [of "prim_fp t" c "prim s", OF prim])
  qed
  show "cons_fp (ConsToPrim_fp E psf bfc il iu jl ju kl ku fl t) c n =
      Fin (cons (ConsToPrim E ps bfc il iu jl ju kl ku fl s) c n)"
  proof (cases "error (fst rr) \<noteq> SUCCESS \<and> fl")
    case True
    show ?thesis
      unfolding F(2) R(2) fst_conv snd_conv
      using True by (simp only: simp_thms if_True cons)
  next
    case False
    show ?thesis
    proof (cases "cons_floor (fst rr) \<or> cons_adjusted (fst rr)")
      case True
      show ?thesis
        unfolding F(2) R(2) fst_conv snd_conv positive_determinant [OF det]
        using False True
        by (simp only: simp_thms if_False if_True
            store_cons_fp_fin [of "cons_fp t" c "cons s", OF cons])
    next
      case nf: False
      show ?thesis
        unfolding F(2) R(2) fst_conv snd_conv
        using False nf by (simp only: simp_thms if_False cons)
    qed
  qed
  show "fofc_fp (ConsToPrim_fp E psf bfc il iu jl ju kl ku fl t) c =
      fofc (ConsToPrim E ps bfc il iu jl ju kl ku fl s) c"
    unfolding F(3) R(3) fst_conv by (simp only: fofc)
qed

end
